(* ===== verification/USB_Prelude.thy ===== *)
theory USB_Prelude
  imports Main "HOL-Library.Word" "HOL-Library.Monad_Syntax"
begin

text \<open>
  Shared vocabulary of the development: the machine integer types of the Go sources
  (\<open>uint8\<close>, \<open>uint16\<close>, \<open>uint32\<close>, and Go's 32-bit \<open>int\<close> on GOARCH=arm), the
  bit-field helpers of the \<open>bits\<close> package that every driver uses to build register
  and descriptor words, and the little-endian byte codecs that \<open>encoding/binary\<close>
  applies when descriptors are copied to and from DMA memory.  The \<open>bits\<close> package and
  \<open>encoding/binary\<close> are not part of the sources under \<open>src/\<close>; they are modelled from
  their documented behaviour (\<open>SetN\<close> clears the field selected by \<open>mask << pos\<close> and
  ors in \<open>val << pos\<close>, without masking \<open>val\<close>).  The lemmas here are the generic
  facts the component theories share: reading back a field that was just written, fields
  that do not overlap, and the round trips of the byte codecs.
\<close>

unbundle bit_operations_syntax

type_synonym u8 = "8 word"
type_synonym u16 = "16 word"
type_synonym u32 = "32 word"

named_theorems field_simps_usb "read-back rules of bit fields written by the drivers"

section \<open>The bits package\<close>

definition bits_get :: "u32 \<Rightarrow> nat \<Rightarrow> u32 \<Rightarrow> u32" where
  "bits_get x pos m = drop_bit pos x AND m"

definition bits_set :: "u32 \<Rightarrow> nat \<Rightarrow> u32" where
  "bits_set x pos = x OR push_bit pos 1"

definition bits_clear :: "u32 \<Rightarrow> nat \<Rightarrow> u32" where
  "bits_clear x pos = x AND NOT (push_bit pos 1)"

definition bits_setN :: "u32 \<Rightarrow> nat \<Rightarrow> u32 \<Rightarrow> u32 \<Rightarrow> u32" where
  "bits_setN x pos m v = (x AND NOT (push_bit pos m)) OR push_bit pos v"

definition bits_setTo :: "u32 \<Rightarrow> nat \<Rightarrow> bool \<Rightarrow> u32" where
  "bits_setTo x pos b = (if b then bits_set x pos else bits_clear x pos)"

section \<open>Little-endian codecs of encoding/binary\<close>

definition le16 :: "u16 \<Rightarrow> u8 list" where
  "le16 x = [ucast x, ucast (drop_bit 8 x)]"

definition le32 :: "u32 \<Rightarrow> u8 list" where
  "le32 x = [ucast x, ucast (drop_bit 8 x), ucast (drop_bit 16 x), ucast (drop_bit 24 x)]"

definition of_le16 :: "u8 list \<Rightarrow> u16" where
  "of_le16 bs = ucast (bs ! 0) OR push_bit 8 (ucast (bs ! 1))"

definition of_le32 :: "u8 list \<Rightarrow> u32" where
  "of_le32 bs = ucast (bs ! 0) OR push_bit 8 (ucast (bs ! 1))
     OR push_bit 16 (ucast (bs ! 2)) OR push_bit 24 (ucast (bs ! 3))"

text \<open>\<open>binary.BigEndian.PutUint16\<close>: the two bytes of a value, most significant first.\<close>

definition be16 :: "u16 \<Rightarrow> u8 list" where
  "be16 x = rev (le16 x)"

text \<open>A sequence of 32-bit words laid out one after the other, as \<open>binary.Write\<close> does
  for an array field.\<close>

definition le32_list :: "u32 list \<Rightarrow> u8 list" where
  "le32_list ws = concat (map le32 ws)"

fun of_le32_list :: "nat \<Rightarrow> u8 list \<Rightarrow> u32 list" where
  "of_le32_list 0 bs = []"
| "of_le32_list (Suc k) bs = of_le32 (take 4 bs) # of_le32_list k (drop 4 bs)"

section \<open>Bit fields\<close>

lemma bit_unat_bound:
  fixes v :: "'a::len word"
  assumes "unat v < 2 ^ w" and "bit v i"
  shows "i < w"
proof -
  have "bit (unat v) i" using assms(2) by (simp add: bit_unsigned_iff)
  then have "bit (take_bit w (unat v)) i" using assms(1) by (simp add: take_bit_nat_eq_self)
  then show ?thesis by (simp add: bit_take_bit_iff)
qed

lemma bits_get_setN_same [field_simps_usb]:
  assumes "unat v < 2 ^ w" and "pos + w \<le> 32"
  shows "bits_get (bits_setN x pos (mask w) v) pos (mask w) = v"
proof -
  have vb: "\<And>i. bit v i \<Longrightarrow> i < w" using assms(1) by (rule bit_unat_bound)
  show ?thesis unfolding bits_get_def bits_setN_def
    using assms(2) by (intro bit_word_eqI) (auto simp: bit_simps dest: vb bit_imp_le_length)
qed

lemma bits_get_setN_other [field_simps_usb]:
  assumes "unat v < 2 ^ w" and "q + w' \<le> pos \<or> pos + w \<le> q"
  shows "bits_get (bits_setN x pos (mask w) v) q (mask w') = bits_get x q (mask w')"
proof -
  have vb: "\<And>i. bit v i \<Longrightarrow> i < w" using assms(1) by (rule bit_unat_bound)
  show ?thesis unfolding bits_get_def bits_setN_def
    using assms(2) by (intro bit_word_eqI) (auto simp: bit_simps dest: vb bit_imp_le_length)
qed

lemma bits_set_eq_setN: "bits_set x pos = bits_setN x pos (mask 1) 1"
  unfolding bits_set_def bits_setN_def
  by (intro bit_word_eqI) (auto simp: bit_simps)

lemma bits_clear_eq_setN: "bits_clear x pos = bits_setN x pos (mask 1) 0"
  unfolding bits_clear_def bits_setN_def
  by (intro bit_word_eqI) (auto simp: bit_simps)

lemma bits_get_one: "bits_get x pos 1 = (if bit x pos then 1 else 0)"
  unfolding bits_get_def
  by (intro bit_word_eqI) (auto simp: bit_simps bit_1_iff elim: bit_imp_possible_bit; metis add_0_right neq0_conv)

lemma bits_get_one_neq: "bits_get x pos 1 \<noteq> 0 \<longleftrightarrow> bit x pos"
  by (simp add: bits_get_one)

lemma bits_get_zero [simp]: "bits_get 0 pos m = 0"
  by (simp add: bits_get_def)

lemma mask_literals_usb:
  "(0x7ff::u32) = mask 11" "(0xffff::u32) = mask 16" "(3::u32) = mask 2"
  "(1::u32) = mask 1" "(0xff::u32) = mask 8" "(7::u32) = mask 3" "(0x7f::u32) = mask 7"
  by (simp_all add: mask_eq_exp_minus_1)

text \<open>The drivers write masks as literals (\<open>0x7ff\<close>, \<open>0b11\<close>, \<open>1\<close>); these rules turn the
  literal in mask position into \<^term>\<open>mask w\<close> so that the field rules above apply.\<close>

lemma bits_lits [field_simps_usb]:
  "\<And>x p v. bits_setN x p 1 v = bits_setN x p (mask 1) v" "\<And>x p. bits_get x p 1 = bits_get x p (mask 1)"
  "\<And>x p v. bits_setN x p 3 v = bits_setN x p (mask 2) v" "\<And>x p. bits_get x p 3 = bits_get x p (mask 2)"
  "\<And>x p v. bits_setN x p 0x7ff v = bits_setN x p (mask 11) v" "\<And>x p. bits_get x p 0x7ff = bits_get x p (mask 11)"
  "\<And>x p v. bits_setN x p 0xffff v = bits_setN x p (mask 16) v" "\<And>x p. bits_get x p 0xffff = bits_get x p (mask 16)"
  "\<And>x p v. bits_setN x p 0x7f v = bits_setN x p (mask 7) v" "\<And>x p. bits_get x p 0x7f = bits_get x p (mask 7)"
  by (simp_all add: mask_eq_exp_minus_1)

lemma of_nat_fits: "x < 2 ^ w \<Longrightarrow> w \<le> 32 \<Longrightarrow> unat (of_nat x :: u32) < 2 ^ w"
proof -
  assume "x < 2 ^ w" "w \<le> 32"
  moreover have "(2::nat) ^ w \<le> 2 ^ 32" using \<open>w \<le> 32\<close> by (rule power_increasing) simp
  ultimately show ?thesis by (simp add: unat_of_nat)
qed

lemma bit_bits_setN_zero:
  "bit (bits_setN x p (mask w) 0) i \<longleftrightarrow> bit x i \<and> \<not> (p \<le> i \<and> i < p + w)"
  unfolding bits_setN_def by (auto simp: bit_simps dest: bit_imp_le_length)

lemma bit_bits_set: "bit (bits_set x p) i \<longleftrightarrow> bit x i \<or> (i = p \<and> p < 32)"
  unfolding bits_set_def by (auto simp: bit_simps)

lemma bit_bits_clear: "bit (bits_clear x p) i \<longleftrightarrow> bit x i \<and> i \<noteq> p"
  unfolding bits_clear_def by (auto simp: bit_simps dest: bit_imp_le_length)

section \<open>Byte codecs\<close>

lemma length_le16 [simp]: "length (le16 x) = 2"
  by (simp add: le16_def)

lemma length_le32 [simp]: "length (le32 x) = 4"
  by (simp add: le32_def)

lemma length_be16 [simp]: "length (be16 x) = 2"
  by (simp add: be16_def)

lemma of_le16_le16 [simp]: "of_le16 (le16 x) = x"
  unfolding of_le16_def le16_def
  by (intro bit_word_eqI) (auto simp: bit_simps)

lemma of_le32_le32 [simp]: "of_le32 (le32 x) = x"
proof (intro bit_word_eqI)
  fix n :: nat
  assume "n < LENGTH(32)"
  then have "n < 32" by simp
  then consider "n < 8" | "8 \<le> n \<and> n < 16" | "16 \<le> n \<and> n < 24" | "24 \<le> n \<and> n < 32"
    by linarith
  then show "bit (of_le32 (le32 x)) n = bit x n"
    by cases (auto simp: bit_simps of_le32_def le32_def)
qed

lemma le16_of_le16: "length bs = 2 \<Longrightarrow> le16 (of_le16 bs) = bs"
proof -
  assume "length bs = 2"
  then obtain a b where bs: "bs = [a, b]"
    by (cases bs; cases "tl bs") auto
  have "ucast (of_le16 [a, b]) = a"
    unfolding of_le16_def by (intro bit_word_eqI) (auto simp: bit_simps)
  moreover have "ucast (drop_bit 8 (of_le16 [a, b])) = b"
    unfolding of_le16_def by (intro bit_word_eqI) (auto simp: bit_simps dest: bit_imp_le_length)
  ultimately show ?thesis by (simp add: bs le16_def)
qed

lemma le32_of_le32: "length bs = 4 \<Longrightarrow> le32 (of_le32 bs) = bs"
proof -
  assume "length bs = 4"
  then obtain a b c d where bs: "bs = [a, b, c, d]"
    by (cases bs; cases "tl bs"; cases "tl (tl bs)"; cases "tl (tl (tl bs))") auto
  have "ucast (of_le32 [a, b, c, d]) = a"
    unfolding of_le32_def by (intro bit_word_eqI) (auto simp: bit_simps)
  moreover have "ucast (drop_bit 8 (of_le32 [a, b, c, d])) = b"
    unfolding of_le32_def by (intro bit_word_eqI) (auto simp: bit_simps dest: bit_imp_le_length)
  moreover have "ucast (drop_bit 16 (of_le32 [a, b, c, d])) = c"
    unfolding of_le32_def by (intro bit_word_eqI) (auto simp: bit_simps dest: bit_imp_le_length)
  moreover have "ucast (drop_bit 24 (of_le32 [a, b, c, d])) = d"
    unfolding of_le32_def by (intro bit_word_eqI) (auto simp: bit_simps dest: bit_imp_le_length)
  ultimately show ?thesis by (simp add: bs le32_def)
qed
lemma length_le32_list [simp]: "length (le32_list ws) = 4 * length ws"
  by (induction ws) (simp_all add: le32_list_def)

lemma le32_list_Cons [simp]: "le32_list (w # ws) = le32 w @ le32_list ws"
  by (simp add: le32_list_def)

lemma le32_list_Nil [simp]: "le32_list [] = []"
  by (simp add: le32_list_def)

lemma of_le32_list_append:
  "length ws = k \<Longrightarrow> of_le32_list k (le32_list ws @ rest) = ws"
proof (induction ws arbitrary: k)
  case Nil
  then show ?case by simp
next
  case (Cons w ws)
  then obtain k' where "k = Suc k'" and "length ws = k'" by auto
  moreover have "take 4 (le32 w @ le32_list ws @ rest) = le32 w"
    by simp
  moreover have "drop 4 (le32 w @ le32_list ws @ rest) = le32_list ws @ rest"
    by simp
  ultimately show ?case using Cons.IH by simp
qed

lemma of_le32_list_le32_list [simp]: "of_le32_list (length ws) (le32_list ws) = ws"
  using of_le32_list_append [of ws "length ws" "[]"] by simp

lemma of_le16_low: "of_le16 [a, b] AND 0xff = ucast a"
proof -
  have m: "(0xff::u16) = mask 8" by (simp add: mask_eq_exp_minus_1)
  show ?thesis unfolding of_le16_def m
    by (intro bit_word_eqI) (auto simp: bit_simps dest: bit_imp_le_length)
qed

lemma of_le16_high: "drop_bit 8 (of_le16 [a, b]) = ucast b"
  unfolding of_le16_def
  by (intro bit_word_eqI) (auto simp: bit_simps dest: bit_imp_le_length)

text \<open>The high byte of a 16-bit word plus one does not wrap.\<close>

lemma unat_high_byte_Suc: "unat (drop_bit 8 (v :: u16) + 1) = Suc (unat (drop_bit 8 v))"
proof -
  have "unat v < 2 ^ 16" using unsigned_less [of v] by simp
  moreover have "unat (drop_bit 8 v) = unat v div 256"
    by (simp add: drop_bit_eq_div unat_div)
  ultimately have b: "unat (drop_bit 8 v) < 256" by simp
  have "unat (drop_bit 8 v + 1) = (unat (drop_bit 8 v) + 1) mod 2 ^ 16" by (simp add: unat_word_ariths)
  with b show ?thesis by simp
qed

text \<open>The bits of a power of two, in the form \<open>bit_simps\<close> leaves a word literal in.\<close>

lemma bit_int_exp: "bit ((2::int) ^ k) n \<longleftrightarrow> n = k"
  by (simp only: bit_exp_iff) simp

end
