(* ===== verification/Hardware.thy ===== *)
theory Hardware
  imports USB_Prelude
begin

text \<open>
  The register and DMA access layer the USB driver is written against: tamago's
  \<open>internal/reg\<close> and \<open>dma\<close> packages, which are not part of the sources under \<open>src/\<close>
  and are modelled from their contract.  The controller is asynchronous hardware, so
  every read is an observation supplied by an environment \<open>hw_env\<close>: the value a
  register holds when it is read at time \<open>k\<close> (\<open>k\<close> counts the reads performed so
  far), whether the driver's cancellation channel is closed at time \<open>k\<close>, the content of
  DMA memory at time \<open>k\<close>, the address the allocator returns for the \<open>k\<close>-th
  allocation, and how many polls fit into a deadline of a given number of milliseconds.  Every access is appended to an event trace, so that the order of
  writes, primes, reads and frees that the driver performs is part of the model.
  Writes to DMA words go through \<open>reg\<close> too (the driver treats descriptor tokens as
  registers), addressed by \<open>MEM a\<close>.

  The driver waits in three ways, each a loop: \<open>reg.Wait\<close> polls forever
  (\<^term>\<open>reg_wait\<close>, a \<open>partial_function (option)\<close>: \<open>None\<close> is a wait that never
  returns), \<open>reg.WaitFor\<close> polls until a deadline (\<^term>\<open>reg_wait_for\<close>, the
  deadline in milliseconds, \<^term>\<open>reg_poll\<close> with the number of polls that fit into it) and \<open>reg.WaitSignal\<close> polls
  until the value matches or the channel is closed (\<^term>\<open>reg_wait_signal\<close>).
\<close>

datatype reg =
    USBCMD | USBSTS | USBMODE | OTGSC | DEVICEADDR | ENDPTLISTADDR
  | ENDPTSETUPSTAT | ENDPTPRIME | ENDPTFLUSH | ENDPTSTAT | ENDPTCOMPLETE
  | ENDPTCTRL nat
  | MEM u32

datatype event =
    Rd reg u32
  | Wr reg u32
  | Alloc u32 nat "u8 list"
  | Free u32
  | DmaWr u32 nat "u8 list"
  | DmaRd u32 "u8 list"

record hw_env =
  rd :: "reg \<Rightarrow> nat \<Rightarrow> u32"
  cancelled :: "nat \<Rightarrow> bool"
  mem :: "nat \<Rightarrow> u32 \<Rightarrow> u8"
  alloc :: "nat \<Rightarrow> u32"
  polls :: "nat \<Rightarrow> nat"

text \<open>The driver instance (\<open>hw *USB\<close>): the queue-head addresses it keeps, and the
  observable history of its bus accesses.\<close>

record usb =
  clk :: nat
  nalloc :: nat
  trace :: "event list"
  ep_list_addr :: u32
  dqh_addr :: "nat \<Rightarrow> nat \<Rightarrow> u32"

section \<open>Register access\<close>

definition reg_read :: "hw_env \<Rightarrow> reg \<Rightarrow> usb \<Rightarrow> u32 \<times> usb" where
  "reg_read env r s =
     (let v = rd env r (clk s) in (v, s\<lparr>clk := Suc (clk s), trace := trace s @ [Rd r v]\<rparr>))"

definition reg_write :: "reg \<Rightarrow> u32 \<Rightarrow> usb \<Rightarrow> usb" where
  "reg_write r v s = s\<lparr>trace := trace s @ [Wr r v]\<rparr>"

definition reg_get :: "hw_env \<Rightarrow> reg \<Rightarrow> nat \<Rightarrow> u32 \<Rightarrow> usb \<Rightarrow> u32 \<times> usb" where
  "reg_get env r pos m s = (let (v, s') = reg_read env r s in (bits_get v pos m, s'))"

definition reg_set :: "hw_env \<Rightarrow> reg \<Rightarrow> nat \<Rightarrow> usb \<Rightarrow> usb" where
  "reg_set env r pos s = (let (v, s') = reg_read env r s in reg_write r (bits_set v pos) s')"

definition reg_clear :: "hw_env \<Rightarrow> reg \<Rightarrow> nat \<Rightarrow> usb \<Rightarrow> usb" where
  "reg_clear env r pos s = (let (v, s') = reg_read env r s in reg_write r (bits_clear v pos) s')"

definition reg_setN :: "hw_env \<Rightarrow> reg \<Rightarrow> nat \<Rightarrow> u32 \<Rightarrow> u32 \<Rightarrow> usb \<Rightarrow> usb" where
  "reg_setN env r pos m v s = (let (x, s') = reg_read env r s in reg_write r (bits_setN x pos m v) s')"

section \<open>Waiting\<close>

partial_function (option) reg_wait ::
  "hw_env \<Rightarrow> reg \<Rightarrow> nat \<Rightarrow> u32 \<Rightarrow> u32 \<Rightarrow> usb \<Rightarrow> usb option" where
  "reg_wait env r pos m v s =
     (case reg_get env r pos m s of (x, s') \<Rightarrow>
        if x = v then Some s' else reg_wait env r pos m v s')"

fun reg_poll ::
  "hw_env \<Rightarrow> nat \<Rightarrow> reg \<Rightarrow> nat \<Rightarrow> u32 \<Rightarrow> u32 \<Rightarrow> usb \<Rightarrow> bool \<times> usb" where
  "reg_poll env 0 r pos m v s = (False, s)"
| "reg_poll env (Suc k) r pos m v s =
     (case reg_get env r pos m s of (x, s') \<Rightarrow>
        if x = v then (True, s') else reg_poll env k r pos m v s')"

text \<open>\<open>reg.WaitFor(timeout, ...)\<close> with the timeout in milliseconds: the environment says
  how many polls fit before the deadline (\<^term>\<open>polls\<close>).\<close>

definition reg_wait_for ::
  "hw_env \<Rightarrow> nat \<Rightarrow> reg \<Rightarrow> nat \<Rightarrow> u32 \<Rightarrow> u32 \<Rightarrow> usb \<Rightarrow> bool \<times> usb" where
  "reg_wait_for env ms r pos m v s = reg_poll env (polls env ms) r pos m v s"

partial_function (option) reg_wait_signal ::
  "hw_env \<Rightarrow> reg \<Rightarrow> nat \<Rightarrow> u32 \<Rightarrow> u32 \<Rightarrow> usb \<Rightarrow> (bool \<times> usb) option" where
  "reg_wait_signal env r pos m v s =
     (case reg_get env r pos m s of (x, s') \<Rightarrow>
        if x = v then Some (True, s')
        else if cancelled env (clk s') then Some (False, s')
        else reg_wait_signal env r pos m v s')"

declare reg_wait.simps [code] reg_wait_signal.simps [code]

section \<open>DMA memory\<close>

definition dma_alloc :: "hw_env \<Rightarrow> u8 list \<Rightarrow> nat \<Rightarrow> usb \<Rightarrow> u32 \<times> usb" where
  "dma_alloc env buf align s =
     (let a = alloc env (nalloc s)
      in (a, s\<lparr>nalloc := Suc (nalloc s), trace := trace s @ [Alloc a align buf]\<rparr>))"

definition dma_free :: "u32 \<Rightarrow> usb \<Rightarrow> usb" where
  "dma_free a s = s\<lparr>trace := trace s @ [Free a]\<rparr>"

definition dma_read :: "hw_env \<Rightarrow> u32 \<Rightarrow> nat \<Rightarrow> usb \<Rightarrow> u8 list \<times> usb" where
  "dma_read env a len s =
     (let bs = map (\<lambda>i. mem env (clk s) (a + of_nat i)) [0..<len]
      in (bs, s\<lparr>clk := Suc (clk s), trace := trace s @ [DmaRd a bs]\<rparr>))"

definition dma_write :: "u32 \<Rightarrow> nat \<Rightarrow> u8 list \<Rightarrow> usb \<Rightarrow> usb" where
  "dma_write a off bs s = s\<lparr>trace := trace s @ [DmaWr a off bs]\<rparr>"

text \<open>A run of bus accesses leaves the driver's queue-head bookkeeping alone, never
  moves time or the allocator backwards, and only appends to the trace.\<close>

definition frame :: "usb \<Rightarrow> usb \<Rightarrow> bool" where
  "frame s s' \<longleftrightarrow> ep_list_addr s' = ep_list_addr s \<and> dqh_addr s' = dqh_addr s \<and>
     clk s \<le> clk s' \<and> nalloc s \<le> nalloc s' \<and> (\<exists>es. trace s' = trace s @ es)"

text \<open>A stretch of the trace in which the driver only reads register \<open>r\<close>.\<close>

definition reads_of :: "reg \<Rightarrow> event list \<Rightarrow> bool" where
  "reads_of r es \<longleftrightarrow> (\<forall>e\<in>set es. \<exists>y. e = Rd r y)"

text \<open>The addresses a stretch of the trace frees, and those it allocates with a given
  alignment, in order.\<close>

definition frees :: "event list \<Rightarrow> u32 list" where
  "frees es = concat (map (\<lambda>e. case e of Free a \<Rightarrow> [a] | _ \<Rightarrow> []) es)"

definition allocs :: "nat \<Rightarrow> event list \<Rightarrow> u32 list" where
  "allocs al es = concat (map (\<lambda>e. case e of Alloc a al' bs \<Rightarrow> if al' = al then [a] else [] | _ \<Rightarrow> []) es)"

text \<open>A run that reads and writes registers and DMA words but neither allocates nor
  frees DMA memory.\<close>

definition quiet :: "usb \<Rightarrow> usb \<Rightarrow> bool" where
  "quiet s s' \<longleftrightarrow> frame s s' \<and> nalloc s' = nalloc s \<and>
     (\<exists>es. trace s' = trace s @ es \<and> frees es = [] \<and> (\<forall>al. allocs al es = []))"

text \<open>The frees that Go's deferred \<open>dma.Free\<close> calls perform when a function returns:
  last deferred first.\<close>

definition dma_free_all :: "u32 list \<Rightarrow> usb \<Rightarrow> usb" where
  "dma_free_all as s = fold dma_free (rev as) s"

text \<open>Progress assumptions on the device: the field \<open>(pos, m)\<close> of register \<open>r\<close>
  reads \<open>v\<close> again and again (for ever after any time), or, for a wait that also watches
  a channel, either that or the channel is closed.\<close>

definition settles :: "hw_env \<Rightarrow> reg \<Rightarrow> nat \<Rightarrow> u32 \<Rightarrow> u32 \<Rightarrow> bool" where
  "settles env r pos m v \<longleftrightarrow> (\<forall>t. \<exists>k\<ge>t. bits_get (rd env r k) pos m = v)"

definition signal_settles :: "hw_env \<Rightarrow> reg \<Rightarrow> nat \<Rightarrow> u32 \<Rightarrow> u32 \<Rightarrow> bool" where
  "signal_settles env r pos m v \<longleftrightarrow> (\<forall>t. \<exists>k\<ge>t. bits_get (rd env r k) pos m = v \<or> cancelled env (Suc k))"

section \<open>Lemmas\<close>

lemma frame_refl [simp]: "frame s s"
  by (simp add: frame_def)

lemma frame_trans: "frame s1 s2 \<Longrightarrow> frame s2 s3 \<Longrightarrow> frame s1 s3"
  by (auto simp: frame_def)

lemma reg_read_simp:
  "reg_read env r s = (rd env r (clk s), s\<lparr>clk := Suc (clk s), trace := trace s @ [Rd r (rd env r (clk s))]\<rparr>)"
  by (simp add: reg_read_def Let_def)

lemma reg_get_simp:
  "reg_get env r pos m s = (bits_get (rd env r (clk s)) pos m,
     s\<lparr>clk := Suc (clk s), trace := trace s @ [Rd r (rd env r (clk s))]\<rparr>)"
  by (simp add: reg_get_def reg_read_simp)

lemma reg_set_simp:
  "reg_set env r pos s =
     s\<lparr>clk := Suc (clk s), trace := trace s @ [Rd r (rd env r (clk s)), Wr r (bits_set (rd env r (clk s)) pos)]\<rparr>"
  by (simp add: reg_set_def reg_read_simp reg_write_def)

lemma reg_clear_simp:
  "reg_clear env r pos s =
     s\<lparr>clk := Suc (clk s), trace := trace s @ [Rd r (rd env r (clk s)), Wr r (bits_clear (rd env r (clk s)) pos)]\<rparr>"
  by (simp add: reg_clear_def reg_read_simp reg_write_def)

lemma reg_setN_simp:
  "reg_setN env r pos m v s =
     s\<lparr>clk := Suc (clk s), trace := trace s @ [Rd r (rd env r (clk s)), Wr r (bits_setN (rd env r (clk s)) pos m v)]\<rparr>"
  by (simp add: reg_setN_def reg_read_simp reg_write_def)

lemma dma_alloc_simp:
  "dma_alloc env buf align s = (alloc env (nalloc s),
     s\<lparr>nalloc := Suc (nalloc s), trace := trace s @ [Alloc (alloc env (nalloc s)) align buf]\<rparr>)"
  by (simp add: dma_alloc_def Let_def)

lemma dma_read_simp:
  "dma_read env a len s = (map (\<lambda>i. mem env (clk s) (a + of_nat i)) [0..<len],
     s\<lparr>clk := Suc (clk s), trace := trace s @ [DmaRd a (map (\<lambda>i. mem env (clk s) (a + of_nat i)) [0..<len])]\<rparr>)"
  by (simp add: dma_read_def Let_def)

lemmas bus_simps = reg_read_simp reg_get_simp reg_set_simp reg_clear_simp reg_setN_simp
  reg_write_def dma_alloc_simp dma_read_simp dma_write_def dma_free_def

lemma frame_bus_ops:
  "frame s (reg_write r v s)" "frame s (reg_set env r pos s)" "frame s (reg_clear env r pos s)"
  "frame s (reg_setN env r pos m v s)" "frame s (snd (reg_get env r pos m s))"
  "frame s (snd (reg_read env r s))" "frame s (snd (dma_alloc env buf align s))"
  "frame s (snd (dma_read env a len s))" "frame s (dma_write a off bs s)" "frame s (dma_free a s)"
  by (simp_all add: frame_def bus_simps)

lemma frame_dma_free_all: "frame s (dma_free_all as s)"
proof -
  have "\<And>s. frame s (fold dma_free bs s)" for bs
    by (induction bs arbitrary: s) (auto intro: frame_trans [OF frame_bus_ops(10)])
  then show ?thesis by (simp add: dma_free_all_def)
qed

lemma trace_dma_free_all: "trace (dma_free_all as s) = trace s @ map Free (rev as)"
proof -
  have "\<And>s. trace (fold dma_free bs s) = trace s @ map Free bs" for bs
    by (induction bs arbitrary: s) (simp_all add: dma_free_def)
  then show ?thesis by (simp add: dma_free_all_def)
qed

text \<open>An unbounded wait returns as soon as the awaited value is observed, and it only
  extends the run.\<close>

lemma reg_wait_frame:
  assumes "reg_wait env r pos m v s = Some s'"
  shows "frame s s' \<and> clk s < clk s'"
proof (rule reg_wait.raw_induct [where P = "\<lambda>env r pos m v s s'. frame s s' \<and> clk s < clk s'", OF _ assms])
  fix f :: "hw_env \<Rightarrow> reg \<Rightarrow> nat \<Rightarrow> u32 \<Rightarrow> u32 \<Rightarrow> usb \<Rightarrow> usb option" and env r pos m v s s'
  assume IH: "\<And>env r pos m v s s'. f env r pos m v s = Some s' \<Longrightarrow> frame s s' \<and> clk s < clk s'"
    and eq: "(case reg_get env r pos m s of (x, s') \<Rightarrow> if x = v then Some s' else f env r pos m v s') = Some s'"
  let ?s1 = "s\<lparr>clk := Suc (clk s), trace := trace s @ [Rd r (rd env r (clk s))]\<rparr>"
  have f1: "frame s ?s1" by (simp add: frame_def)
  show "frame s s' \<and> clk s < clk s'"
  proof (cases "bits_get (rd env r (clk s)) pos m = v")
    case True
    with eq f1 show ?thesis by (auto simp: reg_get_simp)
  next
    case False
    with eq have "f env r pos m v ?s1 = Some s'" by (simp add: reg_get_simp)
    then have "frame ?s1 s' \<and> clk ?s1 < clk s'" by (rule IH)
    with f1 show ?thesis by (auto intro: frame_trans)
  qed
qed

lemma reg_wait_returns:
  assumes "clk s \<le> k" and "bits_get (rd env r k) pos m = v"
  shows "\<exists>s'. reg_wait env r pos m v s = Some s'"
  using assms
proof (induction "k - clk s" arbitrary: s)
  case 0
  then have "clk s = k" by simp
  with 0 show ?case by (simp add: reg_wait.simps reg_get_simp)
next
  case (Suc d)
  show ?case
  proof (cases "bits_get (rd env r (clk s)) pos m = v")
    case True
    then show ?thesis by (simp add: reg_wait.simps reg_get_simp)
  next
    case False
    let ?s1 = "s\<lparr>clk := Suc (clk s), trace := trace s @ [Rd r (rd env r (clk s))]\<rparr>"
    have "d = k - clk ?s1" and "clk ?s1 \<le> k" using Suc.hyps(2) by simp_all
    then obtain s' where "reg_wait env r pos m v ?s1 = Some s'"
      using Suc.hyps(1) Suc.prems(2) by blast
    with False show ?thesis by (simp add: reg_wait.simps [of env r pos m v s] reg_get_simp)
  qed
qed

lemma reads_of_simps [simp]:
  "reads_of r []" "reads_of r (e # es) \<longleftrightarrow> (\<exists>y. e = Rd r y) \<and> reads_of r es"
  "reads_of r (es @ fs) \<longleftrightarrow> reads_of r es \<and> reads_of r fs"
  by (auto simp: reads_of_def)

lemma reg_wait_trace:
  assumes "reg_wait env r pos m v s = Some s'"
  shows "\<exists>es x. trace s' = trace s @ es @ [Rd r x] \<and> bits_get x pos m = v \<and> reads_of r es
     \<and> frame s s' \<and> clk s < clk s' \<and> nalloc s' = nalloc s"
proof (rule reg_wait.raw_induct [where P = "\<lambda>env r pos m v s s'. \<exists>es x. trace s' = trace s @ es @ [Rd r x]
     \<and> bits_get x pos m = v \<and> reads_of r es \<and> frame s s' \<and> clk s < clk s' \<and> nalloc s' = nalloc s", OF _ assms])
  fix f :: "hw_env \<Rightarrow> reg \<Rightarrow> nat \<Rightarrow> u32 \<Rightarrow> u32 \<Rightarrow> usb \<Rightarrow> usb option" and env r pos m v s s'
  assume IH: "\<And>env r pos m v s s'. f env r pos m v s = Some s' \<Longrightarrow> \<exists>es x. trace s' = trace s @ es @ [Rd r x]
     \<and> bits_get x pos m = v \<and> reads_of r es \<and> frame s s' \<and> clk s < clk s' \<and> nalloc s' = nalloc s"
    and eq: "(case reg_get env r pos m s of (x, s') \<Rightarrow> if x = v then Some s' else f env r pos m v s') = Some s'"
  let ?x = "rd env r (clk s)"
  let ?s1 = "s\<lparr>clk := Suc (clk s), trace := trace s @ [Rd r ?x]\<rparr>"
  show "\<exists>es x. trace s' = trace s @ es @ [Rd r x] \<and> bits_get x pos m = v \<and> reads_of r es
     \<and> frame s s' \<and> clk s < clk s' \<and> nalloc s' = nalloc s"
  proof (cases "bits_get ?x pos m = v")
    case True
    with eq have "s' = ?s1" by (simp add: reg_get_simp)
    with True show ?thesis by (intro exI [of _ "[]"] exI [of _ ?x]) (simp add: frame_def)
  next
    case False
    with eq have "f env r pos m v ?s1 = Some s'" by (simp add: reg_get_simp)
    then obtain es x where "trace s' = trace ?s1 @ es @ [Rd r x]" "bits_get x pos m = v" "reads_of r es"
      "frame ?s1 s'" "clk ?s1 < clk s'" "nalloc s' = nalloc ?s1"
      using IH by blast
    then show ?thesis by (intro exI [of _ "Rd r ?x # es"] exI [of _ x]) (auto simp: frame_def)
  qed
qed

lemma reg_wait_signal_trace:
  assumes "reg_wait_signal env r pos m v s = Some (b, s')"
  shows "\<exists>es x. trace s' = trace s @ es @ [Rd r x] \<and> (b \<longrightarrow> bits_get x pos m = v)
     \<and> (\<not> b \<longrightarrow> cancelled env (clk s')) \<and> reads_of r es \<and> frame s s' \<and> clk s < clk s' \<and> nalloc s' = nalloc s"
proof (rule reg_wait_signal.raw_induct [where P = "\<lambda>env r pos m v s bs'. \<exists>es x. trace (snd bs') = trace s @ es @ [Rd r x]
     \<and> (fst bs' \<longrightarrow> bits_get x pos m = v) \<and> (\<not> fst bs' \<longrightarrow> cancelled env (clk (snd bs'))) \<and> reads_of r es
     \<and> frame s (snd bs') \<and> clk s < clk (snd bs') \<and> nalloc (snd bs') = nalloc s", OF _ assms, simplified])
  fix f :: "hw_env \<Rightarrow> reg \<Rightarrow> nat \<Rightarrow> u32 \<Rightarrow> u32 \<Rightarrow> usb \<Rightarrow> (bool \<times> usb) option" and env r pos m v s bs'
  assume IH: "\<And>env r pos m v s bs'. f env r pos m v s = Some bs' \<Longrightarrow> \<exists>es x. trace (snd bs') = trace s @ es @ [Rd r x]
     \<and> (fst bs' \<longrightarrow> bits_get x pos m = v) \<and> (\<not> fst bs' \<longrightarrow> cancelled env (clk (snd bs'))) \<and> reads_of r es
     \<and> frame s (snd bs') \<and> clk s < clk (snd bs') \<and> nalloc (snd bs') = nalloc s"
    and eq: "(case reg_get env r pos m s of (x, s') \<Rightarrow> if x = v then Some (True, s')
        else if cancelled env (clk s') then Some (False, s') else f env r pos m v s') = Some bs'"
  let ?x = "rd env r (clk s)"
  let ?s1 = "s\<lparr>clk := Suc (clk s), trace := trace s @ [Rd r ?x]\<rparr>"
  show "\<exists>es x. trace (snd bs') = trace s @ es @ [Rd r x]
     \<and> (fst bs' \<longrightarrow> bits_get x pos m = v) \<and> (\<not> fst bs' \<longrightarrow> cancelled env (clk (snd bs'))) \<and> reads_of r es
     \<and> frame s (snd bs') \<and> clk s < clk (snd bs') \<and> nalloc (snd bs') = nalloc s"
  proof (cases "bits_get ?x pos m = v \<or> cancelled env (Suc (clk s))")
    case True
    with eq have "bs' = (bits_get ?x pos m = v, ?s1)" by (auto simp: reg_get_simp split: if_splits)
    with True show ?thesis by (intro exI [of _ "[]"] exI [of _ ?x]) (auto simp: frame_def)
  next
    case False
    with eq have "f env r pos m v ?s1 = Some bs'" by (simp add: reg_get_simp)
    then obtain es x where "trace (snd bs') = trace ?s1 @ es @ [Rd r x]" "fst bs' \<longrightarrow> bits_get x pos m = v"
      "\<not> fst bs' \<longrightarrow> cancelled env (clk (snd bs'))" "reads_of r es"
      "frame ?s1 (snd bs')" "clk ?s1 < clk (snd bs')" "nalloc (snd bs') = nalloc ?s1"
      using IH by blast
    then show ?thesis by (intro exI [of _ "Rd r ?x # es"] exI [of _ x]) (auto simp: frame_def)
  qed
qed

lemma reg_poll_trace:
  "\<exists>es. trace (snd (reg_poll env k r pos m v s)) = trace s @ es \<and> reads_of r es
     \<and> frame s (snd (reg_poll env k r pos m v s)) \<and> nalloc (snd (reg_poll env k r pos m v s)) = nalloc s"
proof (induction k arbitrary: s)
  case 0
  show ?case by (intro exI [of _ "[]"]) simp
next
  case (Suc k)
  let ?x = "rd env r (clk s)"
  let ?s1 = "s\<lparr>clk := Suc (clk s), trace := trace s @ [Rd r ?x]\<rparr>"
  show ?case
  proof (cases "bits_get ?x pos m = v")
    case True
    then have "reg_poll env (Suc k) r pos m v s = (True, ?s1)" by (simp add: reg_get_simp)
    then show ?thesis by (intro exI [of _ "[Rd r ?x]"]) (simp add: frame_def)
  next
    case False
    then have eq: "reg_poll env (Suc k) r pos m v s = reg_poll env k r pos m v ?s1"
      by (simp add: reg_get_simp)
    obtain es where "trace (snd (reg_poll env k r pos m v ?s1)) = trace ?s1 @ es" "reads_of r es"
      "frame ?s1 (snd (reg_poll env k r pos m v ?s1))" "nalloc (snd (reg_poll env k r pos m v ?s1)) = nalloc ?s1"
      using Suc.IH by blast
    then show ?thesis unfolding eq by (intro exI [of _ "Rd r ?x # es"]) (auto simp: frame_def)
  qed
qed

lemma reg_wait_signal_returns:
  assumes "clk s \<le> k" and "bits_get (rd env r k) pos m = v \<or> cancelled env (Suc k)"
  shows "\<exists>b s'. reg_wait_signal env r pos m v s = Some (b, s')"
  using assms
proof (induction "k - clk s" arbitrary: s)
  case 0
  then have "clk s = k" by simp
  with 0 show ?case by (auto simp: reg_wait_signal.simps [of env r pos m v s] reg_get_simp)
next
  case (Suc d)
  let ?s1 = "s\<lparr>clk := Suc (clk s), trace := trace s @ [Rd r (rd env r (clk s))]\<rparr>"
  show ?case
  proof (cases "bits_get (rd env r (clk s)) pos m = v \<or> cancelled env (Suc (clk s))")
    case True
    then show ?thesis by (auto simp: reg_wait_signal.simps [of env r pos m v s] reg_get_simp)
  next
    case False
    have "d = k - clk ?s1" and "clk ?s1 \<le> k" using Suc.hyps(2) by simp_all
    then obtain b s' where "reg_wait_signal env r pos m v ?s1 = Some (b, s')"
      using Suc.hyps(1) Suc.prems(2) by blast
    with False show ?thesis by (auto simp: reg_wait_signal.simps [of env r pos m v s] reg_get_simp)
  qed
qed
lemma frees_simps [simp]:
  "frees [] = []" "frees (es @ fs) = frees es @ frees fs" "frees (Free a # es) = a # frees es"
  "frees (Rd r v # es) = frees es" "frees (Wr r v # es) = frees es" "frees (Alloc a al bs # es) = frees es"
  "frees (DmaWr a off bs # es) = frees es" "frees (DmaRd a bs # es) = frees es"
  by (simp_all add: frees_def)

lemma allocs_simps [simp]:
  "allocs al [] = []" "allocs al (es @ fs) = allocs al es @ allocs al fs"
  "allocs al (Alloc a al' bs # es) = (if al' = al then a # allocs al es else allocs al es)"
  "allocs al (Free a # es) = allocs al es"
  "allocs al (Rd r v # es) = allocs al es" "allocs al (Wr r v # es) = allocs al es"
  "allocs al (DmaWr a off bs # es) = allocs al es" "allocs al (DmaRd a bs # es) = allocs al es"
  by (simp_all add: allocs_def)

lemma reads_of_no_frees: "reads_of r es \<Longrightarrow> frees es = [] \<and> allocs al es = []"
  by (induction es) auto

lemma frees_map_Free [simp]: "frees (map Free as) = as"
  by (induction as) auto

lemma allocs_map_Free [simp]: "allocs al (map Free as) = []"
  by (induction as) auto

lemma quiet_refl [simp]: "quiet s s"
  by (auto simp: quiet_def intro: exI [of _ "[]"])

lemma quiet_trans: "quiet s1 s2 \<Longrightarrow> quiet s2 s3 \<Longrightarrow> quiet s1 s3"
  by (auto simp: quiet_def intro: frame_trans)

lemma quiet_bus_ops:
  "quiet s (reg_write r v s)" "quiet s (reg_set env r pos s)" "quiet s (reg_clear env r pos s)"
  "quiet s (reg_setN env r pos m v s)" "quiet s (snd (reg_get env r pos m s))"
  "quiet s (snd (reg_read env r s))" "quiet s (snd (dma_read env a len s))" "quiet s (dma_write a off bs s)"
  by (auto simp: quiet_def frame_def bus_simps)

lemma quiet_reg_wait: "reg_wait env r pos m v s = Some s' \<Longrightarrow> quiet s s'"
  by (drule reg_wait_trace) (auto simp: quiet_def reads_of_no_frees)

lemma quiet_reg_wait_signal: "reg_wait_signal env r pos m v s = Some (b, s') \<Longrightarrow> quiet s s'"
  by (drule reg_wait_signal_trace) (auto simp: quiet_def reads_of_no_frees)

lemma quiet_reg_poll: "quiet s (snd (reg_poll env k r pos m v s))"
  using reg_poll_trace [of env k r pos m v s] by (auto simp: quiet_def reads_of_no_frees)

lemma quiet_reg_wait_for: "quiet s (snd (reg_wait_for env ms r pos m v s))"
  by (simp add: reg_wait_for_def quiet_reg_poll)

lemma reg_wait_settles: "settles env r pos m v \<Longrightarrow> \<exists>s'. reg_wait env r pos m v s = Some s'"
  unfolding settles_def by (metis reg_wait_returns)

lemma signal_settles_settles: "settles env r pos m v \<Longrightarrow> signal_settles env r pos m v"
  unfolding settles_def signal_settles_def by blast

lemma reg_wait_signal_settles: "signal_settles env r pos m v \<Longrightarrow> \<exists>b s'. reg_wait_signal env r pos m v s = Some (b, s')"
  unfolding signal_settles_def by (metis reg_wait_signal_returns)

lemma bits_get_status_active: "bits_get x 6 3 = 0 \<Longrightarrow> bits_get x 7 1 = 0"
proof -
  assume h: "bits_get x 6 3 = 0"
  have "\<not> bit (bits_get x 6 3) 1" using h by simp
  then have "\<not> bit x 7" by (simp add: bits_get_def bit_simps)
  then show ?thesis by (simp add: bits_get_one)
qed

lemma settles_active: "settles env r 6 3 0 \<Longrightarrow> settles env r 7 1 0"
  unfolding settles_def by (meson bits_get_status_active)

text \<open>One step of each wait, for evaluating the waits on a concrete device: a wait that
  reads its value returns at once, one that does not reads again.\<close>

lemma reg_wait_hit:
  "bits_get (rd env r (clk s)) pos m = v \<Longrightarrow>
     reg_wait env r pos m v s = Some (s\<lparr>clk := Suc (clk s), trace := trace s @ [Rd r (rd env r (clk s))]\<rparr>)"
  by (simp add: reg_wait.simps [of env r pos m v s] reg_get_simp)

lemma reg_wait_miss:
  "bits_get (rd env r (clk s)) pos m \<noteq> v \<Longrightarrow>
     reg_wait env r pos m v s = reg_wait env r pos m v (s\<lparr>clk := Suc (clk s), trace := trace s @ [Rd r (rd env r (clk s))]\<rparr>)"
  by (simp add: reg_wait.simps [of env r pos m v s] reg_get_simp)

lemma reg_wait_signal_hit:
  "bits_get (rd env r (clk s)) pos m = v \<Longrightarrow>
     reg_wait_signal env r pos m v s = Some (True, s\<lparr>clk := Suc (clk s), trace := trace s @ [Rd r (rd env r (clk s))]\<rparr>)"
  by (simp add: reg_wait_signal.simps [of env r pos m v s] reg_get_simp)

lemma reg_wait_signal_cancel:
  "bits_get (rd env r (clk s)) pos m \<noteq> v \<Longrightarrow> cancelled env (Suc (clk s)) \<Longrightarrow>
     reg_wait_signal env r pos m v s = Some (False, s\<lparr>clk := Suc (clk s), trace := trace s @ [Rd r (rd env r (clk s))]\<rparr>)"
  by (simp add: reg_wait_signal.simps [of env r pos m v s] reg_get_simp)

lemma reg_wait_signal_miss:
  "bits_get (rd env r (clk s)) pos m \<noteq> v \<Longrightarrow> \<not> cancelled env (Suc (clk s)) \<Longrightarrow>
     reg_wait_signal env r pos m v s = reg_wait_signal env r pos m v (s\<lparr>clk := Suc (clk s), trace := trace s @ [Rd r (rd env r (clk s))]\<rparr>)"
  by (simp add: reg_wait_signal.simps [of env r pos m v s] reg_get_simp)

lemmas hw_eval = reg_wait_hit reg_wait_miss reg_wait_signal_hit reg_wait_signal_cancel reg_wait_signal_miss
  bus_simps reg_write_def reg_wait_for_def dma_free_all_def dma_free_def dma_alloc_simp dma_read_simp bits_get_one

lemma quiet_imp_frame: "quiet s s' \<Longrightarrow> frame s s'"
  by (simp add: quiet_def)

end
