(* ===== verification/SetupPacket.thy ===== *)
theory SetupPacket
  imports USB_Prelude
begin

text \<open>
  The 8-byte USB setup packet (\<open>SetupData\<close> in \<open>src/soc/nxp/usb/setup.go\<close>), its
  layout as \<open>encoding/binary\<close> reads it out of the queue head, the byte swap that
  \<open>SetupData.swap\<close> applies to the \<open>Value\<close> field, and \<open>trim\<close>, which cuts a
  descriptor to the length the host asked for.  The lemmas show the wire codec is a
  round trip, that the swap is an involution, what the driver's view of each field is in
  terms of the bytes on the wire (the swap turns \<open>Value\<close> into its big-endian reading
  while \<open>Index\<close> and \<open>Length\<close> keep the little-endian one), and that \<open>trim\<close> sends
  \<open>min L W\<close> bytes.
\<close>

record setup_data =
  bmRequestType :: u8
  bRequest :: u8
  wValue :: u16
  wIndex :: u16
  wLength :: u16

text \<open>\<open>swap\<close>: \<open>binary.BigEndian.PutUint16(b, s.Value)\<close> followed by
  \<open>s.Value = binary.LittleEndian.Uint16(b)\<close>.\<close>

definition setup_swap :: "setup_data \<Rightarrow> setup_data" where
  "setup_swap s = s\<lparr>wValue := of_le16 (be16 (wValue s))\<rparr>"

text \<open>\<open>binary.Write\<close> / \<open>binary.Read\<close> with \<open>binary.LittleEndian\<close> on the struct.\<close>

definition setup_bytes :: "setup_data \<Rightarrow> u8 list" where
  "setup_bytes s = [bmRequestType s, bRequest s] @ le16 (wValue s) @ le16 (wIndex s) @ le16 (wLength s)"

definition setup_of_bytes :: "u8 list \<Rightarrow> setup_data" where
  "setup_of_bytes bs =
     \<lparr>bmRequestType = bs ! 0, bRequest = bs ! 1,
      wValue = of_le16 (take 2 (drop 2 bs)),
      wIndex = of_le16 (take 2 (drop 4 bs)),
      wLength = of_le16 (take 2 (drop 6 bs))\<rparr>"

definition trim :: "u8 list \<Rightarrow> u16 \<Rightarrow> u8 list" where
  "trim buf wLen = (if unat wLen < length buf then take (unat wLen) buf else buf)"

text \<open>The byte-swapped value in closed form: the two bytes exchanged.\<close>

definition swap16 :: "u16 \<Rightarrow> u16" where
  "swap16 v = push_bit 8 (take_bit 8 v) OR drop_bit 8 v"

section \<open>Lemmas\<close>

lemma length_setup_bytes [simp]: "length (setup_bytes s) = 8"
  by (simp add: setup_bytes_def)

lemma setup_of_bytes_setup_bytes [simp]: "setup_of_bytes (setup_bytes s) = s"
  by (simp add: setup_of_bytes_def setup_bytes_def)

lemma bit16_cases:
  assumes "n < LENGTH(16)"
  obtains "n < 8" | "n = 8 + (n - 8)" and "n - 8 < 8"
proof (cases "n < 8")
  case True
  then show ?thesis by (rule that(1))
next
  case False
  then show ?thesis using assms by (intro that(2)) simp_all
qed

lemma of_le16_be16_eq_swap16: "of_le16 (be16 v) = swap16 v"
proof (intro bit_word_eqI)
  fix n
  assume "n < LENGTH(16)"
  then show "bit (of_le16 (be16 v)) n = bit (swap16 v) n"
    by (rule bit16_cases)
      (auto simp: bit_simps of_le16_def be16_def le16_def swap16_def dest: bit_imp_le_length)
qed

lemma swap16_swap16 [simp]: "swap16 (swap16 v) = v"
proof (intro bit_word_eqI)
  fix n
  assume "n < LENGTH(16)"
  then show "bit (swap16 (swap16 v)) n = bit v n"
    by (rule bit16_cases) (auto simp: bit_simps swap16_def)
qed

lemma mask_ff00_u16: "(0xff00::u16) = NOT (mask 8)"
  by (simp add: mask_eq_exp_minus_1)

text \<open>The address computation of \<open>SET_ADDRESS\<close> undoes the swap.\<close>

lemma swap_back_eq_swap16: "push_bit 8 v AND 0xff00 OR drop_bit 8 v = swap16 v"
proof (intro bit_word_eqI)
  fix n
  assume "n < LENGTH(16)"
  then show "bit (push_bit 8 v AND 0xff00 OR drop_bit 8 v) n = bit (swap16 v) n"
    by (rule bit16_cases) (auto simp: bit_simps swap16_def mask_ff00_u16)
qed

lemma setup_swap_swap [simp]: "setup_swap (setup_swap s) = s"
  by (simp add: setup_swap_def of_le16_be16_eq_swap16)

text \<open>any 8 bytes the host sends are the encoding of the setup packet \<open>binary.Read\<close> makes of them: the setup codec is a round trip.\<close>

lemma setup_bytes_of_setup_bytes:
  "length bs = 8 \<Longrightarrow> setup_bytes (setup_of_bytes bs) = bs"
  by (auto simp: length_Suc_conv numeral_eq_Suc setup_bytes_def setup_of_bytes_def le16_of_le16)

text \<open>\<open>trim\<close> sends \<open>min L W\<close> bytes of a descriptor of length \<open>L\<close> when the host asks for \<open>W\<close>.\<close>

lemma length_trim: "length (trim buf w) = min (length buf) (unat w)"
  by (simp add: trim_def)

lemma trim_prefix: "\<exists>rest. buf = trim buf w @ rest"
  by (auto simp: trim_def intro: exI [of _ "drop (unat w) buf"])

lemma setup_swap_wire:
  "length bs = 8 \<Longrightarrow> setup_swap (setup_of_bytes bs) =
     \<lparr>bmRequestType = bs ! 0, bRequest = bs ! 1, wValue = of_le16 [bs ! 3, bs ! 2],
      wIndex = of_le16 [bs ! 4, bs ! 5], wLength = of_le16 [bs ! 6, bs ! 7]\<rparr>"
  by (auto simp: setup_swap_def setup_of_bytes_def be16_def le16_of_le16 length_Suc_conv numeral_eq_Suc)

end
