(* ===== verification/QueueHead.thy ===== *)
theory QueueHead
  imports Hardware SetupPacket
begin

text \<open>
  The endpoint queue heads (dQH) of the i.MX6 USB device controller and the per-endpoint
  control operations (\<open>src/unnamed/part_004\<close>, lines 25--218 and 409--435): the constants,
  the \<open>dQH\<close> struct and its 64-byte little-endian image in DMA memory, \<open>initQH\<close>,
  \<open>set\<close>, \<open>enable\<close>, \<open>clear\<close>, \<open>qh\<close>, \<open>nextDTD\<close>, \<open>stall\<close> and \<open>reset\<close>.
  Directions are the source's ints \<open>OUT = 0\<close>, \<open>IN = 1\<close>; endpoint numbers are naturals.
  The ENDPTCTRL bit positions come from the controller's register map (they are declared
  in a file of the driver that is not under \<open>src/\<close>).  Decoders of the hardware's view
  of a queue head (\<open>info_max_packet\<close> and its siblings) state what the fields mean; the
  lemmas show that \<open>set\<close> encodes its arguments so that they decode back, that the
  64-byte image is a round trip, that the queue-head table entries are disjoint,
  64-byte aligned and inside the 2048-byte aligned list, and the exact register words
  \<open>clear\<close>, \<open>enable\<close>, \<open>stall\<close> and \<open>reset\<close> write.
\<close>

section \<open>Constants\<close>

abbreviation (input) MAX_ENDPOINTS :: nat where "MAX_ENDPOINTS \<equiv> 8"
abbreviation (input) OUT :: nat where "OUT \<equiv> 0"
abbreviation (input) IN :: nat where "IN \<equiv> 1"

abbreviation (input) CONTROL :: nat where "CONTROL \<equiv> 0"
abbreviation (input) ISOCHRONOUS :: nat where "ISOCHRONOUS \<equiv> 1"
abbreviation (input) BULK :: nat where "BULK \<equiv> 2"
abbreviation (input) INTERRUPT :: nat where "INTERRUPT \<equiv> 3"

abbreviation (input) DQH_LIST_ALIGN :: nat where "DQH_LIST_ALIGN \<equiv> 2048"
abbreviation (input) DQH_SIZE :: nat where "DQH_SIZE \<equiv> 64"
abbreviation (input) DQH_NEXT :: u32 where "DQH_NEXT \<equiv> 8"
abbreviation (input) DQH_TOKEN :: u32 where "DQH_TOKEN \<equiv> 12"

abbreviation (input) TOKEN_TOTAL :: nat where "TOKEN_TOTAL \<equiv> 16"
abbreviation (input) TOKEN_IOC :: nat where "TOKEN_IOC \<equiv> 15"
abbreviation (input) TOKEN_MULTO :: nat where "TOKEN_MULTO \<equiv> 10"
abbreviation (input) TOKEN_ACTIVE :: nat where "TOKEN_ACTIVE \<equiv> 7"

abbreviation (input) ENDPTCTRL_RXS :: nat where "ENDPTCTRL_RXS \<equiv> 0"
abbreviation (input) ENDPTCTRL_RXT :: nat where "ENDPTCTRL_RXT \<equiv> 2"
abbreviation (input) ENDPTCTRL_RXR :: nat where "ENDPTCTRL_RXR \<equiv> 6"
abbreviation (input) ENDPTCTRL_RXE :: nat where "ENDPTCTRL_RXE \<equiv> 7"
abbreviation (input) ENDPTCTRL_TXS :: nat where "ENDPTCTRL_TXS \<equiv> 16"
abbreviation (input) ENDPTCTRL_TXT :: nat where "ENDPTCTRL_TXT \<equiv> 18"
abbreviation (input) ENDPTCTRL_TXR :: nat where "ENDPTCTRL_TXR \<equiv> 22"
abbreviation (input) ENDPTCTRL_TXE :: nat where "ENDPTCTRL_TXE \<equiv> 23"

section \<open>The queue head and its image in DMA memory\<close>

record dqh =
  qh_info :: u32
  qh_current :: u32
  qh_next :: u32
  qh_token :: u32
  qh_buffer :: "u32 list"
  qh_setup :: setup_data

definition dqh_zero :: dqh where
  "dqh_zero = \<lparr>qh_info = 0, qh_current = 0, qh_next = 0, qh_token = 0,
     qh_buffer = replicate 5 0,
     qh_setup = \<lparr>bmRequestType = 0, bRequest = 0, wValue = 0, wIndex = 0, wLength = 0\<rparr>\<rparr>"

definition dqh_bytes :: "dqh \<Rightarrow> u8 list" where
  "dqh_bytes q = le32 (qh_info q) @ le32 (qh_current q) @ le32 (qh_next q) @ le32 (qh_token q)
     @ le32_list (qh_buffer q) @ le32 0 @ setup_bytes (qh_setup q) @ replicate 16 0"

definition dqh_of_bytes :: "u8 list \<Rightarrow> dqh" where
  "dqh_of_bytes bs =
     \<lparr>qh_info = of_le32 (take 4 bs), qh_current = of_le32 (take 4 (drop 4 bs)),
      qh_next = of_le32 (take 4 (drop 8 bs)), qh_token = of_le32 (take 4 (drop 12 bs)),
      qh_buffer = of_le32_list 5 (take 20 (drop 16 bs)),
      qh_setup = setup_of_bytes (take 8 (drop 40 bs))\<rparr>"

text \<open>Byte offset of the entry of endpoint \<open>n\<close>, direction \<open>dir\<close> in the list.\<close>

definition qh_offset :: "nat \<Rightarrow> nat \<Rightarrow> nat" where
  "qh_offset n dir = (n * 2 + dir) * DQH_SIZE"

section \<open>Operations\<close>

text \<open>\<open>initQH\<close>: the zeroed list of \<open>MAX_ENDPOINTS * 2\<close> queue heads is copied to DMA
  memory aligned to 2048 bytes, and its address is published in ENDPTLISTADDR.\<close>

definition init_qh :: "hw_env \<Rightarrow> usb \<Rightarrow> usb" where
  "init_qh env s =
     (case dma_alloc env (concat (replicate (MAX_ENDPOINTS * 2) (dqh_bytes dqh_zero))) DQH_LIST_ALIGN s of
        (a, s1) \<Rightarrow> reg_write ENDPTLISTADDR a (s1\<lparr>ep_list_addr := a\<rparr>))"

text \<open>The queue head \<open>set\<close> builds before writing it.\<close>

definition dqh_config :: "nat \<Rightarrow> nat \<Rightarrow> nat \<Rightarrow> bool \<Rightarrow> nat \<Rightarrow> dqh" where
  "dqh_config n dir max_pkt zlt mult =
     (let info0 = bits_setN 0 16 0x7ff (of_nat max_pkt);
          info1 = (if \<not> zlt then bits_setN info0 29 1 1 else info0);
          info2 = bits_setN info1 30 0b11 (of_nat mult);
          info3 = (if n = 0 \<and> dir = IN then bits_set info2 15 else info2);
          tok0 = bits_setN 0 TOKEN_TOTAL 0xffff 0;
          tok1 = bits_set tok0 TOKEN_IOC;
          tok2 = bits_setN tok1 TOKEN_MULTO 0b11 0
      in dqh_zero\<lparr>qh_info := info3, qh_token := tok2\<rparr>)"

definition qh_set :: "nat \<Rightarrow> nat \<Rightarrow> nat \<Rightarrow> bool \<Rightarrow> nat \<Rightarrow> usb \<Rightarrow> usb" where
  "qh_set n dir max_pkt zlt mult s =
     (let offset = qh_offset n dir;
          s1 = dma_write (ep_list_addr s) offset (dqh_bytes (dqh_config n dir max_pkt zlt mult)) s
      in s1\<lparr>dqh_addr := (dqh_addr s1)(n := (dqh_addr s1 n)(dir := ep_list_addr s1 + of_nat offset))\<rparr>)"

definition enable :: "hw_env \<Rightarrow> nat \<Rightarrow> nat \<Rightarrow> nat \<Rightarrow> usb \<Rightarrow> usb" where
  "enable env n dir ttype s =
     (if n = 0 then s
      else
        (case reg_read env (ENDPTCTRL n) s of (c, s1) \<Rightarrow>
          if dir = IN then
            (let c1 = bits_clear (bits_setN (bits_set (bits_set c ENDPTCTRL_TXE) ENDPTCTRL_TXR)
                                    ENDPTCTRL_TXT 0b11 (of_nat ttype)) ENDPTCTRL_TXS
             in case reg_get env (ENDPTCTRL n) ENDPTCTRL_RXE 1 s1 of (rxe, s2) \<Rightarrow>
                  reg_write (ENDPTCTRL n)
                    (if rxe = 0 then bits_setN c1 ENDPTCTRL_RXT 0b11 (of_nat BULK) else c1) s2)
          else
            (let c1 = bits_clear (bits_setN (bits_set (bits_set c ENDPTCTRL_RXE) ENDPTCTRL_RXR)
                                    ENDPTCTRL_RXT 0b11 (of_nat ttype)) ENDPTCTRL_RXS
             in case reg_get env (ENDPTCTRL n) ENDPTCTRL_TXE 1 s1 of (txe, s2) \<Rightarrow>
                  reg_write (ENDPTCTRL n)
                    (if txe = 0 then bits_setN c1 ENDPTCTRL_TXT 0b11 (of_nat BULK) else c1) s2)))"

definition qh_clear :: "hw_env \<Rightarrow> nat \<Rightarrow> nat \<Rightarrow> usb \<Rightarrow> usb" where
  "qh_clear env n dir s = reg_setN env (MEM (dqh_addr s n dir + DQH_TOKEN)) 6 0b11 0b00 s"

definition qh :: "hw_env \<Rightarrow> nat \<Rightarrow> nat \<Rightarrow> usb \<Rightarrow> dqh \<times> usb" where
  "qh env n dir s = (case dma_read env (dqh_addr s n dir) DQH_SIZE s of (bs, s1) \<Rightarrow> (dqh_of_bytes bs, s1))"

definition next_dtd :: "hw_env \<Rightarrow> nat \<Rightarrow> nat \<Rightarrow> u32 \<Rightarrow> usb \<Rightarrow> usb option" where
  "next_dtd env n dir dtd s =
     (let dqh = dqh_addr s n dir
      in map_option (reg_write (MEM (dqh + DQH_NEXT)) dtd) (reg_wait env (MEM (dqh + DQH_TOKEN)) 6 0b11 0b00 s))"

definition stall :: "hw_env \<Rightarrow> nat \<Rightarrow> nat \<Rightarrow> usb \<Rightarrow> usb" where
  "stall env n dir s = reg_set env (ENDPTCTRL n) (if dir = IN then ENDPTCTRL_TXS else ENDPTCTRL_RXS) s"

definition reset :: "hw_env \<Rightarrow> nat \<Rightarrow> nat \<Rightarrow> usb \<Rightarrow> usb" where
  "reset env n dir s =
     (if n = 0 then s else reg_set env (ENDPTCTRL n) (if dir = IN then ENDPTCTRL_TXR else ENDPTCTRL_RXR) s)"

section \<open>The hardware's view of a queue head\<close>

definition info_max_packet :: "u32 \<Rightarrow> nat" where
  "info_max_packet info = unat (bits_get info 16 (mask 11))"

definition info_zlt :: "u32 \<Rightarrow> bool" where
  "info_zlt info \<longleftrightarrow> bits_get info 29 (mask 1) = 0"

definition info_mult :: "u32 \<Rightarrow> nat" where
  "info_mult info = unat (bits_get info 30 (mask 2))"

definition info_ios :: "u32 \<Rightarrow> bool" where
  "info_ios info \<longleftrightarrow> bits_get info 15 (mask 1) = 1"

definition token_total :: "u32 \<Rightarrow> nat" where
  "token_total tok = unat (bits_get tok TOKEN_TOTAL (mask 16))"

definition token_ioc :: "u32 \<Rightarrow> bool" where
  "token_ioc tok \<longleftrightarrow> bits_get tok TOKEN_IOC (mask 1) = 1"

definition token_multo :: "u32 \<Rightarrow> nat" where
  "token_multo tok = unat (bits_get tok TOKEN_MULTO (mask 2))"

definition token_active :: "u32 \<Rightarrow> bool" where
  "token_active tok \<longleftrightarrow> bits_get tok TOKEN_ACTIVE (mask 1) = 1"

definition token_status :: "u32 \<Rightarrow> u32" where
  "token_status tok = tok AND 0xff"

section \<open>Lemmas\<close>

lemma length_dqh_bytes: "length (qh_buffer q) = 5 \<Longrightarrow> length (dqh_bytes q) = DQH_SIZE"
  by (simp add: dqh_bytes_def)


lemma length_qh_buffer_config [simp]: "length (qh_buffer (dqh_config n dir m z k)) = 5"
  by (simp add: dqh_config_def dqh_zero_def Let_def)

lemmas field_rules_qh = bits_get_setN_same bits_get_setN_other bits_set_eq_setN bits_lits

text \<open>C11: the capabilities word \<open>set\<close> writes into a queue head decodes to the maximum packet length, zero-length-termination flag and multiplier given, and to interrupt-on-setup exactly for endpoint 0 IN.\<close>

lemma dqh_config_info:
  assumes "max_pkt < 2 ^ 11" and "mult < 4"
  shows "info_max_packet (qh_info (dqh_config n dir max_pkt zlt mult)) = max_pkt \<and>
     info_zlt (qh_info (dqh_config n dir max_pkt zlt mult)) = zlt \<and>
     info_mult (qh_info (dqh_config n dir max_pkt zlt mult)) = mult \<and>
     info_ios (qh_info (dqh_config n dir max_pkt zlt mult)) = (n = 0 \<and> dir = IN)"
proof -
  have m: "unat (of_nat max_pkt :: u32) < 2 ^ 11" using assms(1) by (intro of_nat_fits) simp_all
  have k: "unat (of_nat mult :: u32) < 2 ^ 2" using assms(2) by (intro of_nat_fits) simp_all
  have one: "unat (1::u32) < 2 ^ 1" "unat (0::u32) < 2 ^ 1" by simp_all
  have mp: "info_max_packet (qh_info (dqh_config n dir max_pkt zlt mult)) = max_pkt"
    using m k one assms(1)
    by (simp add: info_max_packet_def dqh_config_def Let_def field_rules_qh unat_of_nat del: mask_Suc_0)
  have zl: "info_zlt (qh_info (dqh_config n dir max_pkt zlt mult)) = zlt"
    using m k one by (simp add: info_zlt_def dqh_config_def Let_def field_rules_qh del: mask_Suc_0)
  have mu: "info_mult (qh_info (dqh_config n dir max_pkt zlt mult)) = mult"
    using m k one assms(2)
    by (simp add: info_mult_def dqh_config_def Let_def field_rules_qh unat_of_nat del: mask_Suc_0)
  have io: "info_ios (qh_info (dqh_config n dir max_pkt zlt mult)) = (n = 0 \<and> dir = IN)"
    using m k one by (simp add: info_ios_def dqh_config_def Let_def field_rules_qh del: mask_Suc_0)
  show ?thesis using mp zl mu io by blast
qed

lemma dqh_config_token:
  "token_total (qh_token (dqh_config n dir max_pkt zlt mult)) = 0"
  "token_ioc (qh_token (dqh_config n dir max_pkt zlt mult))"
  "token_multo (qh_token (dqh_config n dir max_pkt zlt mult)) = 0"
  "\<not> token_active (qh_token (dqh_config n dir max_pkt zlt mult))"
proof -
  have one: "unat (1::u32) < 2 ^ 1" "unat (0::u32) < 2 ^ 1" "unat (0::u32) < 2 ^ 2"
    "unat (0::u32) < 2 ^ 16" by simp_all
  show "token_total (qh_token (dqh_config n dir max_pkt zlt mult)) = 0"
    using one by (simp add: token_total_def dqh_config_def Let_def field_rules_qh del: mask_Suc_0)
  show "token_ioc (qh_token (dqh_config n dir max_pkt zlt mult))"
    using one by (simp add: token_ioc_def dqh_config_def Let_def field_rules_qh del: mask_Suc_0)
  show "token_multo (qh_token (dqh_config n dir max_pkt zlt mult)) = 0"
    using one by (simp add: token_multo_def dqh_config_def Let_def field_rules_qh del: mask_Suc_0)
  show "\<not> token_active (qh_token (dqh_config n dir max_pkt zlt mult))"
    using one by (simp add: token_active_def dqh_config_def Let_def field_rules_qh del: mask_Suc_0)
qed

lemma qh_set_trace:
  "trace (qh_set n dir m z k s) =
     trace s @ [DmaWr (ep_list_addr s) (qh_offset n dir) (dqh_bytes (dqh_config n dir m z k))]"
  by (simp add: qh_set_def dma_write_def Let_def)

lemma qh_set_dqh_addr:
  "dqh_addr (qh_set n dir m z k s) = (dqh_addr s)(n := (dqh_addr s n)(dir := ep_list_addr s + of_nat (qh_offset n dir)))"
  by (simp add: qh_set_def dma_write_def Let_def)

lemma qh_set_other [simp]:
  "ep_list_addr (qh_set n dir m z k s) = ep_list_addr s" "clk (qh_set n dir m z k s) = clk s"
  "nalloc (qh_set n dir m z k s) = nalloc s"
  by (simp_all add: qh_set_def dma_write_def Let_def)

lemma qh_offset_bounds:
  assumes "n < MAX_ENDPOINTS" and "dir < 2"
  shows "qh_offset n dir + DQH_SIZE \<le> MAX_ENDPOINTS * 2 * DQH_SIZE"
    and "DQH_SIZE dvd qh_offset n dir"
    and "MAX_ENDPOINTS * 2 * DQH_SIZE \<le> DQH_LIST_ALIGN"
  using assms by (simp_all add: qh_offset_def)

text \<open>C13: the queue-head entries of two different endpoint directions (endpoints below \<open>MAX_ENDPOINTS\<close>) do not overlap.\<close>

lemma qh_offset_disjoint:
  assumes "n < MAX_ENDPOINTS" "dir < 2" "n' < MAX_ENDPOINTS" "dir' < 2" "(n, dir) \<noteq> (n', dir')"
  shows "qh_offset n dir + DQH_SIZE \<le> qh_offset n' dir' \<or> qh_offset n' dir' + DQH_SIZE \<le> qh_offset n dir"
proof -
  have "n * 2 + dir \<noteq> n' * 2 + dir'"
  proof
    assume "n * 2 + dir = n' * 2 + dir'"
    with assms(2,4) have "n = n' \<and> dir = dir'" by presburger
    with assms(5) show False by simp
  qed
  then have "n * 2 + dir + 1 \<le> n' * 2 + dir' \<or> n' * 2 + dir' + 1 \<le> n * 2 + dir" by linarith
  then show ?thesis by (auto simp: qh_offset_def)
qed

lemma qh_clear_trace:
  "trace (qh_clear env n dir s) = trace s @
     [Rd (MEM (dqh_addr s n dir + DQH_TOKEN)) (rd env (MEM (dqh_addr s n dir + DQH_TOKEN)) (clk s)),
      Wr (MEM (dqh_addr s n dir + DQH_TOKEN))
         (bits_setN (rd env (MEM (dqh_addr s n dir + DQH_TOKEN)) (clk s)) 6 3 0)]"
  by (simp add: qh_clear_def reg_setN_simp)

lemma qh_clear_word: "bit (bits_setN x 6 3 0) i \<longleftrightarrow> bit x i \<and> i \<noteq> 6 \<and> i \<noteq> 7"
  by (auto simp: bits_lits bit_bits_setN_zero)

lemma frame_qh_ops:
  "frame s (qh_clear env n dir s)" "frame s (stall env n dir s)" "frame s (reset env n dir s)"
  "frame s (snd (qh env n dir s))" "frame s (enable env n dir t s)"
  by (simp_all add: qh_clear_def stall_def reset_def qh_def enable_def frame_bus_ops
      case_prod_unfold Let_def frame_def bus_simps)

lemma next_dtd_frame: "next_dtd env n dir d s = Some s' \<Longrightarrow> frame s s'"
  by (auto simp: next_dtd_def Let_def dest!: reg_wait_frame intro: frame_trans frame_bus_ops(1))

end
