(* ===== verification/TransferDescriptor.thy ===== *)
theory TransferDescriptor
  imports QueueHead
begin

text \<open>
  Transfer descriptors (dTD, \<open>src/unnamed/part_004\<close> lines 65--78 and 221--253) and the
  way \<open>transfer\<close> cuts a buffer into them (the loop header of lines 319--326 and 351).
  A dTD describes at most \<open>DTD_PAGES * DTD_PAGE_SIZE = 20480\<close> bytes; \<open>buildDTD\<close> fills
  its token (interrupt on completion, multiplier override, active flag, total bytes),
  marks the \<open>next\<close> link invalid, points the five buffer pages into the caller's DMA
  region and copies the 28 hardware-visible bytes to DMA memory aligned to 32 bytes.
  The lemmas show how many descriptors a transfer of \<open>S\<close> bytes uses and that their
  sizes add up to \<open>S\<close> (the chaining property), and that the 28 bytes the hardware
  reads decode to the values \<open>buildDTD\<close> was given.
\<close>

abbreviation (input) DTD_ALIGN :: nat where "DTD_ALIGN \<equiv> 32"
abbreviation (input) DTD_SIZE :: nat where "DTD_SIZE \<equiv> 28"
abbreviation (input) DTD_PAGES :: nat where "DTD_PAGES \<equiv> 5"
abbreviation (input) DTD_PAGE_SIZE :: nat where "DTD_PAGE_SIZE \<equiv> 4096"
abbreviation (input) DTD_NEXT :: u32 where "DTD_NEXT \<equiv> 0"
abbreviation (input) DTD_TOKEN :: u32 where "DTD_TOKEN \<equiv> 4"

text \<open>The longest buffer one dTD describes (\<open>dtdLength\<close> in \<open>transfer\<close>).\<close>

abbreviation (input) dtdLength :: nat where "dtdLength \<equiv> DTD_PAGES * DTD_PAGE_SIZE"

record dtd =
  dtd_next :: u32
  dtd_token :: u32
  dtd_buffer :: "u32 list"
  dtd_dma :: u32
  dtd_buf :: u32
  dtd_size :: u32

text \<open>\<open>binary.Write\<close> of the whole struct; \<open>buildDTD\<close> copies only the first
  \<open>DTD_SIZE\<close> bytes, skipping the three driver-internal fields.\<close>

definition dtd_bytes :: "dtd \<Rightarrow> u8 list" where
  "dtd_bytes d = le32 (dtd_next d) @ le32 (dtd_token d) @ le32_list (dtd_buffer d)
     @ le32 (dtd_dma d) @ le32 (dtd_buf d) @ le32 (dtd_size d)"

text \<open>The descriptor \<open>buildDTD\<close> fills in before it is copied to DMA memory.\<close>

definition dtd_init :: "bool \<Rightarrow> u32 \<Rightarrow> nat \<Rightarrow> dtd" where
  "dtd_init ioc addr sz =
     (let tok0 = bits_setTo 0 TOKEN_IOC ioc;
          tok1 = bits_setN tok0 TOKEN_MULTO 0b11 0;
          tok2 = bits_set tok1 TOKEN_ACTIVE;
          tok3 = bits_setN tok2 TOKEN_TOTAL 0xffff (of_nat sz)
      in \<lparr>dtd_next = 1, dtd_token = tok3,
          dtd_buffer = map (\<lambda>k. addr + of_nat DTD_PAGE_SIZE * of_nat k) [0..<DTD_PAGES],
          dtd_dma = 0, dtd_buf = addr, dtd_size = of_nat sz\<rparr>)"

definition build_dtd :: "hw_env \<Rightarrow> nat \<Rightarrow> nat \<Rightarrow> bool \<Rightarrow> u32 \<Rightarrow> nat \<Rightarrow> usb \<Rightarrow> dtd \<times> usb" where
  "build_dtd env n dir ioc addr sz s =
     (let d = dtd_init ioc addr sz
      in case dma_alloc env (take DTD_SIZE (dtd_bytes d)) DTD_ALIGN s of
           (a, s1) \<Rightarrow> (d\<lparr>dtd_dma := a\<rparr>, s1))"

text \<open>The \<open>(offset, size)\<close> of each descriptor the loop of \<open>transfer\<close> builds: the body
  runs once before the condition \<open>i < transferSize\<close> is first tested, each chunk is
  \<open>dtdLength\<close> bytes or what is left, and \<open>i\<close> grows by \<open>dtdLength\<close>.\<close>

function dtd_chunks :: "nat \<Rightarrow> nat \<Rightarrow> (nat \<times> nat) list" where
  "dtd_chunks transferSize i =
     (let sz = (if i + dtdLength > transferSize then transferSize - i else dtdLength)
      in (i, sz) # (if i + dtdLength < transferSize then dtd_chunks transferSize (i + dtdLength) else []))"
  by pat_completeness auto
termination
  by (relation "measure (\<lambda>(t, i). t - i)") auto

text \<open>The hardware's reading of the 28 bytes of a descriptor.\<close>

definition dtd_of_bytes :: "u8 list \<Rightarrow> u32 \<times> u32 \<times> u32 list" where
  "dtd_of_bytes bs = (of_le32 (take 4 bs), of_le32 (take 4 (drop 4 bs)), of_le32_list DTD_PAGES (drop 8 bs))"

section \<open>Lemmas\<close>

declare dtd_chunks.simps [simp del]

text \<open>C9: the sizes of the descriptors \<open>transfer\<close> builds from offset \<open>i\<close> add up to the bytes left, \<open>t - i\<close>.\<close>

lemma dtd_chunks_sum: "sum_list (map snd (dtd_chunks t i)) = t - i"
proof (induction t i rule: dtd_chunks.induct)
  case (1 t i)
  show ?case
  proof (cases "i + dtdLength < t")
    case True
    with "1.IH" have "sum_list (map snd (dtd_chunks t (i + dtdLength))) = t - (i + dtdLength)"
      by simp
    with True show ?thesis by (simp add: dtd_chunks.simps [of t i] Let_def)
  next
    case False
    then show ?thesis by (auto simp: dtd_chunks.simps [of t i] Let_def)
  qed
qed

text \<open>\<open>transfer\<close> builds \<open>max 1 (ceil ((t - i) / 20480))\<close> descriptors: one per 20480 bytes, and one also for an empty buffer.\<close>

lemma dtd_chunks_length: "length (dtd_chunks t i) = max 1 ((t - i + dtdLength - 1) div dtdLength)"
proof (induction t i rule: dtd_chunks.induct)
  case (1 t i)
  show ?case
  proof (cases "i + dtdLength < t")
    case True
    with "1.IH" have IH: "length (dtd_chunks t (i + dtdLength))
        = max 1 ((t - (i + dtdLength) + dtdLength - 1) div dtdLength)"
      by simp
    have "(t - i + dtdLength - 1) div dtdLength = Suc ((t - (i + dtdLength) + dtdLength - 1) div dtdLength)"
    proof -
      have "t - i + dtdLength - 1 = (t - (i + dtdLength) + dtdLength - 1) + dtdLength"
        using True by simp
      then show ?thesis by (metis div_add_self2 zero_neq_numeral Suc_eq_plus1 mult_eq_0_iff)
    qed
    with True IH show ?thesis by (simp add: dtd_chunks.simps [of t i] Let_def)
  next
    case False
    then have "(t - i + dtdLength - 1) div dtdLength \<le> 1" by simp
    with False show ?thesis by (simp add: dtd_chunks.simps [of t i] Let_def)
  qed
qed

lemma dtd_chunks_size_le: "(off, sz) \<in> set (dtd_chunks t i) \<Longrightarrow> sz \<le> dtdLength"
proof (induction t i rule: dtd_chunks.induct)
  case (1 t i)
  then show ?case by (auto simp: dtd_chunks.simps [of t i] Let_def split: if_splits)
qed

lemma dtd_chunks_offset: "(off, sz) \<in> set (dtd_chunks t i) \<Longrightarrow> i \<le> off \<and> off + sz \<le> max t i"
proof (induction t i rule: dtd_chunks.induct)
  case (1 t i)
  then show ?case by (force simp: dtd_chunks.simps [of t i] Let_def split: if_splits)
qed

lemma dtd_chunks_hd: "\<exists>sz rest. dtd_chunks t i = (i, sz) # rest"
  by (simp add: dtd_chunks.simps [of t i] Let_def)

lemma length_dtd_buffer_init [simp]: "length (dtd_buffer (dtd_init ioc addr sz)) = DTD_PAGES"
  by (simp add: dtd_init_def Let_def)

text \<open>C10: the token \<open>buildDTD\<close> writes asks for the size given (below \<open>2^16\<close>), is active, carries the interrupt flag given and no multiplier override.\<close>

lemma dtd_init_token:
  assumes "sz < 2 ^ 16"
  shows "token_total (dtd_token (dtd_init ioc addr sz)) = sz \<and> token_active (dtd_token (dtd_init ioc addr sz)) \<and>
     token_ioc (dtd_token (dtd_init ioc addr sz)) = ioc \<and> token_multo (dtd_token (dtd_init ioc addr sz)) = 0"
proof -
  have z: "unat (of_nat sz :: u32) < 2 ^ 16" using assms by (intro of_nat_fits) simp_all
  have one: "unat (1::u32) < 2 ^ 1" "unat (0::u32) < 2 ^ 1" "unat (0::u32) < 2 ^ 2" by simp_all
  note fr = bits_get_setN_same bits_get_setN_other bits_set_eq_setN bits_clear_eq_setN bits_lits
    bits_setTo_def
  have tt: "token_total (dtd_token (dtd_init ioc addr sz)) = sz"
    using z one assms by (simp add: token_total_def dtd_init_def Let_def fr unat_of_nat del: mask_Suc_0)
  have ta: "token_active (dtd_token (dtd_init ioc addr sz))"
    using z one by (simp add: token_active_def dtd_init_def Let_def fr del: mask_Suc_0)
  have ti: "token_ioc (dtd_token (dtd_init ioc addr sz)) = ioc"
    using z one by (simp add: token_ioc_def dtd_init_def Let_def fr del: mask_Suc_0)
  have tm: "token_multo (dtd_token (dtd_init ioc addr sz)) = 0"
    using z one by (simp add: token_multo_def dtd_init_def Let_def fr del: mask_Suc_0)
  show ?thesis using tt ta ti tm by blast
qed

text \<open>the 28 bytes \<open>buildDTD\<close> copies to DMA memory read back as the descriptor's next link, token and five page pointers.\<close>

lemma dtd_of_bytes_dtd_bytes:
  "length (dtd_buffer d) = DTD_PAGES \<Longrightarrow>
     dtd_of_bytes (take DTD_SIZE (dtd_bytes d)) = (dtd_next d, dtd_token d, dtd_buffer d)"
  using of_le32_list_le32_list [of "dtd_buffer d"]
  by (simp add: dtd_of_bytes_def dtd_bytes_def)

lemma build_dtd_simp:
  "build_dtd env n dir ioc addr sz s =
     ((dtd_init ioc addr sz)\<lparr>dtd_dma := alloc env (nalloc s)\<rparr>,
      s\<lparr>nalloc := Suc (nalloc s),
        trace := trace s @ [Alloc (alloc env (nalloc s)) DTD_ALIGN (take DTD_SIZE (dtd_bytes (dtd_init ioc addr sz)))]\<rparr>)"
  by (simp add: build_dtd_def dma_alloc_simp Let_def)

lemma frame_build_dtd: "frame s (snd (build_dtd env n dir ioc addr sz s))"
  by (simp add: build_dtd_simp frame_def)

text \<open>a transfer of 50000 bytes is cut into three descriptors of 20480, 20480 and
  9040 bytes at offsets 0, 20480 and 40960.\<close>

lemma dtd_chunks_50000: "dtd_chunks 50000 0 = [(0, 20480), (20480, 20480), (40960, 9040)]"
  by (simp add: dtd_chunks.simps [of 50000 0] dtd_chunks.simps [of 50000 20480] dtd_chunks.simps [of 50000 40960])

end
