(* ===== verification/TransferEngine.thy ===== *)
theory TransferEngine
  imports TransferDescriptor
begin

text \<open>
  The transfer engine (\<open>src/unnamed/part_004\<close>, lines 255--408): \<open>checkDTD\<close>,
  \<open>transfer\<close>, \<open>ack\<close>, \<open>tx\<close> and \<open>rx\<close>.  \<open>transfer\<close> copies the buffer to DMA
  memory, builds one dTD per chunk of at most 20480 bytes (\<^term>\<open>dtd_chunks\<close>), links
  each dTD to the one before and primes the endpoint for the first dTD and for every
  later one that finds neither the prime nor the status bit of the endpoint set
  (\<^term>\<open>prime_loop\<close>), waits for the prime bit to clear and for completion (bounded
  by 20 ms on endpoint 0, until completion or cancellation elsewhere), clears the
  completion bit, checks every dTD (\<^term>\<open>check_dtd\<close>) and, for a receive on a
  non-control endpoint, copies the received bytes back.  Go's deferred \<open>dma.Free\<close>
  calls run when \<open>transfer\<close> returns, last deferred first.  A result \<open>None\<close> is a
  call that does not return (an unbounded wait that never sees its value, or a Go
  panic); \<open>Some ((out, err), s)\<close> is the returned buffer, the returned error and the
  state after the call.

  One detail of the source is kept as written: the timeout error that the endpoint-0
  completion wait sets is overwritten by the error \<open>checkDTD\<close> returns (\<open>size, err :=
  checkDTD(...)\<close> reuses the named result \<open>err\<close>), so it is never reported.
\<close>

datatype usb_error =
    TransferTimeout
  | DtdStatus nat u32
  | PartialTransfer nat u32 u32
  | InvalidStringIndex u16
  | UnsupportedDescriptor u16
  | UnsupportedRequest u8
  | ConfigurationError
  | SetupOverrideError

text \<open>Bit of an endpoint in ENDPTPRIME, ENDPTSTAT and ENDPTCOMPLETE (\<open>pos\<close>).\<close>

definition ep_pos :: "nat \<Rightarrow> nat \<Rightarrow> nat" where
  "ep_pos n dir = dir * 16 + n"

text \<open>The priming decision of one iteration of the loop of \<open>transfer\<close> (lines 331--337):
  the first descriptor (\<open>i = 0\<close>) is always primed; a later one is first linked from
  the previous descriptor's \<open>next\<close> word and primed only if neither the prime bit nor
  (read only when the prime bit is clear, Go's \<open>&&\<close>) the status bit is set.\<close>

definition prime_decision :: "hw_env \<Rightarrow> nat \<Rightarrow> nat \<Rightarrow> dtd option \<Rightarrow> dtd \<Rightarrow> usb \<Rightarrow> (bool \<times> usb) option" where
  "prime_decision env pos i prev d s =
     (if i = 0 then Some (True, s)
      else case prev of
             None \<Rightarrow> None
           | Some p \<Rightarrow>
               (case reg_get env ENDPTPRIME pos 1 (reg_write (MEM (dtd_dma p + DTD_NEXT)) (dtd_dma d) s) of
                  (pr, s2) \<Rightarrow>
                    if pr = 0 then (case reg_get env ENDPTSTAT pos 1 s2 of (st, s3) \<Rightarrow> Some (st = 0, s3))
                    else Some (False, s2)))"

text \<open>Priming one descriptor (lines 339--346): clear the endpoint status, point the queue
  head at the descriptor once its status bits are clear, set the prime bit.\<close>

definition prime_dtd :: "hw_env \<Rightarrow> nat \<Rightarrow> nat \<Rightarrow> dtd \<Rightarrow> usb \<Rightarrow> usb option" where
  "prime_dtd env n dir d s =
     map_option (reg_set env ENDPTPRIME (ep_pos n dir)) (next_dtd env n dir (dtd_dma d) (qh_clear env n dir s))"

text \<open>The loop of \<open>transfer\<close> that builds, links and primes the descriptors, one
  iteration per chunk; \<open>prev\<close> is the descriptor of the previous iteration.\<close>

fun prime_loop ::
  "hw_env \<Rightarrow> nat \<Rightarrow> nat \<Rightarrow> bool \<Rightarrow> u32 \<Rightarrow> dtd option \<Rightarrow> (nat \<times> nat) list \<Rightarrow> usb
     \<Rightarrow> (dtd list \<times> usb) option" where
  "prime_loop env n dir ioc pages prev [] s = Some ([], s)"
| "prime_loop env n dir ioc pages prev ((i, sz) # cs) s =
     (case build_dtd env n dir ioc (pages + of_nat i) sz s of (d, s1) \<Rightarrow>
      case prime_decision env (ep_pos n dir) i prev d s1 of
        None \<Rightarrow> None
      | Some (prime, s2) \<Rightarrow>
          (case (if prime then prime_dtd env n dir d s2 else Some s2) of
             None \<Rightarrow> None
           | Some s3 \<Rightarrow> map_option (\<lambda>(ds, s4). (d # ds, s4)) (prime_loop env n dir ioc pages (Some d) cs s3)))"

text \<open>Waiting for a descriptor's active bit to clear (lines 263--272): endpoint 0 waits
  up to a second, reads the token once more for its log line and then waits without
  bound; other endpoints wait until the bit clears or
  the channel closes.\<close>

definition wait_inactive :: "hw_env \<Rightarrow> nat \<Rightarrow> reg \<Rightarrow> usb \<Rightarrow> usb option" where
  "wait_inactive env n token s =
     (if n = 0 then
        reg_wait env token TOKEN_ACTIVE 1 0 (snd (reg_read env token (snd (reg_wait_for env 1000 token TOKEN_ACTIVE 1 0 s))))
      else map_option snd (reg_wait_signal env token TOKEN_ACTIVE 1 0 s))"

text \<open>\<open>checkDTD\<close>: index of the descriptor, descriptors still to check, bytes counted so
  far (Go's 32-bit \<open>int\<close>).\<close>

fun check_dtd ::
  "hw_env \<Rightarrow> nat \<Rightarrow> nat \<Rightarrow> nat \<Rightarrow> dtd list \<Rightarrow> u32 \<Rightarrow> usb
     \<Rightarrow> ((u32 \<times> usb_error option) \<times> usb) option" where
  "check_dtd env n dir i [] acc s = Some ((acc, None), s)"
| "check_dtd env n dir i (d # ds) acc s =
     (let token = MEM (dtd_dma d + DTD_TOKEN)
      in case wait_inactive env n token s of
           None \<Rightarrow> None
         | Some s1 \<Rightarrow>
             (case reg_read env token s1 of (dtdToken, s2) \<Rightarrow>
                if dtdToken AND 0xff \<noteq> 0 then Some ((0, Some (DtdStatus i dtdToken)), s2)
                else
                  (let rest = drop_bit TOKEN_TOTAL dtdToken;
                       moved = dtd_size d - rest
                   in if dir = IN \<and> rest > 0 then Some ((0, Some (PartialTransfer i moved (dtd_size d))), s2)
                      else check_dtd env n dir (Suc i) ds (acc + moved) s2)))"

text \<open>Waiting for completion (lines 360--369): 20 ms on endpoint 0, reporting a timeout
  when the completion bit was not seen; until completion or cancellation elsewhere.\<close>

definition wait_complete :: "hw_env \<Rightarrow> nat \<Rightarrow> nat \<Rightarrow> usb \<Rightarrow> (usb_error option \<times> usb) option" where
  "wait_complete env n pos s =
     (if n = 0 then
        (case reg_wait_for env 20 ENDPTCOMPLETE pos 1 1 s of
           (complete, s') \<Rightarrow> Some (if complete then None else Some TransferTimeout, s'))
      else map_option (\<lambda>(_, s'). (None, s')) (reg_wait_signal env ENDPTCOMPLETE pos 1 1 s))"

text \<open>The buffer \<open>transfer\<close> moves (lines 305--308): a receive without a buffer gets
  one of \<open>dtdLength\<close> zero bytes.\<close>

definition transfer_buf :: "nat \<Rightarrow> u8 list option \<Rightarrow> u8 list option" where
  "transfer_buf dir buf = (if dir = OUT \<and> buf = None then Some (replicate dtdLength 0) else buf)"

definition transfer_data :: "nat \<Rightarrow> u8 list option \<Rightarrow> u8 list" where
  "transfer_data dir buf = (case transfer_buf dir buf of None \<Rightarrow> [] | Some b \<Rightarrow> b)"

text \<open>The hardware's verdict on a descriptor as \<open>checkDTD\<close> reads it: no status bit
  (the active bit included) set and, for a transmit, no bytes left.\<close>

definition dtd_done :: "nat \<Rightarrow> u32 \<Rightarrow> bool" where
  "dtd_done dir tok \<longleftrightarrow> tok AND 0xff = 0 \<and> (dir \<noteq> IN \<or> drop_bit TOKEN_TOTAL tok = 0)"

text \<open>The copy back of a receive on a non-control endpoint (lines 378--381): the slice
  \<open>buf[0:size]\<close> panics unless \<open>0 \<le> size \<le> len(buf)\<close>.\<close>

definition copy_back ::
  "hw_env \<Rightarrow> nat \<Rightarrow> nat \<Rightarrow> u8 list option \<Rightarrow> nat \<Rightarrow> u32 \<Rightarrow> u32 \<Rightarrow> usb \<Rightarrow> (u8 list \<times> usb) option" where
  "copy_back env n dir buf' transferSize pages moved s =
     (if n \<noteq> 0 \<and> dir = OUT \<and> buf' \<noteq> None then
        (if 0 \<le> sint moved \<and> nat (sint moved) \<le> transferSize then Some (dma_read env pages (nat (sint moved)) s)
         else None)
      else Some ([], s))"

definition transfer ::
  "hw_env \<Rightarrow> nat \<Rightarrow> nat \<Rightarrow> bool \<Rightarrow> u8 list option \<Rightarrow> usb
     \<Rightarrow> ((u8 list \<times> usb_error option) \<times> usb) option" where
  "transfer env n dir ioc buf s =
     (let pos = ep_pos n dir;
          buf' = transfer_buf dir buf;
          data = transfer_data dir buf;
          transferSize = length data
      in case dma_alloc env data DTD_PAGE_SIZE s of (pages, s1) \<Rightarrow>
      (case prime_loop env n dir ioc pages None (dtd_chunks transferSize 0) s1 of
         None \<Rightarrow> None
       | Some (dtds, s2) \<Rightarrow>
       (case reg_wait env ENDPTPRIME pos 1 0 s2 of
          None \<Rightarrow> None
        | Some s3 \<Rightarrow>
        (case wait_complete env n pos s3 of
           None \<Rightarrow> None
         | Some (_, s4) \<Rightarrow>
         (case check_dtd env n dir 0 dtds 0 (reg_write ENDPTCOMPLETE (push_bit pos 1) s4) of
            None \<Rightarrow> None
          | Some ((moved, err), s5) \<Rightarrow>
            (case copy_back env n dir buf' transferSize pages moved s5 of
               None \<Rightarrow> None
             | Some (out, s6) \<Rightarrow> Some ((out, err), dma_free_all (pages # map dtd_dma dtds) s6)))))))"

definition ack :: "hw_env \<Rightarrow> nat \<Rightarrow> usb \<Rightarrow> (usb_error option \<times> usb) option" where
  "ack env n s = map_option (\<lambda>((_, err), s'). (err, s')) (transfer env n IN False None s)"

definition tx :: "hw_env \<Rightarrow> nat \<Rightarrow> bool \<Rightarrow> u8 list \<Rightarrow> usb \<Rightarrow> (usb_error option \<times> usb) option" where
  "tx env n ioc data s =
     (case transfer env n IN ioc (Some data) s of
        None \<Rightarrow> None
      | Some ((_, err), s1) \<Rightarrow>
          if err = None \<and> n = 0 then map_option (\<lambda>((_, err'), s2). (err', s2)) (transfer env n OUT False None s1)
          else Some (err, s1))"

definition rx ::
  "hw_env \<Rightarrow> nat \<Rightarrow> bool \<Rightarrow> u8 list option \<Rightarrow> usb \<Rightarrow> ((u8 list \<times> usb_error option) \<times> usb) option" where
  "rx env n ioc buf s = transfer env n OUT ioc buf s"

section \<open>Lemmas\<close>

text \<open>The definitions that evaluate a transfer on a concrete device, with \<open>hw_eval\<close>.\<close>

lemmas transfer_eval = transfer_def transfer_data_def transfer_buf_def build_dtd_simp prime_decision_def
  prime_dtd_def next_dtd_def qh_clear_def wait_complete_def wait_inactive_def copy_back_def ep_pos_def
  dtd_init_def Let_def
lemma quiet_qh_clear: "quiet s (qh_clear env n dir s)"
  by (simp add: qh_clear_def quiet_bus_ops)

lemma quiet_next_dtd: "next_dtd env n dir a s = Some s' \<Longrightarrow> quiet s s'"
  by (auto simp: next_dtd_def Let_def dest!: quiet_reg_wait intro: quiet_trans quiet_bus_ops)

lemma quiet_prime_decision: "prime_decision env pos i prev d s = Some (b, s') \<Longrightarrow> quiet s s'"
  unfolding prime_decision_def case_prod_unfold
  by (auto split: if_splits option.splits; meson quiet_trans quiet_bus_ops(1,5))

lemma quiet_prime_dtd: "prime_dtd env n dir d s = Some s' \<Longrightarrow> quiet s s'"
  by (auto simp: prime_dtd_def dest!: quiet_next_dtd
      intro: quiet_trans [OF quiet_qh_clear] quiet_trans [OF _ quiet_bus_ops(2)])

lemma quiet_wait_inactive: "wait_inactive env n tok s = Some s' \<Longrightarrow> quiet s s'"
  by (auto simp: wait_inactive_def split: if_splits
      dest!: quiet_reg_wait quiet_reg_wait_signal
      intro: quiet_trans [OF quiet_reg_wait_for] quiet_trans [OF quiet_bus_ops(6)])

lemma quiet_wait_complete: "wait_complete env n pos s = Some (e, s') \<Longrightarrow> quiet s s'"
  using quiet_reg_wait_for [of s env 20 ENDPTCOMPLETE pos 1 1]
  by (auto simp: wait_complete_def case_prod_unfold split: if_splits dest!: quiet_reg_wait_signal)

lemma prime_step_quiet:
  assumes "prime_decision env pos i prev d s1 = Some (b, s2)"
    and "(if b then prime_dtd env n dir d s2 else Some s2) = Some s3"
  shows "quiet s1 s3"
  using assms by (auto split: if_splits dest!: quiet_prime_decision quiet_prime_dtd intro: quiet_trans)

lemma prime_loop_trace:
  "prime_loop env n dir ioc pages prev cs s = Some (ds, s') \<Longrightarrow>
     frame s s' \<and> (\<exists>es. trace s' = trace s @ es \<and> frees es = [] \<and> allocs DTD_ALIGN es = map dtd_dma ds) \<and>
     list_all2 (\<lambda>d (i, sz). d = (dtd_init ioc (pages + of_nat i) sz)\<lparr>dtd_dma := dtd_dma d\<rparr>) ds cs"
proof (induction cs arbitrary: prev s ds)
  case Nil
  then show ?case by (auto intro: exI [of _ "[]"])
next
  case (Cons c cs)
  obtain i sz where c: "c = (i, sz)" by fastforce
  define d where "d = (dtd_init ioc (pages + of_nat i) sz)\<lparr>dtd_dma := alloc env (nalloc s)\<rparr>"
  define s1 where "s1 = s\<lparr>nalloc := Suc (nalloc s), trace := trace s @
    [Alloc (alloc env (nalloc s)) DTD_ALIGN (take DTD_SIZE (dtd_bytes (dtd_init ioc (pages + of_nat i) sz)))]\<rparr>"
  from Cons.prems obtain b s2 s3 ds' where
    dec: "prime_decision env (ep_pos n dir) i prev d s1 = Some (b, s2)"
    and pr: "(if b then prime_dtd env n dir d s2 else Some s2) = Some s3"
    and rest: "prime_loop env n dir ioc pages (Some d) cs s3 = Some (ds', s')"
    and ds: "ds = d # ds'"
    by (auto simp: c build_dtd_simp d_def s1_def split: option.splits if_splits)
  have q: "quiet s1 s3" using dec pr by (rule prime_step_quiet)
  from Cons.IH [OF rest] obtain es where
    f: "frame s3 s'" and es: "trace s' = trace s3 @ es" "frees es = []" "allocs DTD_ALIGN es = map dtd_dma ds'"
    and l: "list_all2 (\<lambda>d (i, sz). d = (dtd_init ioc (pages + of_nat i) sz)\<lparr>dtd_dma := dtd_dma d\<rparr>) ds' cs"
    by blast
  from q obtain es1 where q1: "trace s3 = trace s1 @ es1" "frees es1 = []" "allocs DTD_ALIGN es1 = []" "frame s1 s3"
    by (auto simp: quiet_def)
  have "frame s s1" by (simp add: s1_def frame_def)
  with q1 f have "frame s s'" by (blast intro: frame_trans)
  moreover have "trace s' = trace s @ (Alloc (dtd_dma d) DTD_ALIGN
      (take DTD_SIZE (dtd_bytes (dtd_init ioc (pages + of_nat i) sz))) # es1 @ es)"
    using es q1 by (simp add: s1_def d_def)
  ultimately show ?case using es q1 l by (auto simp: ds c d_def)
qed

lemma check_dtd_quiet: "check_dtd env n dir i ds acc s = Some (r, s') \<Longrightarrow> quiet s s'"
proof (induction ds arbitrary: i acc s)
  case Nil
  then show ?case by simp
next
  case (Cons d ds)
  from Cons.prems obtain s1 where w: "wait_inactive env n (MEM (dtd_dma d + DTD_TOKEN)) s = Some s1"
    and c: "(case reg_read env (MEM (dtd_dma d + DTD_TOKEN)) s1 of (dtdToken, s2) \<Rightarrow>
         if dtdToken AND 0xff \<noteq> 0 then Some ((0, Some (DtdStatus i dtdToken)), s2)
         else let rest = drop_bit TOKEN_TOTAL dtdToken; moved = dtd_size d - rest
              in if dir = IN \<and> rest > 0 then Some ((0, Some (PartialTransfer i moved (dtd_size d))), s2)
                 else check_dtd env n dir (Suc i) ds (acc + moved) s2) = Some (r, s')"
    by (auto simp: Let_def split: option.splits)
  have q1: "quiet s (snd (reg_read env (MEM (dtd_dma d + DTD_TOKEN)) s1))"
    using quiet_wait_inactive [OF w] by (rule quiet_trans) (rule quiet_bus_ops)
  from c show ?case
    by (auto simp: case_prod_unfold Let_def split: if_splits dest!: Cons.IH intro: quiet_trans [OF q1] q1)
qed

lemma check_dtd_ok:
  "check_dtd env n dir i ds acc s = Some ((moved, None), s') \<Longrightarrow>
     \<exists>es. trace s' = trace s @ es \<and>
       (\<forall>d\<in>set ds. \<exists>tok. Rd (MEM (dtd_dma d + DTD_TOKEN)) tok \<in> set es \<and> dtd_done dir tok) \<and>
       (dir = IN \<longrightarrow> moved = acc + sum_list (map dtd_size ds))"
proof (induction ds arbitrary: i acc s)
  case Nil
  then show ?case by (auto intro: exI [of _ "[]"])
next
  case (Cons d ds)
  let ?t = "MEM (dtd_dma d + DTD_TOKEN)"
  from Cons.prems obtain s1 where w: "wait_inactive env n ?t s = Some s1"
    by (auto simp: Let_def split: option.splits)
  let ?tok = "rd env ?t (clk s1)"
  let ?s2 = "snd (reg_read env ?t s1)"
  from Cons.prems w have ok: "?tok AND 0xff = 0" "\<not> (dir = IN \<and> drop_bit TOKEN_TOTAL ?tok > 0)"
    and rest: "check_dtd env n dir (Suc i) ds (acc + (dtd_size d - drop_bit TOKEN_TOTAL ?tok)) ?s2 = Some ((moved, None), s')"
    by (auto simp: Let_def reg_read_simp split: if_splits)
  obtain es where es: "trace s' = trace ?s2 @ es"
    "\<forall>d\<in>set ds. \<exists>tok. Rd (MEM (dtd_dma d + DTD_TOKEN)) tok \<in> set es \<and> dtd_done dir tok"
    "dir = IN \<longrightarrow> moved = acc + (dtd_size d - drop_bit TOKEN_TOTAL ?tok) + sum_list (map dtd_size ds)"
    using Cons.IH [OF rest] by blast
  from quiet_wait_inactive [OF w] obtain es1 where es1: "trace s1 = trace s @ es1"
    by (auto simp: quiet_def)
  have tr: "trace s' = trace s @ es1 @ Rd ?t ?tok # es"
    using es(1) es1 by (simp add: reg_read_simp)
  have "dtd_done dir ?tok" using ok by (auto simp: dtd_done_def word_gt_0)
  with tr es ok show ?case
    by (intro exI [of _ "es1 @ Rd ?t ?tok # es"]) (auto simp: word_gt_0)
qed

lemma dtd_sizes_chunks:
  assumes "list_all2 (\<lambda>d (i, sz). d = (dtd_init ioc (pages + of_nat i) sz)\<lparr>dtd_dma := dtd_dma d\<rparr>) ds cs"
    and "\<forall>c\<in>set cs. snd c \<le> dtdLength"
  shows "map (\<lambda>d. unat (dtd_size d)) ds = map snd cs"
  using assms
proof (induction ds cs rule: list_all2_induct)
  case Nil
  then show ?case by simp
next
  case (Cons d ds c cs)
  obtain i sz where c: "c = (i, sz)" by fastforce
  with Cons.prems have "sz < 2 ^ 32" by simp
  moreover have "dtd_size d = of_nat sz"
    using arg_cong [where f = dtd_size, OF Cons.hyps(1) [unfolded c split]]
    by (simp add: dtd_init_def Let_def)
  ultimately have "unat (dtd_size d) = sz" by (simp add: unat_of_nat)
  with Cons.IH Cons.prems show ?case by (simp add: c)
qed

lemma quiet_copy_back: "copy_back env n dir b t pages moved s = Some (out, s') \<Longrightarrow> quiet s s'"
  by (auto simp: copy_back_def split: if_splits) (metis quiet_bus_ops(7) snd_conv)

text \<open>C1: a transfer that returns without error frees its buffer and descriptors only at its end, after the buffer allocation and the descriptor allocations in between, frees nothing else, has read every descriptor token back with no status bit set (and, sending, no bytes left), and its descriptors cover the buffer in the chunks of \<open>dtd_chunks\<close>.\<close>

lemma transfer_ok_trace:
  assumes "transfer env n dir ioc buf s = Some ((out, None), s')"
  shows "\<exists>pages (ds :: dtd list) es. trace s' = trace s @ Alloc pages DTD_PAGE_SIZE (transfer_data dir buf) # es
      @ map Free (rev (map dtd_dma ds)) @ [Free pages] \<and> frees es = [] \<and> allocs DTD_ALIGN es = map dtd_dma ds
    \<and> map (\<lambda>d. unat (dtd_size d)) ds = map snd (dtd_chunks (length (transfer_data dir buf)) 0)
    \<and> (\<forall>d\<in>set ds. \<exists>tok. Rd (MEM (dtd_dma d + DTD_TOKEN)) tok \<in> set es \<and> dtd_done dir tok)"
proof -
  define data where "data = transfer_data dir buf"
  define pages where "pages = alloc env (nalloc s)"
  define s1 where "s1 = s\<lparr>nalloc := Suc (nalloc s), trace := trace s @ [Alloc pages DTD_PAGE_SIZE data]\<rparr>"
  define pos where "pos = ep_pos n dir"
  from assms obtain dtds s2 s3 e s4 moved s5 s6 where
    pl: "prime_loop env n dir ioc pages None (dtd_chunks (length data) 0) s1 = Some (dtds, s2)"
    and w: "reg_wait env ENDPTPRIME pos 1 0 s2 = Some s3"
    and wc: "wait_complete env n pos s3 = Some (e, s4)"
    and cd: "check_dtd env n dir 0 dtds 0 (reg_write ENDPTCOMPLETE (push_bit pos 1) s4) = Some ((moved, None), s5)"
    and q6: "copy_back env n dir (transfer_buf dir buf) (length data) pages moved s5 = Some (out, s6)" and fin: "s' = dma_free_all (pages # map dtd_dma dtds) s6"
    unfolding transfer_def Let_def dma_alloc_simp data_def pages_def s1_def pos_def
    by (auto split: option.splits prod.splits)
  from prime_loop_trace [OF pl] obtain es1 where
    es1: "trace s2 = trace s1 @ es1" "frees es1 = []" "allocs DTD_ALIGN es1 = map dtd_dma dtds"
    and l: "list_all2 (\<lambda>d (i, sz). d = (dtd_init ioc (pages + of_nat i) sz)\<lparr>dtd_dma := dtd_dma d\<rparr>)
      dtds (dtd_chunks (length data) 0)"
    by blast
  have "quiet s2 (reg_write ENDPTCOMPLETE (push_bit pos 1) s4)"
    using quiet_reg_wait [OF w] quiet_wait_complete [OF wc] quiet_bus_ops(1)
    by (blast intro: quiet_trans)
  then obtain es2 where es2: "trace (reg_write ENDPTCOMPLETE (push_bit pos 1) s4) = trace s2 @ es2"
    "frees es2 = []" "allocs DTD_ALIGN es2 = []"
    by (auto simp: quiet_def)
  from check_dtd_ok [OF cd] obtain es3 where es3: "trace s5 = trace (reg_write ENDPTCOMPLETE (push_bit pos 1) s4) @ es3"
    "\<forall>d\<in>set dtds. \<exists>tok. Rd (MEM (dtd_dma d + DTD_TOKEN)) tok \<in> set es3 \<and> dtd_done dir tok"
    by blast
  have fa3: "frees es3 = [] \<and> allocs DTD_ALIGN es3 = []"
    using check_dtd_quiet [OF cd] es3(1) by (auto simp: quiet_def)
  from quiet_copy_back [OF q6] obtain es4 where es4: "trace s6 = trace s5 @ es4" "frees es4 = []" "allocs DTD_ALIGN es4 = []"
    by (auto simp: quiet_def)
  have sizes: "map (\<lambda>d. unat (dtd_size d)) dtds = map snd (dtd_chunks (length data) 0)"
    using l by (rule dtd_sizes_chunks) (auto dest: dtd_chunks_size_le)
  have tr: "trace s' = trace s @ Alloc pages DTD_PAGE_SIZE (transfer_data dir buf) # (es1 @ es2 @ es3 @ es4)
      @ map Free (rev (map dtd_dma dtds)) @ [Free pages]"
    using es1 es2 es3 es4 by (simp add: fin trace_dma_free_all s1_def data_def)
  have fa: "frees (es1 @ es2 @ es3 @ es4) = [] \<and> allocs DTD_ALIGN (es1 @ es2 @ es3 @ es4) = map dtd_dma dtds"
    using es1 es2 es4 fa3 by simp
  have obs: "\<forall>d\<in>set dtds. \<exists>tok. Rd (MEM (dtd_dma d + DTD_TOKEN)) tok \<in> set (es1 @ es2 @ es3 @ es4) \<and> dtd_done dir tok"
    using es3(2) by auto
  show ?thesis
    apply (rule exI [of _ pages], rule exI [of _ dtds], rule exI [of _ "es1 @ es2 @ es3 @ es4"])
    using tr fa sizes obs by (simp add: data_def)
qed









lemma frame_transfer: "transfer env n dir ioc buf s = Some (r, s') \<Longrightarrow> frame s s'"
proof -
  assume h: "transfer env n dir ioc buf s = Some (r, s')"
  define pages where "pages = alloc env (nalloc s)"
  define s1 where "s1 = s\<lparr>nalloc := Suc (nalloc s), trace := trace s @ [Alloc pages DTD_PAGE_SIZE (transfer_data dir buf)]\<rparr>"
  from h obtain dtds s2 s3 e s4 res s5 out s6 where
    pl: "prime_loop env n dir ioc pages None (dtd_chunks (length (transfer_data dir buf)) 0) s1 = Some (dtds, s2)"
    and w: "reg_wait env ENDPTPRIME (ep_pos n dir) 1 0 s2 = Some s3"
    and wc: "wait_complete env n (ep_pos n dir) s3 = Some (e, s4)"
    and cd: "check_dtd env n dir 0 dtds 0 (reg_write ENDPTCOMPLETE (push_bit (ep_pos n dir) 1) s4) = Some (res, s5)"
    and cb: "copy_back env n dir (transfer_buf dir buf) (length (transfer_data dir buf)) pages (fst res) s5 = Some (out, s6)"
    and fin: "s' = dma_free_all (pages # map dtd_dma dtds) s6"
    unfolding transfer_def Let_def dma_alloc_simp pages_def s1_def
    by (auto split: option.splits prod.splits)
  have "frame s s1" by (simp add: s1_def frame_def)
  moreover have "frame s1 s2" using prime_loop_trace [OF pl] by blast
  moreover have "quiet s2 s6"
    using quiet_reg_wait [OF w] quiet_wait_complete [OF wc] quiet_bus_ops(1) check_dtd_quiet [OF cd]
      quiet_copy_back [OF cb] by (blast intro: quiet_trans)
  moreover have "frame s6 s'" by (simp add: fin frame_dma_free_all)
  ultimately show ?thesis by (blast intro: frame_trans quiet_imp_frame)
qed

lemma frame_tx: "tx env n ioc d s = Some (r, s') \<Longrightarrow> frame s s'"
  by (auto simp: tx_def split: option.splits prod.splits if_splits dest!: frame_transfer intro: frame_trans)

lemma frame_ack: "ack env n s = Some (r, s') \<Longrightarrow> frame s s'"
  by (auto simp: ack_def dest!: frame_transfer)

end
