(* ===== verification/Dispatch.thy ===== *)
theory Dispatch
  imports TransferEngine
begin

text \<open>
  The setup dispatcher of \<open>src/soc/nxp/usb/setup.go\<close>: \<open>getSetup\<close> (lines 85--101),
  \<open>getDescriptor\<close> (103--138), \<open>handleStandardSetup\<close> (140--185),
  \<open>handleClassSpecificSetup\<close> (186--199) and \<open>handleSetup\<close> (201--235).  Each handler
  takes the device description, the decoded setup packet and the driver state, and
  returns the error it reports, the device (the handlers write its configuration value
  and alternate setting) and the state after its bus accesses and transfers; \<open>None\<close> is
  a handler that does not return (a transfer that waits for ever).

  The \<open>Device\<close> type is declared in a file of the driver that is not under \<open>src/\<close>; it
  is modelled from the documentation as the record \<open>device\<close>: the serialised device and
  qualifier descriptors, the configuration lookup \<open>Configuration(index)\<close> (\<open>None\<close> for its
  error), the string descriptors, the optional setup override with its four results,
  and the current configuration value and alternate setting.  The register bit positions
  of DEVICEADDR and ENDPTFLUSH and the CDC request code \<open>SET_ETHERNET_PACKET_FILTER\<close>
  come from the controller's register map and the CDC specification.  Logging and the
  100 ms \<open>time.Sleep\<close> of \<open>handleSetup\<close> do not touch the bus and are left out.
\<close>

section \<open>Constants\<close>

abbreviation (input) GET_STATUS :: u8 where "GET_STATUS \<equiv> 0"
abbreviation (input) CLEAR_FEATURE :: u8 where "CLEAR_FEATURE \<equiv> 1"
abbreviation (input) SET_ADDRESS :: u8 where "SET_ADDRESS \<equiv> 5"
abbreviation (input) GET_DESCRIPTOR :: u8 where "GET_DESCRIPTOR \<equiv> 6"
abbreviation (input) GET_CONFIGURATION :: u8 where "GET_CONFIGURATION \<equiv> 8"
abbreviation (input) SET_CONFIGURATION :: u8 where "SET_CONFIGURATION \<equiv> 9"
abbreviation (input) GET_INTERFACE :: u8 where "GET_INTERFACE \<equiv> 10"
abbreviation (input) SET_INTERFACE :: u8 where "SET_INTERFACE \<equiv> 11"
abbreviation (input) HID_SET_IDLE :: u8 where "HID_SET_IDLE \<equiv> 0x0a"
abbreviation (input) SET_ETHERNET_PACKET_FILTER :: u8 where "SET_ETHERNET_PACKET_FILTER \<equiv> 0x43"

abbreviation (input) DEVICE :: u16 where "DEVICE \<equiv> 1"
abbreviation (input) CONFIGURATION :: u16 where "CONFIGURATION \<equiv> 2"
abbreviation (input) STRING :: u16 where "STRING \<equiv> 3"
abbreviation (input) DEVICE_QUALIFIER :: u16 where "DEVICE_QUALIFIER \<equiv> 6"
abbreviation (input) HID_REPORT :: u16 where "HID_REPORT \<equiv> 0x22"

abbreviation (input) ENDPOINT_HALT :: u16 where "ENDPOINT_HALT \<equiv> 0"

abbreviation (input) ENDPTFLUSH_FERB :: nat where "ENDPTFLUSH_FERB \<equiv> 0"
abbreviation (input) ENDPTFLUSH_FETB :: nat where "ENDPTFLUSH_FETB \<equiv> 16"
abbreviation (input) DEVICEADDR_USBADRA :: nat where "DEVICEADDR_USBADRA \<equiv> 24"
abbreviation (input) DEVICEADDR_USBADR :: nat where "DEVICEADDR_USBADR \<equiv> 25"

section \<open>The device description\<close>

record device =
  dev_descriptor :: "u8 list"
  dev_configuration :: "u16 \<Rightarrow> u8 list option"
  dev_strings :: "u8 list list"
  dev_qualifier :: "u8 list"
  dev_setup :: "(setup_data \<Rightarrow> u8 list \<times> bool \<times> bool \<times> usb_error option) option"
  configuration_value :: u8
  alternate_setting :: u8

section \<open>The HID report descriptor sent by \<open>getDescriptor\<close>\<close>

text \<open>\<open>hex.DecodeString\<close>: two hexadecimal digits per byte; \<open>None\<close> for its error.\<close>

definition hex_digit :: "char \<Rightarrow> nat option" where
  "hex_digit c =
     (let k = of_char c :: nat
      in if 48 \<le> k \<and> k \<le> 57 then Some (k - 48)
         else if 97 \<le> k \<and> k \<le> 102 then Some (k - 87)
         else if 65 \<le> k \<and> k \<le> 70 then Some (k - 55)
         else None)"

fun hex_decode :: "string \<Rightarrow> u8 list option" where
  "hex_decode [] = Some []"
| "hex_decode [c] = None"
| "hex_decode (c1 # c2 # cs) =
     (case (hex_digit c1, hex_digit c2, hex_decode cs) of
        (Some h, Some l, Some bs) \<Rightarrow> Some (of_nat (16 * h + l) # bs)
      | _ \<Rightarrow> None)"

definition hid_report_hex :: string where
  "hid_report_hex = ''05010906a101050719e029e71500250175019508810295017508810395037501050819012903910295017505910395067508150026a4000507190029a48100c0''"

text \<open>The decoded report; Go ignores the decoding error and sends what it got.\<close>

definition hid_report :: "u8 list" where
  "hid_report = (case hex_decode hid_report_hex of Some r \<Rightarrow> r | None \<Rightarrow> [])"

section \<open>Operations\<close>

text \<open>\<open>getSetup\<close>: clear the setup status, flush both directions of endpoint 0, read the
  queue head of endpoint 0 OUT and swap the \<open>Value\<close> of its setup buffer.\<close>

definition get_setup :: "hw_env \<Rightarrow> usb \<Rightarrow> setup_data \<times> usb" where
  "get_setup env s =
     (let s1 = reg_set env ENDPTSETUPSTAT 0 s;
          s2 = reg_set env ENDPTFLUSH (ENDPTFLUSH_FETB + 0) s1;
          s3 = reg_set env ENDPTFLUSH (ENDPTFLUSH_FERB + 0) s2
      in case qh env 0 OUT s3 of (q, s4) \<Rightarrow> (setup_swap (qh_setup q), s4))"

definition get_descriptor ::
  "hw_env \<Rightarrow> device \<Rightarrow> setup_data \<Rightarrow> usb \<Rightarrow> (usb_error option \<times> usb) option" where
  "get_descriptor env dev setup s =
     (let bDescriptorType = wValue setup AND 0xff;
          index = drop_bit 8 (wValue setup)
      in if bDescriptorType = DEVICE then tx env 0 False (trim (dev_descriptor dev) (wLength setup)) s
         else if bDescriptorType = CONFIGURATION then
           (case dev_configuration dev index of
              None \<Rightarrow> Some (Some ConfigurationError, s)
            | Some conf \<Rightarrow> tx env 0 False (trim conf (wLength setup)) s)
         else if bDescriptorType = STRING then
           (if unat (index + 1) > length (dev_strings dev) then
              Some (Some (InvalidStringIndex index), stall env 0 IN s)
            else tx env 0 False (trim (dev_strings dev ! unat index) (wLength setup)) s)
         else if bDescriptorType = DEVICE_QUALIFIER then tx env 0 False (dev_qualifier dev) s
         else if bDescriptorType = HID_REPORT then tx env 0 False (trim hid_report (wLength setup)) s
         else Some (Some (UnsupportedDescriptor bDescriptorType), stall env 0 IN s))"

text \<open>The address \<open>SET_ADDRESS\<close> writes: the swap of \<open>getSetup\<close> undone.\<close>

definition set_address_value :: "setup_data \<Rightarrow> u32" where
  "set_address_value setup = ucast (push_bit 8 (wValue setup) AND 0xff00 OR drop_bit 8 (wValue setup))"

text \<open>The endpoint \<open>CLEAR_FEATURE(ENDPOINT_HALT)\<close> resets: number and direction from
  \<open>Index\<close>.\<close>

definition halt_endpoint :: "setup_data \<Rightarrow> nat \<times> nat" where
  "halt_endpoint setup = (unat (wIndex setup AND 0b1111), unat (wIndex setup AND 0b10000000) div 0b10000000)"

definition handle_standard_setup ::
  "hw_env \<Rightarrow> device \<Rightarrow> setup_data \<Rightarrow> usb \<Rightarrow> ((usb_error option \<times> device) \<times> usb) option" where
  "handle_standard_setup env dev setup s =
     (let req = bRequest setup;
          with_dev = map_option (\<lambda>(err, s'). ((err, dev), s'))
      in if req = GET_STATUS then with_dev (tx env 0 False [0, 0] s)
         else if req = CLEAR_FEATURE then
           (if wValue setup = ENDPOINT_HALT then
              (case halt_endpoint setup of (n, dir) \<Rightarrow> with_dev (ack env 0 (reset env n dir s)))
            else Some ((None, dev), stall env 0 IN s))
         else if req = SET_ADDRESS then
           with_dev (ack env 0 (reg_setN env DEVICEADDR DEVICEADDR_USBADR 0x7f (set_address_value setup)
                                  (reg_set env DEVICEADDR DEVICEADDR_USBADRA s)))
         else if req = GET_DESCRIPTOR then with_dev (get_descriptor env dev setup s)
         else if req = GET_CONFIGURATION then with_dev (tx env 0 False [configuration_value dev] s)
         else if req = SET_CONFIGURATION then
           (let dev' = dev\<lparr>configuration_value := ucast (drop_bit 8 (wValue setup))\<rparr>
            in map_option (\<lambda>(err, s'). ((err, dev'), s')) (ack env 0 s))
         else if req = GET_INTERFACE then with_dev (tx env 0 False [alternate_setting dev] s)
         else if req = SET_INTERFACE then
           (let dev' = dev\<lparr>alternate_setting := ucast (drop_bit 8 (wValue setup))\<rparr>
            in map_option (\<lambda>(err, s'). ((err, dev'), s')) (ack env 0 s))
         else if req = SET_ETHERNET_PACKET_FILTER then with_dev (ack env 0 s)
         else Some ((Some (UnsupportedRequest req), dev), stall env 0 IN s))"

definition handle_class_specific_setup ::
  "hw_env \<Rightarrow> device \<Rightarrow> setup_data \<Rightarrow> usb \<Rightarrow> (usb_error option \<times> usb) option" where
  "handle_class_specific_setup env dev setup s =
     (if bRequest setup = HID_SET_IDLE then ack env 0 s
      else Some (Some (UnsupportedRequest (bRequest setup)), stall env 0 IN s))"

text \<open>The setup override of \<open>handleSetup\<close> (lines 206--221): \<open>Inl\<close> is an early return
  with the error it returns, \<open>Inr\<close> a fall-through to the standard handlers.  The error
  of \<open>in, ack, done, err := dev.Setup(setup)\<close> shadows the named result, so a
  fall-through carries no error.\<close>

definition setup_override ::
  "hw_env \<Rightarrow> device \<Rightarrow> setup_data \<Rightarrow> usb \<Rightarrow> ((usb_error option \<times> usb) + usb) option" where
  "setup_override env dev setup s =
     (case dev_setup dev of
        None \<Rightarrow> Some (Inr s)
      | Some f \<Rightarrow>
          (case f setup of (inb, ackb, done, err) \<Rightarrow>
             if err \<noteq> None then Some (Inl (err, stall env 0 IN s))
             else
               map_option (\<lambda>(err', s').
                   if done \<or> err' \<noteq> None then Inl (err', s') else Inr s')
                 (if inb \<noteq> [] then tx env 0 False inb s
                  else if ackb then ack env 0 s
                  else Some (None, s))))"

text \<open>\<open>handleSetup\<close>: a missing packet returns at once; otherwise the override, then the
  class-specific handler when \<open>RequestType = 0x21\<close> and the standard handlers otherwise,
  whose errors are dropped: the function returns its named result, still \<open>nil\<close>.\<close>

definition handle_setup ::
  "hw_env \<Rightarrow> device \<Rightarrow> setup_data option \<Rightarrow> usb \<Rightarrow> ((usb_error option \<times> device) \<times> usb) option" where
  "handle_setup env dev setup s =
     (case setup of
        None \<Rightarrow> Some ((None, dev), s)
      | Some st \<Rightarrow>
          (case setup_override env dev st s of
             None \<Rightarrow> None
           | Some (Inl (err, s')) \<Rightarrow> Some ((err, dev), s')
           | Some (Inr s1) \<Rightarrow>
               (if bmRequestType st = 0x21 then
                  map_option (\<lambda>(_, s'). ((None, dev), s')) (handle_class_specific_setup env dev st s1)
                else map_option (\<lambda>((_, dev'), s'). ((None, dev'), s')) (handle_standard_setup env dev st s1))))"

section \<open>Lemmas\<close>

lemmas frame_ops = frame_bus_ops frame_qh_ops

lemma frame_get_descriptor: "get_descriptor env dev st s = Some (r, s') \<Longrightarrow> frame s s'"
  by (auto simp: get_descriptor_def Let_def split: if_splits option.splits dest!: frame_tx intro: frame_ops)

lemma frame_set_address: "frame s (reg_setN env r p m v (reg_set env r' q s))"
  by (rule frame_trans [OF frame_bus_ops(2) frame_bus_ops(4)])

lemma frame_handle_standard_setup: "handle_standard_setup env dev st s = Some (r, s') \<Longrightarrow> frame s s'"
  by (auto simp: handle_standard_setup_def Let_def split: if_splits option.splits prod.splits
      dest!: frame_tx frame_ack frame_get_descriptor intro: frame_ops frame_trans [OF frame_set_address]
      frame_trans [OF frame_qh_ops(3)])

lemma frame_handle_class_specific_setup: "handle_class_specific_setup env dev st s = Some (r, s') \<Longrightarrow> frame s s'"
  by (auto simp: handle_class_specific_setup_def split: if_splits dest!: frame_ack intro: frame_ops)

lemma frame_setup_override:
  "setup_override env dev st s = Some (Inl (e, s')) \<Longrightarrow> frame s s'"
  "setup_override env dev st s = Some (Inr s') \<Longrightarrow> frame s s'"
  by (auto simp: setup_override_def split: if_splits option.splits prod.splits sum.splits
      dest!: frame_tx frame_ack intro: frame_ops)

lemma frame_handle_setup: "handle_setup env dev st s = Some (r, s') \<Longrightarrow> frame s s'"
  by (auto simp: handle_setup_def split: if_splits option.splits prod.splits sum.splits
      dest!: frame_setup_override frame_handle_standard_setup frame_handle_class_specific_setup intro: frame_trans)

lemma frame_get_setup: "frame s (snd (get_setup env s))"
  by (simp add: get_setup_def Let_def case_prod_unfold qh_def)
    (meson frame_trans frame_bus_ops(2) frame_bus_ops(8))


text \<open>C5: the setup packet \<open>getSetup\<close> returns, in terms of the bytes of the setup
  buffer of the endpoint 0 OUT queue head (offset 40): \<open>Value\<close> is their big-endian
  reading, \<open>Index\<close> and \<open>Length\<close> their little-endian one.\<close>

lemma get_setup_wire:
  "fst (get_setup env s) =
     (let b = \<lambda>i. mem env (clk s + 3) (dqh_addr s 0 OUT + of_nat i)
      in \<lparr>bmRequestType = b 40, bRequest = b 41, wValue = of_le16 [b 43, b 42],
          wIndex = of_le16 [b 44, b 45], wLength = of_le16 [b 46, b 47]\<rparr>)"
proof -
  define bs where "bs = map (\<lambda>i. mem env (clk s + 3) (dqh_addr s 0 OUT + of_nat i)) [0..<64]"
  have "fst (get_setup env s) = setup_swap (setup_of_bytes (take 8 (drop 40 bs)))"
    by (simp add: get_setup_def qh_def dqh_of_bytes_def bus_simps dma_read_simp bs_def numeral_3_eq_3)
  also have "\<dots> = \<lparr>bmRequestType = bs ! 40, bRequest = bs ! 41, wValue = of_le16 [bs ! 43, bs ! 42],
          wIndex = of_le16 [bs ! 44, bs ! 45], wLength = of_le16 [bs ! 46, bs ! 47]\<rparr>"
    by (simp add: setup_swap_wire bs_def)
  finally show ?thesis by (simp add: bs_def Let_def)
qed

lemma get_setup_value_bytes:
  "wValue (fst (get_setup env s)) = of_le16 [mem env (clk s + 3) (dqh_addr s 0 OUT + 43), mem env (clk s + 3) (dqh_addr s 0 OUT + 42)]"
  by (simp add: get_setup_wire Let_def)

text \<open>the descriptor type \<open>getDescriptor\<close> switches on is byte 3 of the setup
  packet on the wire and the index it uses is byte 2, the high and low bytes of the
  USB \<open>wValue\<close>: the swap of \<open>getSetup\<close> puts them where \<open>getDescriptor\<close> reads them.\<close>

lemma get_setup_descriptor_fields:
  "wValue (fst (get_setup env s)) AND 0xff = ucast (mem env (clk s + 3) (dqh_addr s 0 OUT + 43)) \<and>
   drop_bit 8 (wValue (fst (get_setup env s))) = ucast (mem env (clk s + 3) (dqh_addr s 0 OUT + 42))"
  by (simp only: get_setup_value_bytes of_le16_low of_le16_high)

text \<open>\<open>SET_ADDRESS\<close> writes the \<open>wValue\<close> the host sent: its shift-and-mask undoes
  the swap of \<open>getSetup\<close>.\<close>

lemma set_address_undoes_swap: "set_address_value (setup_swap st) = ucast (wValue st)"
  by (simp add: set_address_value_def setup_swap_def of_le16_be16_eq_swap16 swap_back_eq_swap16)

text \<open>C15: a string descriptor index past the device's strings stalls endpoint 0 IN and
  reports \<open>InvalidStringIndex\<close>; \<open>index + 1\<close> cannot wrap because the index is a byte.\<close>

lemma get_descriptor_string_invalid:
  assumes "wValue setup AND 0xff = STRING" and "length (dev_strings dev) \<le> unat (drop_bit 8 (wValue setup))"
  shows "get_descriptor env dev setup s =
     Some (Some (InvalidStringIndex (drop_bit 8 (wValue setup))), stall env 0 IN s)"
  using assms by (simp add: get_descriptor_def Let_def unat_high_byte_Suc)

text \<open>C6: without a setup override, \<open>handleSetup\<close> never reports an error: the results of
  the standard and class-specific handlers are dropped.\<close>

lemma handle_setup_drops_errors:
  "dev_setup dev = None \<Longrightarrow> handle_setup env dev (Some st) s = Some ((err, dev'), s') \<Longrightarrow> err = None"
  by (auto simp: handle_setup_def setup_override_def split: if_splits option.splits prod.splits)

text \<open>a request for the device qualifier sends the whole qualifier, whatever
  length the host asked for: it is the one descriptor \<open>getDescriptor\<close> does not trim.\<close>

lemma get_descriptor_qualifier:
  "wValue setup AND 0xff = DEVICE_QUALIFIER \<Longrightarrow> get_descriptor env dev setup s = tx env 0 False (dev_qualifier dev) s"
  by (simp add: get_descriptor_def Let_def)


text \<open>C17: a standard request the driver does not implement stalls endpoint 0 IN and
  reports \<open>UnsupportedRequest\<close>, leaving the device unchanged.\<close>

lemma handle_standard_setup_unsupported:
  assumes "bRequest st \<notin> {GET_STATUS, CLEAR_FEATURE, SET_ADDRESS, GET_DESCRIPTOR, GET_CONFIGURATION,
      SET_CONFIGURATION, GET_INTERFACE, SET_INTERFACE, SET_ETHERNET_PACKET_FILTER}"
  shows "handle_standard_setup env dev st s = Some ((Some (UnsupportedRequest (bRequest st)), dev), stall env 0 IN s)"
  using assms by (simp add: handle_standard_setup_def Let_def)

text \<open>C18: \<open>SET_CONFIGURATION\<close> stores the high byte of the swapped \<open>Value\<close> as the
  configuration value and leaves the alternate setting alone, whatever its status stage
  returns.\<close>

lemma handle_standard_setup_set_configuration:
  assumes "bRequest st = SET_CONFIGURATION" and "handle_standard_setup env dev st s = Some ((err, dev'), s')"
  shows "configuration_value dev' = ucast (drop_bit 8 (wValue st)) \<and> alternate_setting dev' = alternate_setting dev"
  using assms by (auto simp: handle_standard_setup_def Let_def)

end
