(* ===== verification/DeviceLoop.thy ===== *)
theory DeviceLoop
  imports Dispatch
begin

text \<open>
  The controller side of \<open>src/soc/nxp/usb/device.go\<close>: \<open>DeviceMode\<close> (lines 20--55),
  which resets the controller, puts it in device mode, builds the queue-head list and the
  two control queue heads and starts it, and \<open>Start\<close> (lines 57--110), the endless loop
  that handles bus resets and setup packets and restarts the endpoint tasks when the host
  selects another configuration.

  The loop is modelled by one iteration \<open>start_iter\<close> on a record \<open>loop_state\<close> (the
  loop's \<open>conf\<close>, the device, the driver state, whether a cohort of endpoint tasks is
  running, i.e. \<open>hw.done\<close> is not nil, and the history of cohort stops and starts), and
  by the inductive set of the states the loop reaches.  The endpoint tasks themselves,
  \<open>startEndpoints\<close> and the bus reset procedure \<open>USB.Reset\<close> are declared in files of
  the driver that are not under \<open>src/\<close>: starting a cohort is the event \<open>StartEps c\<close>
  (\<open>startEndpoints\<close> makes a fresh \<open>hw.done\<close>), \<open>close(hw.done); wg.Wait()\<close> is the
  event \<open>Stop\<close> after which every task of the cohort has returned, and \<open>USB.Reset\<close>
  follows the bus-reset procedure of the reference manual (p3792).  The controller lock
  of \<open>DeviceMode\<close> is not modelled: the model is sequential.
\<close>

section \<open>Register fields\<close>

abbreviation (input) USBCMD_RS :: nat where "USBCMD_RS \<equiv> 0"
abbreviation (input) USBCMD_RST :: nat where "USBCMD_RST \<equiv> 1"
abbreviation (input) USBSTS_URI :: nat where "USBSTS_URI \<equiv> 6"
abbreviation (input) USBMODE_CM :: nat where "USBMODE_CM \<equiv> 0"
abbreviation (input) USBMODE_CM_DEVICE :: u32 where "USBMODE_CM_DEVICE \<equiv> 0b10"
abbreviation (input) USBMODE_SLOM :: nat where "USBMODE_SLOM \<equiv> 3"
abbreviation (input) USBMODE_SDIS :: nat where "USBMODE_SDIS \<equiv> 4"
abbreviation (input) OTGSC_OT :: nat where "OTGSC_OT \<equiv> 3"

section \<open>DeviceMode\<close>

text \<open>The USBMODE word \<open>DeviceMode\<close> writes: controller mode set to device, setup
  lockout off, stream mode on.\<close>

definition device_mode_word :: "u32 \<Rightarrow> u32" where
  "device_mode_word m =
     (let m1 = (m AND NOT (push_bit USBMODE_CM 0b11)) OR push_bit USBMODE_CM USBMODE_CM_DEVICE;
          m2 = m1 OR push_bit USBMODE_SLOM 1
      in m2 AND NOT (push_bit USBMODE_SDIS 1))"

definition device_mode :: "hw_env \<Rightarrow> usb \<Rightarrow> usb option" where
  "device_mode env s =
     do {
       s2 \<leftarrow> reg_wait env USBCMD USBCMD_RST 1 0 (reg_set env USBCMD USBCMD_RST s);
       let (m, s3) = reg_read env USBMODE s2;
       s5 \<leftarrow> reg_wait env USBMODE USBMODE_CM 0b11 USBMODE_CM_DEVICE (reg_write USBMODE (device_mode_word m) s3);
       let s6 = init_qh env s5;
       let s8 = qh_set 0 OUT 64 True 0 (qh_set 0 IN 64 True 0 s6);
       let s9 = reg_set env OTGSC OTGSC_OT s8;
       Some (reg_set env USBCMD USBCMD_RS (reg_write USBSTS 0xffffffff s9))
     }"

section \<open>The bus reset procedure\<close>

text \<open>\<open>USB.Reset\<close>: clear the setup and completion status by writing back what they
  read, wait until no endpoint is being primed, flush every endpoint and acknowledge the
  reset interrupt.\<close>

definition bus_reset :: "hw_env \<Rightarrow> usb \<Rightarrow> usb option" where
  "bus_reset env s =
     (case reg_read env ENDPTSETUPSTAT s of (st, s1) \<Rightarrow>
      case reg_read env ENDPTCOMPLETE (reg_write ENDPTSETUPSTAT st s1) of (c, s2) \<Rightarrow>
        map_option (\<lambda>s3. reg_set env USBSTS USBSTS_URI (reg_write ENDPTFLUSH 0xffffffff s3))
          (reg_wait env ENDPTPRIME 0 0xffffffff 0 (reg_write ENDPTCOMPLETE c s2)))"

section \<open>Start\<close>

datatype cohort_event = Stop | StartEps u8

record loop_state =
  ls_conf :: u8
  ls_dev :: device
  ls_hw :: usb
  ls_done :: bool
  ls_cohorts :: "cohort_event list"

text \<open>Lines 64--73: a pending bus reset clears both configuration values and resets the
  controller.\<close>

definition check_bus_reset :: "hw_env \<Rightarrow> loop_state \<Rightarrow> loop_state option" where
  "check_bus_reset env st =
     (case reg_get env USBSTS USBSTS_URI 1 (ls_hw st) of (uri, s1) \<Rightarrow>
        if uri = 1 then
          map_option (\<lambda>s2. st\<lparr>ls_conf := 0, ls_dev := (ls_dev st)\<lparr>configuration_value := 0\<rparr>, ls_hw := s2\<rparr>)
            (bus_reset env s1)
        else Some (st\<lparr>ls_hw := s1\<rparr>))"

text \<open>Lines 88--107: after a setup packet, a configuration value other than the loop's
  stops the running cohort (if any) and starts the cohort of the new configuration.\<close>

definition reload_endpoints :: "loop_state \<Rightarrow> loop_state" where
  "reload_endpoints st =
     (if configuration_value (ls_dev st) = ls_conf st then st
      else
        (let conf = configuration_value (ls_dev st)
         in st\<lparr>ls_conf := conf, ls_done := True,
               ls_cohorts := ls_cohorts st @ (if ls_done st then [Stop] else []) @ [StartEps conf]\<rparr>))"

text \<open>One iteration of the loop of \<open>Start\<close>.\<close>

definition start_iter :: "hw_env \<Rightarrow> loop_state \<Rightarrow> loop_state option" where
  "start_iter env st =
     do {
       st1 \<leftarrow> check_bus_reset env st;
       let (got, s2) = reg_wait_for env 10 ENDPTSETUPSTAT 0 1 1 (ls_hw st1);
       if \<not> got then Some (st1\<lparr>ls_hw := s2\<rparr>)
       else do {
         let (setup, s3) = get_setup env s2;
         ((_, dev'), s4) \<leftarrow> handle_setup env (ls_dev st1) (Some setup) s3;
         Some (reload_endpoints (st1\<lparr>ls_dev := dev', ls_hw := s4\<rparr>))
       }
     }"

text \<open>The states the loop of \<open>Start\<close> reaches from a device in device mode.\<close>

definition start_state :: "device \<Rightarrow> usb \<Rightarrow> loop_state" where
  "start_state dev s = \<lparr>ls_conf = 0, ls_dev = dev, ls_hw = s, ls_done = False, ls_cohorts = []\<rparr>"

inductive reach :: "hw_env \<Rightarrow> device \<Rightarrow> usb \<Rightarrow> loop_state \<Rightarrow> bool" for env dev s where
  reach_start: "reach env dev s (start_state dev s)"
| reach_step: "reach env dev s st \<Longrightarrow> start_iter env st = Some st' \<Longrightarrow> reach env dev s st'"

text \<open>The cohort history is well formed when stops and starts alternate, beginning with a
  start; its value is whether a cohort is running at its end.\<close>

fun cohorts_running :: "bool \<Rightarrow> cohort_event list \<Rightarrow> bool option" where
  "cohorts_running r [] = Some r"
| "cohorts_running r (Stop # es) = (if r then cohorts_running False es else None)"
| "cohorts_running r (StartEps c # es) = (if r then None else cohorts_running True es)"

text \<open>What the loop keeps between iterations: the device's configuration value is the
  loop's \<open>conf\<close>, the cohort history is well formed and ends in the running state the
  loop records, and a non-zero \<open>conf\<close> is the configuration of the last cohort started.\<close>

definition cohort_inv :: "loop_state \<Rightarrow> bool" where
  "cohort_inv st \<longleftrightarrow> cohorts_running False (ls_cohorts st) = Some (ls_done st) \<and>
     (ls_conf st = 0 \<or> last (ls_cohorts st) = StartEps (ls_conf st))"

definition loop_inv :: "loop_state \<Rightarrow> bool" where
  "loop_inv st \<longleftrightarrow> configuration_value (ls_dev st) = ls_conf st \<and> cohort_inv st"

section \<open>Lemmas\<close>

lemma frame_bus_reset: "bus_reset env s = Some s' \<Longrightarrow> frame s s'"
  by (auto simp: bus_reset_def case_prod_unfold dest!: reg_wait_frame)
    (meson frame_trans frame_bus_ops(1,2,6))

lemma check_bus_reset_simps:
  "check_bus_reset env st = Some st1 \<Longrightarrow> frame (ls_hw st) (ls_hw st1) \<and> ls_done st1 = ls_done st \<and>
     ls_cohorts st1 = ls_cohorts st \<and>
     ((ls_conf st1 = ls_conf st \<and> ls_dev st1 = ls_dev st) \<or> (ls_conf st1 = 0 \<and> ls_dev st1 = (ls_dev st)\<lparr>configuration_value := 0\<rparr>))"
  by (auto simp: check_bus_reset_def case_prod_unfold split: if_splits dest!: frame_bus_reset
      intro: frame_trans [OF frame_bus_ops(5)] frame_bus_ops(5))

lemma cohorts_running_append:
  "cohorts_running r (es @ fs) = (case cohorts_running r es of None \<Rightarrow> None | Some r' \<Rightarrow> cohorts_running r' fs)"
  by (induction r es rule: cohorts_running.induct) auto

lemma loop_inv_reload: "cohort_inv st \<Longrightarrow> loop_inv (reload_endpoints st)"
  by (auto simp: loop_inv_def cohort_inv_def reload_endpoints_def Let_def cohorts_running_append)

lemma reload_endpoints_hw [simp]: "ls_hw (reload_endpoints st) = ls_hw st"
  by (simp add: reload_endpoints_def Let_def)

lemma loop_inv_check_bus_reset:
  "loop_inv st \<Longrightarrow> check_bus_reset env st = Some st1 \<Longrightarrow> loop_inv st1"
  by (drule check_bus_reset_simps) (auto simp: loop_inv_def cohort_inv_def)

lemma cohort_inv_update [simp]: "cohort_inv (st\<lparr>ls_dev := d, ls_hw := h\<rparr>) = cohort_inv st"
  by (simp add: cohort_inv_def)

lemma start_iter_step:
  assumes "start_iter env st = Some st'"
  obtains st1 s2 where "check_bus_reset env st = Some st1" and "frame (ls_hw st1) s2"
    and "st' = st1\<lparr>ls_hw := s2\<rparr>"
  | st1 dev' s4 where "check_bus_reset env st = Some st1" and "frame (ls_hw st1) s4"
    and "st' = reload_endpoints (st1\<lparr>ls_dev := dev', ls_hw := s4\<rparr>)"
proof -
  from assms obtain st1 where cb: "check_bus_reset env st = Some st1"
    and rest: "(case reg_wait_for env 10 ENDPTSETUPSTAT 0 1 1 (ls_hw st1) of (got, s2) \<Rightarrow>
        if \<not> got then Some (st1\<lparr>ls_hw := s2\<rparr>)
        else (let (setup, s3) = get_setup env s2 in
          handle_setup env (ls_dev st1) (Some setup) s3 \<bind>
          (\<lambda>((_, dev'), s4). Some (reload_endpoints (st1\<lparr>ls_dev := dev', ls_hw := s4\<rparr>))))) = Some st'"
    by (auto simp: start_iter_def split: Option.bind_splits)
  obtain got s2 where w: "reg_wait_for env 10 ENDPTSETUPSTAT 0 1 1 (ls_hw st1) = (got, s2)" by fastforce
  have f2: "frame (ls_hw st1) s2" using quiet_reg_wait_for [of "ls_hw st1" env 10 ENDPTSETUPSTAT 0 1 1]
    by (simp add: w quiet_def)
  show ?thesis
  proof (cases got)
    case False
    with rest w have "st' = st1\<lparr>ls_hw := s2\<rparr>" by simp
    with cb f2 show ?thesis by (rule that(1))
  next
    case True
    obtain stp s3 where g: "get_setup env s2 = (stp, s3)" by fastforce
    from rest w True g obtain e dev' s4 where
      h: "handle_setup env (ls_dev st1) (Some stp) s3 = Some ((e, dev'), s4)"
      and st': "st' = reload_endpoints (st1\<lparr>ls_dev := dev', ls_hw := s4\<rparr>)"
      by (auto simp: Let_def split: Option.bind_splits)
    have "frame s2 s3" using frame_get_setup [of s2 env] by (simp add: g)
    with f2 frame_handle_setup [OF h] have f4: "frame (ls_hw st1) s4" by (blast intro: frame_trans)
    show ?thesis using cb f4 st' by (rule that(2))
  qed
qed

lemma loop_inv_start_iter:
  assumes "loop_inv st" and "start_iter env st = Some st'"
  shows "loop_inv st' \<and> frame (ls_hw st) (ls_hw st')"
  using assms(2)
proof (cases rule: start_iter_step)
  case (1 st1 s2)
  have "loop_inv st1" using assms(1) 1(1) by (rule loop_inv_check_bus_reset)
  then have "loop_inv st'" using 1(3) by (simp add: loop_inv_def cohort_inv_def)
  moreover have "frame (ls_hw st) (ls_hw st')"
    using check_bus_reset_simps [OF 1(1)] 1(2,3) by (auto intro: frame_trans)
  ultimately show ?thesis ..
next
  case (2 st1 dev' s4)
  have "loop_inv st1" using assms(1) 2(1) by (rule loop_inv_check_bus_reset)
  then have "cohort_inv (st1\<lparr>ls_dev := dev', ls_hw := s4\<rparr>)" by (simp add: loop_inv_def)
  then have "loop_inv st'" unfolding 2(3) by (rule loop_inv_reload)
  moreover have "frame (ls_hw st) (ls_hw st')"
    using check_bus_reset_simps [OF 2(1)] 2(2,3) by (auto intro: frame_trans)
  ultimately show ?thesis ..
qed

text \<open>C3: every state the loop of \<open>Start\<close> reaches from an unconfigured device keeps
  the loop's \<open>conf\<close> equal to the device's configuration value, has a well-formed
  cohort history (stops and starts alternate) whose last start is the current non-zero
  configuration, and leaves the queue-head list where \<open>DeviceMode\<close> put it.\<close>

lemma reach_loop_inv: "reach env dev s st \<Longrightarrow> configuration_value dev = 0 \<Longrightarrow> loop_inv st \<and> frame s (ls_hw st)"
proof (induction rule: reach.induct)
  case reach_start
  then show ?case by (simp add: start_state_def loop_inv_def cohort_inv_def)
next
  case (reach_step st st')
  then show ?case using loop_inv_start_iter by (blast intro: frame_trans)
qed


lemma device_mode_word_bit:
  "bit (device_mode_word m) n \<longleftrightarrow> n \<noteq> 0 \<and> (n = 1 \<or> n = 3 \<or> (n \<noteq> 4 \<and> bit m n))"
proof -
  have three: "(3::u32) = mask 2" by (simp add: mask_eq_exp_minus_1)
  show ?thesis
    unfolding device_mode_word_def Let_def three
    using bit_int_exp [of 3] bit_int_exp [of 4] by (auto simp: bit_simps dest: bit_imp_le_length)
qed

text \<open>the USBMODE word \<open>DeviceMode\<close> writes selects device mode (field CM = 2),
  sets setup lockout off (SLOM), clears SDIS and keeps every other bit of the word read.\<close>

lemma device_mode_word_fields:
  "bits_get (device_mode_word m) 0 3 = 2 \<and> bit (device_mode_word m) 3 \<and> \<not> bit (device_mode_word m) 4 \<and>
     bit (device_mode_word m) 2 = bit m 2 \<and> drop_bit 5 (device_mode_word m) = drop_bit 5 m"
proof -
  have three: "(3::u32) = mask 2" by (simp add: mask_eq_exp_minus_1)
  have g: "bits_get (device_mode_word m) 0 3 = 2"
    unfolding bits_get_def three using bit_int_exp [of 1]
    by (intro bit_word_eqI) (auto simp: bit_simps device_mode_word_bit)
  have d: "drop_bit 5 (device_mode_word m) = drop_bit 5 m"
    by (intro bit_word_eqI) (simp add: bit_drop_bit_eq device_mode_word_bit)
  show ?thesis using g d by (simp add: device_mode_word_bit)
qed

lemma init_qh_simps:
  "ep_list_addr (init_qh env s) = alloc env (nalloc s) \<and> dqh_addr (init_qh env s) = dqh_addr s \<and>
   Wr ENDPTLISTADDR (alloc env (nalloc s)) \<in> set (trace (init_qh env s))"
  by (simp add: init_qh_def dma_alloc_simp reg_write_def)

text \<open>C14: after \<open>DeviceMode\<close> the queue-head list is the fresh allocation, its address is
  published in ENDPTLISTADDR, and the two control queue heads are its first two entries.\<close>

lemma device_mode_qh:
  assumes "device_mode env s = Some s'"
  shows "ep_list_addr s' = alloc env (nalloc s) \<and> dqh_addr s' 0 OUT = ep_list_addr s' \<and>
     dqh_addr s' 0 IN = ep_list_addr s' + 64 \<and> Wr ENDPTLISTADDR (ep_list_addr s') \<in> set (trace s')"
proof -
  from assms obtain s2 m s3 s5 where
    w1: "reg_wait env USBCMD USBCMD_RST 1 0 (reg_set env USBCMD USBCMD_RST s) = Some s2"
    and r: "reg_read env USBMODE s2 = (m, s3)"
    and w2: "reg_wait env USBMODE USBMODE_CM 3 USBMODE_CM_DEVICE (reg_write USBMODE (device_mode_word m) s3) = Some s5"
    and s': "s' = reg_set env USBCMD USBCMD_RS (reg_write USBSTS 0xffffffff
        (reg_set env OTGSC OTGSC_OT (qh_set 0 OUT 64 True 0 (qh_set 0 IN 64 True 0 (init_qh env s5)))))"
    by (auto simp: device_mode_def Let_def split: Option.bind_splits prod.splits)
  have "nalloc s2 = nalloc s" using reg_wait_trace [OF w1] by (auto simp: bus_simps)
  moreover have "nalloc s3 = nalloc s2" using r by (auto simp: reg_read_simp)
  moreover have "nalloc s5 = nalloc s3" using reg_wait_trace [OF w2] by (auto simp: reg_write_def)
  ultimately have n: "nalloc s5 = nalloc s" by simp
  show ?thesis
    using init_qh_simps [of env s5] n
    by (simp add: s' bus_simps reg_write_def qh_set_def dma_write_def Let_def qh_offset_def)
qed

end
