(* ===== verification/IMX6.thy ===== *)
theory IMX6
  imports USB_Prelude
begin

text \<open>
  The part of tamago's \<open>soc/imx6\<close> package that the USB armory board drivers call
  (\<open>ble.go\<close> and the SD/MMC initialisation of \<open>part_001\<close>); the package is not under
  \<open>src/\<close>.  Its objects are records, the operations the drivers perform on them are
  the events of a trace, and what the package answers is the environment
  \<open>board_env\<close>: whether \<open>NewPad\<close> and \<open>NewGPIO\<close> accept their registers, the value of an
  input line, \<open>Model()\<close>, \<open>Native\<close>, whether an I2C write succeeds, the PF1510 PMIC's
  bus address and the pad-control field constants.
\<close>

text \<open>An \<open>imx6.Pad\<close> is named by its mux, pad-control and daisy registers; an
  \<open>imx6.GPIO\<close> by its line, its controller instance and its pad.\<close>

record pad =
  p_mux :: u32
  p_pad :: u32
  p_daisy :: u32

record gpio =
  g_num :: nat
  g_instance :: nat
  g_pad :: pad

text \<open>The operations of \<open>soc/imx6\<close> the driver performs, in the order it performs them:
  \<open>Pad.Mode\<close> (mux mode), \<open>Pad.Ctl\<close> (pad control word), \<open>Pad.Select\<close> (daisy input),
  the direction, level and read of a GPIO line, \<open>UART.Init\<close>, the \<open>Flow\<close> setting of the
  UART, \<open>time.Sleep\<close> in milliseconds, the mutex, \<open>USDHC.Init\<close> of a uSDHC instance
  with a bus width, and \<open>I2C.Write\<close> (bytes, device address, register, address
  length).\<close>

datatype io_event =
    PadMode u32 u32
  | PadCtl u32 u32
  | PadSelect u32 u32
  | GpioOut gpio
  | GpioIn gpio
  | GpioHigh gpio
  | GpioLow gpio
  | GpioRead gpio bool
  | UartFlow bool
  | UartInit
  | Sleep nat
  | Locked
  | Unlocked
  | UsdhcInit nat nat
  | I2CWrite "u8 list" u32 u32 nat

record board_env =
  board_model :: string
  native :: bool
  i2c_ok :: bool
  PF1510_ADDR :: u32
  new_pad_ok :: "u32 \<Rightarrow> u32 \<Rightarrow> u32 \<Rightarrow> bool"
  new_gpio_ok :: "nat \<Rightarrow> nat \<Rightarrow> u32 \<Rightarrow> u32 \<Rightarrow> bool"
  line_value :: "gpio \<Rightarrow> nat \<Rightarrow> bool"
  SW_PAD_CTL_HYS :: nat
  SW_PAD_CTL_PUE :: nat
  SW_PAD_CTL_PKE :: nat
  SW_PAD_CTL_PUS :: nat
  SW_PAD_CTL_SPEED :: nat
  SW_PAD_CTL_DSE :: nat
  PUS_PULL_UP_100K :: u32
  PUS_PULL_DOWN_100K :: u32
  PUS_PULL_UP_22K :: u32
  SPEED_100MHZ :: u32
  SPEED_50MHZ :: u32
  DSE_2_R0_6 :: u32
  DSE_2_R0_4 :: u32

text \<open>The model strings of the \<open>\<beta>\<close> and \<open>\<gamma>\<close> revisions, \<open>"UA-MKII-\<beta>"\<close> and
  \<open>"UA-MKII-\<gamma>"\<close> in UTF-8.\<close>

definition MODEL_BETA :: string where
  "MODEL_BETA = ''UA-MKII-'' @ [char_of (0xCE::nat), char_of (0xB2::nat)]"

definition MODEL_GAMMA :: string where
  "MODEL_GAMMA = ''UA-MKII-'' @ [char_of (0xCE::nat), char_of (0xB3::nat)]"

end
