(* ===== verification/BLE.thy ===== *)
theory BLE
  imports IMX6
begin

text \<open>
  The USB armory Mk II driver of the u-blox ANNA-B112 Bluetooth module
  (\<open>src/board/f-secure/usbarmory/mark-two/ble.go\<close>).  The module is wired to UART1 and
  to GPIO lines for reset, mode select and, on the \<open>\<beta>\<close> board revision, for RTS/CTS.
  The driver state is the \<open>ANNA\<close> struct (record \<open>anna\<close>): the mutex it embeds, the
  GPIO handles and the errata flag, with the trace of the pad, GPIO and UART operations
  the driver performs.  The \<open>soc/imx6\<close> package it calls is not under \<open>src/\<close>: what it
  answers is the parameter \<open>board_env\<close> of theory \<open>IMX6\<close>.

  Every operation returns \<open>(string + 'a \<times> anna) option\<close>: \<open>None\<close> is a call that blocks
  forever on the mutex, \<open>Inl\<close> a panic, \<open>Inr\<close> a return.  The model is of one goroutine:
  the mutex is held only by the call chain being modelled, so a \<open>Lock\<close> of a held
  mutex never returns.
\<close>

section \<open>Constants (lines 30--87)\<close>

abbreviation (input) IOMUXC_SW_MUX_CTL_PAD_UART1_TX_DATA :: u32 where "IOMUXC_SW_MUX_CTL_PAD_UART1_TX_DATA \<equiv> 0x020e0084"
abbreviation (input) IOMUXC_SW_PAD_CTL_PAD_UART1_TX_DATA :: u32 where "IOMUXC_SW_PAD_CTL_PAD_UART1_TX_DATA \<equiv> 0x020e0310"
abbreviation (input) IOMUXC_SW_MUX_CTL_PAD_UART1_RX_DATA :: u32 where "IOMUXC_SW_MUX_CTL_PAD_UART1_RX_DATA \<equiv> 0x020e0088"
abbreviation (input) IOMUXC_SW_PAD_CTL_PAD_UART1_RX_DATA :: u32 where "IOMUXC_SW_PAD_CTL_PAD_UART1_RX_DATA \<equiv> 0x020e0314"
abbreviation (input) IOMUXC_UART1_RX_DATA_SELECT_INPUT :: u32 where "IOMUXC_UART1_RX_DATA_SELECT_INPUT \<equiv> 0x020e0624"
abbreviation (input) DAISY_UART1_RX_DATA :: u32 where "DAISY_UART1_RX_DATA \<equiv> 0b11"
abbreviation (input) IOMUXC_SW_MUX_CTL_PAD_UART1_CTS_B :: u32 where "IOMUXC_SW_MUX_CTL_PAD_UART1_CTS_B \<equiv> 0x020e008c"
abbreviation (input) IOMUXC_SW_PAD_CTL_PAD_UART1_CTS_B :: u32 where "IOMUXC_SW_PAD_CTL_PAD_UART1_CTS_B \<equiv> 0x020e0318"
abbreviation (input) IOMUXC_SW_MUX_CTL_PAD_GPIO1_IO07 :: u32 where "IOMUXC_SW_MUX_CTL_PAD_GPIO1_IO07 \<equiv> 0x020e0078"
abbreviation (input) IOMUXC_SW_PAD_CTL_PAD_GPIO1_IO07 :: u32 where "IOMUXC_SW_PAD_CTL_PAD_GPIO1_IO07 \<equiv> 0x020e0304"
abbreviation (input) IOMUXC_UART1_RTS_B_SELECT_INPUT :: u32 where "IOMUXC_UART1_RTS_B_SELECT_INPUT \<equiv> 0x020e0620"
abbreviation (input) UART1_RTS_B_MODE :: u32 where "UART1_RTS_B_MODE \<equiv> 8"
abbreviation (input) DAISY_GPIO1_IO07 :: u32 where "DAISY_GPIO1_IO07 \<equiv> 0b01"
abbreviation (input) IOMUXC_SW_MUX_CTL_PAD_UART3_TX_DATA :: u32 where "IOMUXC_SW_MUX_CTL_PAD_UART3_TX_DATA \<equiv> 0x020e00a4"
abbreviation (input) IOMUXC_SW_PAD_CTL_PAD_UART3_TX_DATA :: u32 where "IOMUXC_SW_PAD_CTL_PAD_UART3_TX_DATA \<equiv> 0x020e0330"
abbreviation (input) IOMUXC_SW_MUX_CTL_PAD_UART3_RX_DATA :: u32 where "IOMUXC_SW_MUX_CTL_PAD_UART3_RX_DATA \<equiv> 0x020e00a8"
abbreviation (input) IOMUXC_SW_PAD_CTL_PAD_UART3_RX_DATA :: u32 where "IOMUXC_SW_PAD_CTL_PAD_UART3_RX_DATA \<equiv> 0x020e0334"
abbreviation (input) IOMUXC_SW_MUX_CTL_PAD_GPIO1_IO04 :: u32 where "IOMUXC_SW_MUX_CTL_PAD_GPIO1_IO04 \<equiv> 0x020e006c"
abbreviation (input) IOMUXC_SW_PAD_CTL_PAD_GPIO1_IO04 :: u32 where "IOMUXC_SW_PAD_CTL_PAD_GPIO1_IO04 \<equiv> 0x020e02f8"
abbreviation (input) IOMUXC_SW_MUX_CTL_PAD_GPIO1_IO06 :: u32 where "IOMUXC_SW_MUX_CTL_PAD_GPIO1_IO06 \<equiv> 0x020e0074"
abbreviation (input) IOMUXC_SW_PAD_CTL_PAD_GPIO1_IO06 :: u32 where "IOMUXC_SW_PAD_CTL_PAD_GPIO1_IO06 \<equiv> 0x020e0300"
abbreviation (input) BT_RESET :: nat where "BT_RESET \<equiv> 9"
abbreviation (input) IOMUXC_SW_MUX_CTL_PAD_GPIO1_IO09 :: u32 where "IOMUXC_SW_MUX_CTL_PAD_GPIO1_IO09 \<equiv> 0x020e0080"
abbreviation (input) IOMUXC_SW_PAD_CTL_PAD_GPIO1_IO09 :: u32 where "IOMUXC_SW_PAD_CTL_PAD_GPIO1_IO09 \<equiv> 0x020e030c"
abbreviation (input) BT_SWITCH_1 :: nat where "BT_SWITCH_1 \<equiv> 27"
abbreviation (input) IOMUXC_SW_MUX_CTL_PAD_UART3_RTS_B :: u32 where "IOMUXC_SW_MUX_CTL_PAD_UART3_RTS_B \<equiv> 0x020e00b0"
abbreviation (input) IOMUXC_SW_PAD_CTL_PAD_UART3_RTS_B :: u32 where "IOMUXC_SW_PAD_CTL_PAD_UART3_RTS_B \<equiv> 0x020e033c"
abbreviation (input) BT_SWITCH_2 :: nat where "BT_SWITCH_2 \<equiv> 26"
abbreviation (input) IOMUXC_SW_MUX_CTL_PAD_UART3_CTS_B :: u32 where "IOMUXC_SW_MUX_CTL_PAD_UART3_CTS_B \<equiv> 0x020e00ac"
abbreviation (input) IOMUXC_SW_PAD_CTL_PAD_UART3_CTS_B :: u32 where "IOMUXC_SW_PAD_CTL_PAD_UART3_CTS_B \<equiv> 0x020e0338"
abbreviation (input) DEFAULT_MODE :: u32 where "DEFAULT_MODE \<equiv> 0"
abbreviation (input) GPIO_MODE :: u32 where "GPIO_MODE \<equiv> 5"
abbreviation (input) RESET_GRACE_TIME :: nat where "RESET_GRACE_TIME \<equiv> 1000"

section \<open>The driver state\<close>

text \<open>The \<open>ANNA\<close> struct (lines 122--135) and the trace of what the driver did.\<close>

record anna =
  locked :: bool
  uart_set :: bool
  ble_reset :: "gpio option"
  ble_switch1 :: "gpio option"
  ble_switch2 :: "gpio option"
  errata :: bool
  ble_rts :: "gpio option"
  ble_cts :: "gpio option"
  io :: "io_event list"

type_synonym 'a ble_result = "(string + 'a \<times> anna) option"

text \<open>\<open>var BLE = &ANNA{}\<close> (line 138).\<close>

definition anna0 :: anna where
  "anna0 = \<lparr>locked = False, uart_set = False, ble_reset = None, ble_switch1 = None,
     ble_switch2 = None, errata = False, ble_rts = None, ble_cts = None, io = []\<rparr>"

definition emit :: "io_event \<Rightarrow> anna \<Rightarrow> anna" where
  "emit e st = st\<lparr>io := io st @ [e]\<rparr>"

definition lock :: "anna \<Rightarrow> anna option" where
  "lock st = (if locked st then None else Some (st\<lparr>locked := True, io := io st @ [Locked]\<rparr>))"

definition unlock :: "anna \<Rightarrow> anna" where
  "unlock st = st\<lparr>locked := False, io := io st @ [Unlocked]\<rparr>"

text \<open>Sequencing of calls that may panic.\<close>

definition and_then :: "string + 'a \<times> anna \<Rightarrow> ('a \<Rightarrow> anna \<Rightarrow> string + 'b \<times> anna) \<Rightarrow> string + 'b \<times> anna" where
  "and_then r f = (case r of Inl e \<Rightarrow> Inl e | Inr (a, st) \<Rightarrow> f a st)"

text \<open>\<open>configureBLEPad\<close> (lines 89--102): \<open>imx6.NewPad\<close>, panicking on its error, then
  the pad's mux mode and control word.\<close>

definition configure_ble_pad :: "board_env \<Rightarrow> u32 \<Rightarrow> u32 \<Rightarrow> u32 \<Rightarrow> u32 \<Rightarrow> u32 \<Rightarrow> anna \<Rightarrow> string + pad \<times> anna" where
  "configure_ble_pad env mux pd daisy mode ctl st =
     (if new_pad_ok env mux pd daisy
      then Inr (\<lparr>p_mux = mux, p_pad = pd, p_daisy = daisy\<rparr>, emit (PadCtl pd ctl) (emit (PadMode mux mode) st))
      else Inl ''NewPad'')"

text \<open>\<open>configureBLEGPIO\<close> (lines 104--118): \<open>imx6.NewGPIO\<close>, panicking on its error, then
  GPIO mode, the control word and output direction.\<close>

definition configure_ble_gpio :: "board_env \<Rightarrow> nat \<Rightarrow> nat \<Rightarrow> u32 \<Rightarrow> u32 \<Rightarrow> u32 \<Rightarrow> anna \<Rightarrow> string + gpio \<times> anna" where
  "configure_ble_gpio env num inst mux pd ctl st =
     (if new_gpio_ok env num inst mux pd
      then (let g = \<lparr>g_num = num, g_instance = inst, g_pad = \<lparr>p_mux = mux, p_pad = pd, p_daisy = 0\<rparr>\<rparr>
            in Inr (g, emit (GpioOut g) (emit (PadCtl pd ctl) (emit (PadMode mux GPIO_MODE) st))))
      else Inl ''NewGPIO'')"

text \<open>The pad control word \<open>Init\<close> starts from (lines 147--154).\<close>

definition init_ctl :: "board_env \<Rightarrow> u32" where
  "init_ctl env =
     bits_setN (bits_setN (bits_setN
       (bits_set (bits_set (bits_set 0 (SW_PAD_CTL_HYS env)) (SW_PAD_CTL_PUE env)) (SW_PAD_CTL_PKE env))
       (SW_PAD_CTL_PUS env) 0b11 (PUS_PULL_UP_100K env))
       (SW_PAD_CTL_SPEED env) 0b11 (SPEED_100MHZ env))
       (SW_PAD_CTL_DSE env) 0b111 (DSE_2_R0_6 env)"

text \<open>The UART data pads (lines 156--166).\<close>

definition init_uart_pads :: "board_env \<Rightarrow> u32 \<Rightarrow> anna \<Rightarrow> string + unit \<times> anna" where
  "init_uart_pads env ctl st =
     and_then (configure_ble_pad env IOMUXC_SW_MUX_CTL_PAD_UART1_TX_DATA IOMUXC_SW_PAD_CTL_PAD_UART1_TX_DATA
                 0 DEFAULT_MODE ctl st) (\<lambda>_ st.
     and_then (configure_ble_pad env IOMUXC_SW_MUX_CTL_PAD_UART1_RX_DATA IOMUXC_SW_PAD_CTL_PAD_UART1_RX_DATA
                 IOMUXC_UART1_RX_DATA_SELECT_INPUT DEFAULT_MODE ctl st) (\<lambda>p st.
       Inr ((), emit (PadSelect (p_daisy p) DAISY_UART1_RX_DATA) st)))"

text \<open>The flow-control lines (lines 168--205): on \<open>\<beta>\<close> boards RTS and CTS are GPIO
  lines driven by software, otherwise UART pads with hardware flow control.  The
  control word leaves the block with its pull-down setting.\<close>

definition init_flow_control :: "board_env \<Rightarrow> u32 \<Rightarrow> anna \<Rightarrow> string + u32 \<times> anna" where
  "init_flow_control env ctl st =
     (let ctl' = bits_setN ctl (SW_PAD_CTL_PUS env) 0b11 (PUS_PULL_DOWN_100K env) in
      if board_model env = MODEL_BETA then
        and_then (configure_ble_gpio env 7 1 IOMUXC_SW_MUX_CTL_PAD_GPIO1_IO07 IOMUXC_SW_PAD_CTL_PAD_GPIO1_IO07
                    ctl (st\<lparr>errata := True\<rparr>)) (\<lambda>cts st.
        and_then (configure_ble_gpio env 18 1 IOMUXC_SW_MUX_CTL_PAD_UART1_CTS_B IOMUXC_SW_PAD_CTL_PAD_UART1_CTS_B
                    ctl' (emit (GpioOut cts) (st\<lparr>ble_cts := Some cts\<rparr>))) (\<lambda>rts st.
          Inr (ctl', emit (UartFlow False) (emit (GpioIn rts) (st\<lparr>ble_rts := Some rts\<rparr>)))))
      else
        and_then (configure_ble_pad env IOMUXC_SW_MUX_CTL_PAD_UART1_CTS_B IOMUXC_SW_PAD_CTL_PAD_UART1_CTS_B
                    0 DEFAULT_MODE ctl st) (\<lambda>_ st.
        and_then (configure_ble_pad env IOMUXC_SW_MUX_CTL_PAD_GPIO1_IO07 IOMUXC_SW_PAD_CTL_PAD_GPIO1_IO07
                    IOMUXC_UART1_RTS_B_SELECT_INPUT UART1_RTS_B_MODE ctl' st) (\<lambda>p st.
          Inr (ctl', emit (UartFlow True) (emit (PadSelect (p_daisy p) DAISY_GPIO1_IO07) st)))))"

text \<open>The modem-control, debug, reset and mode-select lines (lines 207--251).  The DSR
  pad is configured with \<open>configureBLEPad(mux, pad, 0, ctl, GPIO_MODE)\<close>: mode and
  control word in each other's place.  Returns the reset and the two switch lines.\<close>

definition init_gpios :: "board_env \<Rightarrow> u32 \<Rightarrow> anna \<Rightarrow> string + (gpio \<times> gpio \<times> gpio) \<times> anna" where
  "init_gpios env ctl0 st =
     (let ctl = bits_setN (bits_setN (bits_setN ctl0
                  (SW_PAD_CTL_PUS env) 0b11 (PUS_PULL_UP_22K env))
                  (SW_PAD_CTL_SPEED env) 0b11 (SPEED_50MHZ env))
                  (SW_PAD_CTL_DSE env) 0b111 (DSE_2_R0_4 env);
          ctl2 = bits_set (bits_setN 0 (SW_PAD_CTL_DSE env) 0b111 (DSE_2_R0_4 env)) (SW_PAD_CTL_HYS env) in
      and_then (configure_ble_pad env IOMUXC_SW_MUX_CTL_PAD_UART3_TX_DATA IOMUXC_SW_PAD_CTL_PAD_UART3_TX_DATA
                  0 ctl GPIO_MODE st) (\<lambda>_ st.
      and_then (configure_ble_pad env IOMUXC_SW_MUX_CTL_PAD_GPIO1_IO04 IOMUXC_SW_PAD_CTL_PAD_GPIO1_IO04
                  0 GPIO_MODE ctl st) (\<lambda>_ st.
      and_then (configure_ble_pad env IOMUXC_SW_MUX_CTL_PAD_GPIO1_IO06 IOMUXC_SW_PAD_CTL_PAD_GPIO1_IO06
                  0 GPIO_MODE ctl st) (\<lambda>_ st.
      and_then (configure_ble_gpio env BT_RESET 1 IOMUXC_SW_MUX_CTL_PAD_GPIO1_IO09 IOMUXC_SW_PAD_CTL_PAD_GPIO1_IO09
                  ctl st) (\<lambda>r st.
      and_then (configure_ble_gpio env BT_SWITCH_1 1 IOMUXC_SW_MUX_CTL_PAD_UART3_RTS_B IOMUXC_SW_PAD_CTL_PAD_UART3_RTS_B
                  ctl (st\<lparr>ble_reset := Some r\<rparr>)) (\<lambda>s1 st.
      and_then (configure_ble_gpio env BT_SWITCH_2 1 IOMUXC_SW_MUX_CTL_PAD_UART3_CTS_B IOMUXC_SW_PAD_CTL_PAD_UART3_CTS_B
                  ctl (st\<lparr>ble_switch1 := Some s1\<rparr>)) (\<lambda>s2 st.
      and_then (configure_ble_pad env IOMUXC_SW_MUX_CTL_PAD_UART3_RX_DATA IOMUXC_SW_PAD_CTL_PAD_UART3_RX_DATA
                  0 GPIO_MODE ctl2 (st\<lparr>ble_switch2 := Some s2\<rparr>)) (\<lambda>_ st.
        Inr ((r, s1, s2), st)))))))))"

text \<open>\<open>ANNA.Init\<close> (lines 141--262): under the mutex, the pads and lines above, then
  \<open>UART.Init\<close> and a reset in normal mode (both switches high, reset low, released by
  the deferred \<open>High\<close>).  A panic runs the deferred \<open>Unlock\<close> and propagates.\<close>

definition anna_init :: "board_env \<Rightarrow> anna \<Rightarrow> string option ble_result" where
  "anna_init env st0 =
     (case lock st0 of
        None \<Rightarrow> None
      | Some st \<Rightarrow>
          (case and_then (init_uart_pads env (init_ctl env) (st\<lparr>uart_set := True\<rparr>)) (\<lambda>_ st.
                and_then (init_flow_control env (init_ctl env) st) (\<lambda>ctl st.
                init_gpios env ctl st)) of
             Inl e \<Rightarrow> Some (Inl e)
           | Inr ((r, s1, s2), st) \<Rightarrow>
               Some (Inr (None, unlock (emit (GpioHigh r)
                 (emit (GpioLow r) (emit (GpioHigh s2) (emit (GpioHigh s1) (emit UartInit st)))))))))"

text \<open>\<open>ANNA.RTS\<close> and \<open>ANNA.CTS\<close> (lines 266--286): without the errata they do nothing
  (\<open>RTS\<close> returns its zero value); a nil line is a nil-pointer panic.\<close>

definition anna_rts :: "board_env \<Rightarrow> anna \<Rightarrow> bool ble_result" where
  "anna_rts env st =
     (if \<not> errata st then Some (Inr (False, st))
      else case ble_rts st of
        None \<Rightarrow> Some (Inl ''nil pointer dereference'')
      | Some g \<Rightarrow> (let v = line_value env g (length (io st)) in Some (Inr (\<not> v, emit (GpioRead g v) st))))"

definition anna_cts :: "bool \<Rightarrow> anna \<Rightarrow> unit ble_result" where
  "anna_cts clear st =
     (if \<not> errata st then Some (Inr ((), st))
      else case ble_cts st of
        None \<Rightarrow> Some (Inl ''nil pointer dereference'')
      | Some g \<Rightarrow> Some (Inr ((), emit (if clear then GpioLow g else GpioHigh g) st)))"

text \<open>\<open>ANNA.Reset\<close> (lines 289--303): under the mutex, reset low for
  \<open>RESET_GRACE_TIME\<close>, then the deferred \<open>High\<close> and \<open>Unlock\<close>.\<close>

definition anna_reset :: "anna \<Rightarrow> string option ble_result" where
  "anna_reset st0 =
     (case lock st0 of
        None \<Rightarrow> None
      | Some st \<Rightarrow>
          (case ble_reset st of
             None \<Rightarrow> Some (Inr (Some ''module is not initialized'', unlock st))
           | Some r \<Rightarrow> Some (Inr (None, unlock (emit (GpioHigh r) (emit (Sleep RESET_GRACE_TIME) (emit (GpioLow r) st)))))))"

text \<open>\<open>NormalMode\<close> and \<open>BootloaderMode\<close> (lines 307--335): under the mutex, both
  switches high (resp. low), then \<open>Reset\<close>, whose own \<open>Lock\<close> is of the mutex the
  caller already holds.\<close>

definition switch_mode :: "bool \<Rightarrow> anna \<Rightarrow> string option ble_result" where
  "switch_mode high st0 =
     (case lock st0 of
        None \<Rightarrow> None
      | Some st \<Rightarrow>
          (case (ble_switch1 st, ble_switch2 st) of
             (Some s1, Some s2) \<Rightarrow>
               (let lvl = (if high then GpioHigh else GpioLow) in
                case anna_reset (emit (lvl s2) (emit (lvl s1) st)) of
                  None \<Rightarrow> None
                | Some (Inl e) \<Rightarrow> Some (Inl e)
                | Some (Inr (err, st')) \<Rightarrow> Some (Inr (err, unlock st')))
           | _ \<Rightarrow> Some (Inr (Some ''module is not initialized'', unlock st))))"

definition anna_normal_mode :: "anna \<Rightarrow> string option ble_result" where
  "anna_normal_mode = switch_mode True"

definition anna_bootloader_mode :: "anna \<Rightarrow> string option ble_result" where
  "anna_bootloader_mode = switch_mode False"

section \<open>Sequences of calls\<close>

text \<open>The exported methods of \<open>ANNA\<close>, called one after another by one goroutine from
  the zero value \<open>BLE\<close>; a call that blocks or panics ends the sequence.\<close>

datatype ble_op = OpInit | OpReset | OpRTS | OpCTS bool | OpNormalMode | OpBootloaderMode

definition returned :: "'a ble_result \<Rightarrow> anna option" where
  "returned r = (case r of Some (Inr (_, st)) \<Rightarrow> Some st | _ \<Rightarrow> None)"

fun ble_step :: "board_env \<Rightarrow> ble_op \<Rightarrow> anna \<Rightarrow> anna option" where
  "ble_step env OpInit st = returned (anna_init env st)"
| "ble_step env OpReset st = returned (anna_reset st)"
| "ble_step env OpRTS st = returned (anna_rts env st)"
| "ble_step env (OpCTS c) st = returned (anna_cts c st)"
| "ble_step env OpNormalMode st = returned (anna_normal_mode st)"
| "ble_step env OpBootloaderMode st = returned (anna_bootloader_mode st)"

inductive ble_reach :: "board_env \<Rightarrow> anna \<Rightarrow> bool" for env where
  start: "ble_reach env anna0"
| step: "ble_reach env st \<Longrightarrow> ble_step env op st = Some st' \<Longrightarrow> ble_reach env st'"

text \<open>Between calls the mutex is free, the errata lines exist whenever the errata flag is
  set, and the reset and switch lines are configured together.\<close>

definition anna_inv :: "anna \<Rightarrow> bool" where
  "anna_inv st \<longleftrightarrow> \<not> locked st \<and> (errata st \<longrightarrow> ble_rts st \<noteq> None \<and> ble_cts st \<noteq> None) \<and>
     (ble_switch1 st = None \<longleftrightarrow> ble_reset st = None) \<and> (ble_switch2 st = None \<longleftrightarrow> ble_reset st = None)"

section \<open>Lemmas\<close>

lemma and_then_Inr [simp]:
  "and_then r f = Inr x \<longleftrightarrow> (\<exists>a st. r = Inr (a, st) \<and> f a st = Inr x)"
  by (auto simp: and_then_def split: sum.splits)

lemma configure_ble_pad_Inr [simp]:
  "configure_ble_pad env mux pd daisy mode ctl st = Inr (p, st') \<longleftrightarrow>
     new_pad_ok env mux pd daisy \<and> p = \<lparr>p_mux = mux, p_pad = pd, p_daisy = daisy\<rparr> \<and>
     st' = st\<lparr>io := io st @ [PadMode mux mode, PadCtl pd ctl]\<rparr>"
  by (auto simp: configure_ble_pad_def emit_def)

lemma configure_ble_gpio_Inr [simp]:
  "configure_ble_gpio env num inst mux pd ctl st = Inr (g, st') \<longleftrightarrow>
     new_gpio_ok env num inst mux pd \<and>
     g = \<lparr>g_num = num, g_instance = inst, g_pad = \<lparr>p_mux = mux, p_pad = pd, p_daisy = 0\<rparr>\<rparr> \<and>
     st' = st\<lparr>io := io st @ [PadMode mux GPIO_MODE, PadCtl pd ctl, GpioOut g]\<rparr>"
  by (auto simp: configure_ble_gpio_def emit_def Let_def)

lemma init_uart_pads_Inr:
  "init_uart_pads env ctl st = Inr (u, st') \<Longrightarrow> \<exists>es. st' = st\<lparr>io := io st @ es\<rparr>"
  by (auto simp: init_uart_pads_def emit_def)

lemma init_flow_control_Inr:
  "init_flow_control env ctl st = Inr (c, st') \<Longrightarrow>
     (if board_model env = MODEL_BETA
      then \<exists>rts cts es. st' = st\<lparr>errata := True, ble_cts := Some cts, ble_rts := Some rts, io := io st @ es\<rparr>
      else \<exists>es. st' = st\<lparr>io := io st @ es\<rparr>)"
  by (auto simp: init_flow_control_def emit_def Let_def split: if_splits)

lemma init_gpios_Inr:
  "init_gpios env ctl st = Inr ((r, s1, s2), st') \<Longrightarrow>
     \<exists>es. st' = st\<lparr>ble_reset := Some r, ble_switch1 := Some s1, ble_switch2 := Some s2, io := io st @ es\<rparr> \<and>
       PadCtl IOMUXC_SW_PAD_CTL_PAD_UART3_TX_DATA GPIO_MODE \<in> set es"
  by (auto simp: init_gpios_def Let_def)

lemma anna_init_Inr:
  assumes "anna_init env st = Some (Inr (e, st'))"
  shows "e = None \<and> \<not> locked st \<and> \<not> locked st' \<and>
    (\<exists>r s1 s2. ble_reset st' = Some r \<and> ble_switch1 st' = Some s1 \<and> ble_switch2 st' = Some s2 \<and>
       (\<exists>es. io st' = io st @ Locked # es @ [GpioLow r, GpioHigh r, Unlocked] \<and>
          PadCtl IOMUXC_SW_PAD_CTL_PAD_UART3_TX_DATA GPIO_MODE \<in> set es)) \<and>
    (if board_model env = MODEL_BETA then errata st' \<and> ble_rts st' \<noteq> None \<and> ble_cts st' \<noteq> None
     else errata st' = errata st \<and> ble_rts st' = ble_rts st \<and> ble_cts st' = ble_cts st)"
proof -
  obtain st1 where l: "lock st = Some st1" and nl: "\<not> locked st"
    using assms by (auto simp: anna_init_def lock_def split: option.splits if_splits)
  then have st1: "st1 = st\<lparr>locked := True, io := io st @ [Locked]\<rparr>" by (simp add: lock_def)
  from assms l obtain u st2 c st3 r s1 s2 st4 where
    a: "init_uart_pads env (init_ctl env) (st1\<lparr>uart_set := True\<rparr>) = Inr (u, st2)" and
    b: "init_flow_control env (init_ctl env) st2 = Inr (c, st3)" and
    g: "init_gpios env c st3 = Inr ((r, s1, s2), st4)" and
    e: "e = None" and
    fin: "st' = unlock (emit (GpioHigh r) (emit (GpioLow r) (emit (GpioHigh s2) (emit (GpioHigh s1) (emit UartInit st4)))))"
    by (auto simp: anna_init_def split: sum.splits)
  obtain es1 where es1: "st2 = st1\<lparr>uart_set := True, io := io st1 @ es1\<rparr>"
    using init_uart_pads_Inr [OF a] by auto
  obtain es3 where es3: "st4 = st3\<lparr>ble_reset := Some r, ble_switch1 := Some s1, ble_switch2 := Some s2, io := io st3 @ es3\<rparr>"
    and dsr: "PadCtl IOMUXC_SW_PAD_CTL_PAD_UART3_TX_DATA GPIO_MODE \<in> set es3"
    using init_gpios_Inr [OF g] by blast
  show ?thesis
  proof (cases "board_model env = MODEL_BETA")
    case True
    then obtain rts cts es2 where "st3 = st2\<lparr>errata := True, ble_cts := Some cts, ble_rts := Some rts, io := io st2 @ es2\<rparr>"
      using init_flow_control_Inr [OF b] by auto
    with True nl e fin es1 es3 dsr st1 show ?thesis by (auto simp: unlock_def emit_def)
  next
    case False
    then obtain es2 where "st3 = st2\<lparr>io := io st2 @ es2\<rparr>"
      using init_flow_control_Inr [OF b] by auto
    with False nl e fin es1 es3 dsr st1 show ?thesis by (auto simp: unlock_def emit_def)
  qed
qed

lemma switch_mode_simp:
  "switch_mode high st =
     (if locked st \<or> (ble_switch1 st \<noteq> None \<and> ble_switch2 st \<noteq> None) then None
      else Some (Inr (Some ''module is not initialized'', st\<lparr>io := io st @ [Locked, Unlocked]\<rparr>)))"
  by (auto simp: switch_mode_def anna_reset_def lock_def unlock_def emit_def Let_def split: option.splits)

lemma anna_inv_io [simp]: "anna_inv (st\<lparr>io := es\<rparr>) = anna_inv st"
  by (simp add: anna_inv_def)

lemma anna_inv_step: "anna_inv st \<Longrightarrow> ble_step env op st = Some st' \<Longrightarrow> anna_inv st'"
proof (cases op)
  case OpInit
  assume i: "anna_inv st" and s: "ble_step env op st = Some st'"
  then obtain e where "anna_init env st = Some (Inr (e, st'))"
    using OpInit by (auto simp: returned_def split: option.splits sum.splits)
  from anna_init_Inr [OF this] i show ?thesis
    by (auto simp: anna_inv_def split: if_splits)
qed (auto simp: returned_def anna_inv_def anna_reset_def lock_def unlock_def anna_rts_def anna_cts_def emit_def
       anna_normal_mode_def anna_bootloader_mode_def switch_mode_simp Let_def
     split: option.splits if_splits sum.splits)

lemmas ble_eval = anna_init_def lock_def unlock_def emit_def and_then_def init_uart_pads_def
  init_flow_control_def init_gpios_def configure_ble_pad_def configure_ble_gpio_def returned_def Let_def

text \<open>C21: between calls of the exported methods, from the zero value, the mutex is free,
  the errata lines exist whenever the errata flag is set, and the reset and switch lines
  are configured together.\<close>

theorem ble_reach_inv: "ble_reach env st \<Longrightarrow> anna_inv st"
proof (induction rule: ble_reach.induct)
  case start
  then show ?case by (simp add: anna_inv_def anna0_def)
next
  case (step st op st')
  then show ?case using anna_inv_step by blast
qed

text \<open>C22: on an initialised module, \<open>NormalMode\<close> and \<open>BootloaderMode\<close> never return:
  they hold the mutex when they call \<open>Reset\<close>, which locks it again.\<close>

theorem mode_switch_deadlock:
  "anna_inv st \<Longrightarrow> ble_reset st \<noteq> None \<Longrightarrow> anna_normal_mode st = None \<and> anna_bootloader_mode st = None"
  by (simp add: anna_normal_mode_def anna_bootloader_mode_def switch_mode_simp anna_inv_def)

text \<open>\<open>NormalMode\<close> and \<open>BootloaderMode\<close> never return without an error, whatever
  the state.\<close>

theorem mode_switch_never_succeeds:
  "anna_normal_mode st \<noteq> Some (Inr (None, st')) \<and> anna_bootloader_mode st \<noteq> Some (Inr (None, st'))"
  by (simp add: anna_normal_mode_def anna_bootloader_mode_def switch_mode_simp)

text \<open>C23: \<open>Reset\<close> with the mutex free holds the reset line low for
  \<open>RESET_GRACE_TIME\<close> and releases it and the mutex; on a module that was never
  initialised it returns "module is not initialized" and touches no line.\<close>

theorem anna_reset_pulse:
  "\<not> locked st \<Longrightarrow> anna_reset st = Some (Inr (case ble_reset st of
       None \<Rightarrow> (Some ''module is not initialized'', st\<lparr>io := io st @ [Locked, Unlocked]\<rparr>)
     | Some r \<Rightarrow> (None, st\<lparr>io := io st @ [Locked, GpioLow r, Sleep RESET_GRACE_TIME, GpioHigh r, Unlocked]\<rparr>)))"
  by (simp add: anna_reset_def lock_def unlock_def emit_def split: option.splits)

text \<open>C24: \<open>Init\<close> writes \<open>GPIO_MODE\<close> as the pad-control word of the DSR pad (UART3_TX):
  the call at lines 211--214 passes mode and control word in each other's place.\<close>

theorem anna_init_dsr_swapped:
  "anna_init env st = Some (Inr (e, st')) \<Longrightarrow> PadCtl IOMUXC_SW_PAD_CTL_PAD_UART3_TX_DATA GPIO_MODE \<in> set (io st')"
  using anna_init_Inr [of env st e st'] by auto

text \<open>between calls, \<open>RTS\<close> and \<open>CTS\<close> never dereference a nil line.\<close>

theorem ble_flow_lines_safe:
  "anna_inv st \<Longrightarrow> anna_rts env st \<noteq> Some (Inl m) \<and> anna_cts c st \<noteq> Some (Inl m)"
  by (auto simp: anna_inv_def anna_rts_def anna_cts_def Let_def split: option.splits)

text \<open>C25: \<open>Init\<close> with the mutex free returns without error when \<open>soc/imx6\<close> accepts every
  pad and line; it panics with the error of \<open>NewPad\<close> when the first pad is refused.\<close>

theorem anna_init_returns:
  assumes "\<not> locked st"
  shows "((\<forall>a b c. new_pad_ok env a b c) \<and> (\<forall>n i a b. new_gpio_ok env n i a b) \<longrightarrow>
           (\<exists>st'. anna_init env st = Some (Inr (None, st')))) \<and>
         (\<not> new_pad_ok env IOMUXC_SW_MUX_CTL_PAD_UART1_TX_DATA IOMUXC_SW_PAD_CTL_PAD_UART1_TX_DATA 0 \<longrightarrow>
           anna_init env st = Some (Inl ''NewPad''))"
  using assms
  by (simp add: anna_init_def lock_def and_then_def init_uart_pads_def init_flow_control_def init_gpios_def
       configure_ble_pad_def configure_ble_gpio_def Let_def)

end
