(* ===== verification/DCP.thy ===== *)
theory DCP
  imports USB_Prelude
begin

text \<open>
  The key-management half of the NXP Data Co-Processor driver (\<open>src/unnamed/part_004\<close>,
  lines 436--589, package \<open>dcp\<close>): \<open>setKeyData\<close>, which loads one of the four AES-128
  slots of the DCP key RAM word by word, \<open>SetKey\<close>, and \<open>DeriveKey\<close>, which encrypts a
  diversifier with the hardware key and either returns it or moves it into a key slot.
  The rest of the package (\<open>cmd\<close>, \<open>pad\<close>, the work packet and the register constants)
  is not under \<open>src/\<close>: \<open>pad\<close> is modelled from tamago's definition, the packet as a
  record, and what the co-processor and the DMA regions answer is the parameter
  \<open>dcp_env\<close>.  Register accesses and DMA allocations are events of a trace; a Go panic is
  \<open>Inl\<close> with the message and the events before it.  \<open>setKeyData\<close>'s lock of the package
  mutex is omitted (the model is sequential).
\<close>

section \<open>Constants\<close>

abbreviation (input) AES_BLOCK_SIZE :: nat where "AES_BLOCK_SIZE \<equiv> 16"
abbreviation (input) DCP_BASE :: u32 where "DCP_BASE \<equiv> 0x02280000"
abbreviation (input) DCP_KEY :: u32 where "DCP_KEY \<equiv> DCP_BASE + 0x60"
abbreviation (input) KEY_INDEX :: nat where "KEY_INDEX \<equiv> 4"
abbreviation (input) KEY_SUBWORD :: nat where "KEY_SUBWORD \<equiv> 0"
abbreviation (input) DCP_KEYDATA :: u32 where "DCP_KEYDATA \<equiv> DCP_BASE + 0x70"
abbreviation (input) DCP_CTRL0_OTP_KEY :: nat where "DCP_CTRL0_OTP_KEY \<equiv> 10"
abbreviation (input) DCP_CTRL0_CIPHER_ENCRYPT :: nat where "DCP_CTRL0_CIPHER_ENCRYPT \<equiv> 8"
abbreviation (input) DCP_CTRL1_KEY_SELECT :: nat where "DCP_CTRL1_KEY_SELECT \<equiv> 8"
abbreviation (input) KEY_SELECT_UNIQUE_KEY :: u32 where "KEY_SELECT_UNIQUE_KEY \<equiv> 0xfe"

section \<open>State, events and environment\<close>

text \<open>A \<open>dma.Region\<close>: its start and size.\<close>

record region =
  r_start :: u32
  r_size :: u32

datatype dcp_event =
    RegWrite u32 u32
  | RegMove u32 u32
  | DmaAlloc region u32 "u8 list" nat
  | DmaFree region u32
  | DmaRead region u32 nat
  | Cmd u32 nat

record dcp_env =
  dma_default :: region
  derive_key_memory :: region
  iram :: region
  region_alloc :: "region \<Rightarrow> nat \<Rightarrow> u32"
  cmd_error :: "u32 \<Rightarrow> string option"
  region_mem :: "region \<Rightarrow> u32 \<Rightarrow> nat \<Rightarrow> u8 list"

text \<open>The work packet of a DCP command (not under \<open>src/\<close>): the fields \<open>DeriveKey\<close> sets.\<close>

record work_packet =
  control0 :: u32
  control1 :: u32
  source_buffer :: u32
  destination_buffer :: u32
  buffer_size :: u32
  payload_pointer :: u32

text \<open>\<open>pad(buf, extraBlock)\<close> of the \<open>dcp\<close> package: PKCS#7 padding to a whole number
  of AES blocks, a full block of padding only when \<open>extraBlock\<close> is set.\<close>

definition dcp_pad :: "u8 list \<Rightarrow> bool \<Rightarrow> u8 list" where
  "dcp_pad buf extra =
     (let r = length buf mod AES_BLOCK_SIZE;
          n = (if r \<noteq> 0 then AES_BLOCK_SIZE - r else if extra then AES_BLOCK_SIZE else 0)
      in buf @ replicate n (of_nat n))"

section \<open>setKeyData and SetKey\<close>

text \<open>The loop of \<open>setKeyData\<close> (lines 566--580): for each of the four subwords, select it
  in \<open>keyLocation\<close> and write \<open>DCP_KEY\<close>, then load \<open>DCP_KEYDATA\<close> from the key's bytes
  \<open>off..off+4\<close> (a slice past the key's length panics) or, for a nil key, from the word
  at \<open>addr + off\<close> (\<open>uint32\<close> arithmetic).\<close>

function set_key_loop :: "u32 \<Rightarrow> u8 list option \<Rightarrow> u32 \<Rightarrow> nat \<Rightarrow> dcp_event list \<Rightarrow>
    (string \<times> dcp_event list) + dcp_event list" where
  "set_key_loop loc key addr sw acc =
     (if sw < 4 then
        (let off = sw * 4;
             loc' = bits_setN loc KEY_SUBWORD 0b11 (of_nat sw);
             acc' = acc @ [RegWrite DCP_KEY loc']
         in case key of
              Some k \<Rightarrow>
                if off + 4 \<le> length k
                then set_key_loop loc' key addr (Suc sw) (acc' @ [RegWrite DCP_KEYDATA (of_le32 (take 4 (drop off k)))])
                else Inl (''slice bounds out of range'', acc')
            | None \<Rightarrow> set_key_loop loc' key addr (Suc sw) (acc' @ [RegMove DCP_KEYDATA (addr + of_nat off)]))
      else Inr acc)"
  by pat_completeness auto
termination by (relation "measure (\<lambda>(_, _, _, sw, _). 4 - sw)") auto

declare set_key_loop.simps [simp del]

text \<open>\<open>setKeyData\<close> (lines 549--583): the index and key-size checks, then the loop from
  \<open>keyLocation\<close> with the index field set.\<close>

definition set_key_data :: "int \<Rightarrow> u8 list option \<Rightarrow> u32 \<Rightarrow> (string \<times> dcp_event list) + string option \<times> dcp_event list" where
  "set_key_data index key addr =
     (if index < 0 \<or> index > 3 then Inr (Some ''key index must be between 0 and 3'', [])
      else if (case key of Some k \<Rightarrow> length k > AES_BLOCK_SIZE | None \<Rightarrow> False)
      then Inr (Some ''invalid key size'', [])
      else map_sum id (\<lambda>es. (None, es)) (set_key_loop (bits_setN 0 KEY_INDEX 0b11 (of_int index)) key addr 0 []))"

text \<open>\<open>SetKey\<close> (lines 587--589).\<close>

definition set_key :: "int \<Rightarrow> u8 list option \<Rightarrow> (string \<times> dcp_event list) + string option \<times> dcp_event list" where
  "set_key index key = set_key_data index key 0"

section \<open>DeriveKey\<close>

text \<open>The region \<open>DeriveKey\<close> allocates from (lines 504--511): for a key slot
  (\<open>index \<ge> 0\<close>) the default region unless its start lies strictly inside iRAM, then
  \<open>DeriveKeyMemory\<close>.\<close>

definition derive_key_region :: "dcp_env \<Rightarrow> int \<Rightarrow> region" where
  "derive_key_region env index =
     (if index \<ge> 0 \<and> \<not> (r_start (dma_default env) > r_start (iram env) \<and>
                         r_start (dma_default env) < r_start (iram env) + r_size (iram env))
      then derive_key_memory env else dma_default env)"

text \<open>The work packet (lines 513--531): encryption with the OTP key selected as the
  unique key, the key length, the source buffer as destination and the IV as payload.
  The bits \<open>SetCipherDefaults\<close> sets (outside \<open>src/\<close>) are left out of the control
  words.\<close>

definition derive_packet :: "u32 \<Rightarrow> u32 \<Rightarrow> u32 \<Rightarrow> work_packet" where
  "derive_packet sz src payload =
     \<lparr>control0 = push_bit DCP_CTRL0_CIPHER_ENCRYPT 1 OR push_bit DCP_CTRL0_OTP_KEY 1,
      control1 = push_bit DCP_CTRL1_KEY_SELECT KEY_SELECT_UNIQUE_KEY,
      source_buffer = src, destination_buffer = src, buffer_size = sz, payload_pointer = payload\<rparr>"

definition packet_bytes :: "work_packet \<Rightarrow> u8 list" where
  "packet_bytes p = le32_list [0, control0 p, control1 p, source_buffer p, destination_buffer p,
     buffer_size p, payload_pointer p, 0]"

text \<open>\<open>DeriveKey\<close> (lines 496--547).  The three allocations are freed by deferred calls,
  in reverse order, on every return after them.  With \<open>index \<ge> 0\<close> the named result
  \<open>key\<close> still holds the padded diversifier when the function returns.\<close>

definition derive_key :: "dcp_env \<Rightarrow> u8 list \<Rightarrow> u8 list \<Rightarrow> int \<Rightarrow>
    (string \<times> dcp_event list) + (u8 list option \<times> string option) \<times> dcp_event list" where
  "derive_key env diversifier iv index =
     (if length iv \<noteq> AES_BLOCK_SIZE then Inr ((None, Some ''invalid IV size''), [])
      else
        (let key = dcp_pad diversifier False;
             region = derive_key_region env index;
             src = region_alloc env region 0;
             payload = region_alloc env region 1;
             pkt = derive_packet (of_nat (length key)) src payload;
             ptr = region_alloc env region 2;
             allocs = [DmaAlloc region src key AES_BLOCK_SIZE, DmaAlloc region payload iv 0,
                       DmaAlloc region ptr (packet_bytes pkt) 0, Cmd ptr 1];
             frees = [DmaFree region ptr, DmaFree region payload, DmaFree region src]
         in case cmd_error env ptr of
              Some e \<Rightarrow> Inr ((None, Some e), allocs @ frees)
            | None \<Rightarrow>
                if index \<ge> 0 then
                  (case set_key_data index None src of
                     Inl (m, es) \<Rightarrow> Inl (m, allocs @ es @ frees)
                   | Inr (err, es) \<Rightarrow> Inr ((Some key, err), allocs @ es @ frees))
                else Inr ((Some (region_mem env region src (length key)), None),
                          allocs @ [DmaRead region src (length key)] @ frees)))"


section \<open>The key RAM\<close>

text \<open>What the register writes of \<open>setKeyData\<close> do to the co-processor (i.MX6 reference
  manual, not under \<open>src/\<close>): a write of \<open>DCP_KEY\<close> selects a slot and subword, a write
  or move into \<open>DCP_KEYDATA\<close> stores a word there.  \<open>key_ram_run\<close> replays a trace;
  \<open>set_key_spec\<close> is what setting a key means: the four words of the key, read
  little-endian, replace the words of its slot.\<close>

record key_ram =
  key_sel :: u32
  key_slots :: "nat \<Rightarrow> nat \<Rightarrow> u32"

definition key_ram_store :: "u32 \<Rightarrow> key_ram \<Rightarrow> key_ram" where
  "key_ram_store w r =
     (let i = unat (bits_get (key_sel r) KEY_INDEX 0b11); sw = unat (bits_get (key_sel r) KEY_SUBWORD 0b11)
      in r\<lparr>key_slots := (key_slots r)(i := (key_slots r i)(sw := w))\<rparr>)"

fun key_ram_step :: "(u32 \<Rightarrow> u32) \<Rightarrow> key_ram \<Rightarrow> dcp_event \<Rightarrow> key_ram" where
  "key_ram_step m r (RegWrite a v) =
     (if a = DCP_KEY then r\<lparr>key_sel := v\<rparr> else if a = DCP_KEYDATA then key_ram_store v r else r)"
| "key_ram_step m r (RegMove d a) = (if d = DCP_KEYDATA then key_ram_store (m a) r else r)"
| "key_ram_step m r _ = r"

definition key_ram_run :: "(u32 \<Rightarrow> u32) \<Rightarrow> dcp_event list \<Rightarrow> key_ram \<Rightarrow> key_ram" where
  "key_ram_run m es r = fold (\<lambda>e r. key_ram_step m r e) es r"

definition set_key_spec :: "nat \<Rightarrow> u8 list \<Rightarrow> (nat \<Rightarrow> nat \<Rightarrow> u32) \<Rightarrow> nat \<Rightarrow> nat \<Rightarrow> u32" where
  "set_key_spec i k slots =
     slots(i := \<lambda>sw. if sw < 4 then of_le32 (take 4 (drop (4 * sw) k)) else slots i sw)"

section \<open>Lemmas\<close>

lemma set_key_loop_16:
  "length k = 16 \<Longrightarrow> set_key_loop loc (Some k) addr 0 acc =
    (let l0 = bits_setN loc KEY_SUBWORD 3 0; l1 = bits_setN l0 KEY_SUBWORD 3 1;
         l2 = bits_setN l1 KEY_SUBWORD 3 2; l3 = bits_setN l2 KEY_SUBWORD 3 3 in
     Inr (acc @ [RegWrite DCP_KEY l0, RegWrite DCP_KEYDATA (of_le32 (take 4 k)),
                 RegWrite DCP_KEY l1, RegWrite DCP_KEYDATA (of_le32 (take 4 (drop 4 k))),
                 RegWrite DCP_KEY l2, RegWrite DCP_KEYDATA (of_le32 (take 4 (drop 8 k))),
                 RegWrite DCP_KEY l3, RegWrite DCP_KEYDATA (of_le32 (take 4 (drop 12 k)))]))"
  by (simp add: set_key_loop.simps Let_def numeral_eq_Suc)
lemma unat_of_int_idx: "0 \<le> i \<Longrightarrow> i \<le> 3 \<Longrightarrow> unat (of_int i :: u32) < 4"
proof -
  assume "0 \<le> i" "i \<le> 3"
  then have "i = 0 \<or> i = 1 \<or> i = 2 \<or> i = 3" by arith
  then show ?thesis by auto
qed

lemma take4_chunks: "length k = 16 \<Longrightarrow> take 4 k @ take 4 (drop 4 k) @ take 4 (drop 8 k) @ drop 12 k = k"
proof -
  assume l: "length k = 16"
  have a: "take 4 (drop 8 k) @ drop 12 k = drop 8 k"
    using append_take_drop_id [of 4 "drop 8 k"] by simp
  have b: "take 4 (drop 4 k) @ drop 8 k = drop 4 k"
    using append_take_drop_id [of 4 "drop 4 k"] by simp
  show ?thesis unfolding a b by simp
qed

text \<open>C30: \<open>setKeyData\<close> with an index from 0 to 3 and a 16-byte key writes four pairs \<open>DCP_KEY\<close>/\<open>DCP_KEYDATA\<close>: each key location selects the index and the subword of its position, and the four key words, little-endian, are the key.\<close>

theorem set_key_data_words:
  assumes "0 \<le> i" "i \<le> 3" "length k = 16"
  shows "\<exists>locs ws. set_key_data i (Some k) addr =
      Inr (None, concat (map (\<lambda>(l, w). [RegWrite DCP_KEY l, RegWrite DCP_KEYDATA w]) (zip locs ws))) \<and>
    length locs = 4 \<and> (\<forall>sw<4. bits_get (locs ! sw) KEY_INDEX 3 = of_int i \<and> bits_get (locs ! sw) KEY_SUBWORD 3 = of_nat sw) \<and>
    le32_list ws = k"
proof -
  define l0 where "l0 = bits_setN (bits_setN 0 KEY_INDEX 3 (of_int i)) KEY_SUBWORD 3 0"
  define l1 where "l1 = bits_setN l0 KEY_SUBWORD 3 1"
  define l2 where "l2 = bits_setN l1 KEY_SUBWORD 3 2"
  define l3 where "l3 = bits_setN l2 KEY_SUBWORD 3 3"
  define ws where "ws = [of_le32 (take 4 k), of_le32 (take 4 (drop 4 k)), of_le32 (take 4 (drop 8 k)), of_le32 (take 4 (drop 12 k))]"
  have v: "unat (of_int i :: u32) < 4" using assms(1,2) by (rule unat_of_int_idx)
  have f: "bits_get ([l0, l1, l2, l3] ! sw) KEY_INDEX 3 = of_int i \<and> bits_get ([l0, l1, l2, l3] ! sw) KEY_SUBWORD 3 = of_nat sw"
    if "sw < 4" for sw
  proof -
    from that have "sw = 0 \<or> sw = 1 \<or> sw = 2 \<or> sw = 3" by arith
    then show ?thesis using v by (auto simp: l0_def l1_def l2_def l3_def field_simps_usb)
  qed
  have w: "le32_list ws = k" using assms(3) by (simp add: ws_def le32_of_le32 take4_chunks)
  have "set_key_data i (Some k) addr =
      Inr (None, concat (map (\<lambda>(l, w). [RegWrite DCP_KEY l, RegWrite DCP_KEYDATA w]) (zip [l0, l1, l2, l3] ws)))"
    using assms by (simp add: set_key_data_def set_key_loop_16 l0_def l1_def l2_def l3_def ws_def Let_def)
  with f w show ?thesis by (intro exI [of _ "[l0, l1, l2, l3]"] exI [of _ ws]) auto
qed

lemma set_key_loop_short:
  assumes "length k < 16"
  shows "sw \<le> length k div 4 \<Longrightarrow> \<exists>es. set_key_loop loc (Some k) addr sw acc = Inl (''slice bounds out of range'', es) \<and>
     length es = length acc + 2 * (length k div 4 - sw) + 1"
proof (induction "length k div 4 - sw" arbitrary: sw loc acc)
  case 0
  then have "sw = length k div 4" by simp
  then have "sw < 4" "\<not> sw * 4 + 4 \<le> length k" using assms by auto
  then show ?case using 0 by (simp add: set_key_loop.simps)
next
  case (Suc n)
  then have lt: "sw < 4" "sw * 4 + 4 \<le> length k" using assms by auto
  have "n = length k div 4 - Suc sw" "Suc sw \<le> length k div 4" using Suc.hyps(2) by auto
  from Suc.hyps(1) [OF this, of "bits_setN loc KEY_SUBWORD 3 (of_nat sw)"
      "acc @ [RegWrite DCP_KEY (bits_setN loc KEY_SUBWORD 3 (of_nat sw)), RegWrite DCP_KEYDATA (of_le32 (take 4 (drop (sw * 4) k)))]"]
  obtain es where
    "set_key_loop (bits_setN loc KEY_SUBWORD 3 (of_nat sw)) (Some k) addr (Suc sw)
       (acc @ [RegWrite DCP_KEY (bits_setN loc KEY_SUBWORD 3 (of_nat sw)), RegWrite DCP_KEYDATA (of_le32 (take 4 (drop (sw * 4) k)))])
       = Inl (''slice bounds out of range'', es)"
    "length es = length acc + 2 + 2 * (length k div 4 - Suc sw) + 1"
    by auto
  with lt Suc.hyps(2) show ?case by (subst set_key_loop.simps) (auto simp: Let_def)
qed
lemma set_key_loop_None:
  "set_key_loop loc None addr 0 acc =
    (let l0 = bits_setN loc KEY_SUBWORD 3 0; l1 = bits_setN l0 KEY_SUBWORD 3 1;
         l2 = bits_setN l1 KEY_SUBWORD 3 2; l3 = bits_setN l2 KEY_SUBWORD 3 3 in
     Inr (acc @ [RegWrite DCP_KEY l0, RegMove DCP_KEYDATA addr, RegWrite DCP_KEY l1, RegMove DCP_KEYDATA (addr + 4),
                 RegWrite DCP_KEY l2, RegMove DCP_KEYDATA (addr + 8), RegWrite DCP_KEY l3, RegMove DCP_KEYDATA (addr + 12)]))"
  by (simp add: set_key_loop.simps Let_def numeral_eq_Suc)

text \<open>C31: a key shorter than 16 bytes passes the size check of \<open>setKeyData\<close> and panics with a slice out of range after writing its whole words: the slot is left partly overwritten (\<open>2 * (length k div 4) + 1\<close> writes).\<close>

theorem set_key_short_panics:
  assumes "0 \<le> i" "i \<le> 3" "length k < 16"
  shows "\<exists>es. set_key_data i (Some k) addr = Inl (''slice bounds out of range'', es) \<and>
    length es = 2 * (length k div 4) + 1"
  using set_key_loop_short [OF assms(3), of 0 "bits_setN 0 KEY_INDEX 3 (of_int i)" addr "[]"] assms
  by (auto simp: set_key_data_def)

text \<open>C32: \<open>SetKey\<close> with a nil key returns no error and loads the slot from the words at physical addresses 0, 4, 8 and 12.\<close>

theorem set_key_nil_reads_zero:
  assumes "0 \<le> i" "i \<le> 3"
  shows "\<exists>l0 l1 l2 l3. set_key i None = Inr (None, [RegWrite DCP_KEY l0, RegMove DCP_KEYDATA 0,
     RegWrite DCP_KEY l1, RegMove DCP_KEYDATA 4, RegWrite DCP_KEY l2, RegMove DCP_KEYDATA 8,
     RegWrite DCP_KEY l3, RegMove DCP_KEYDATA 12])"
  using assms by (simp add: set_key_def set_key_data_def set_key_loop_None Let_def)

text \<open>C33: for a key slot, \<open>DeriveKey\<close> allocates from \<open>DeriveKeyMemory\<close> when the default DMA region starts exactly at \<open>IRAMStart\<close>, although that region lies in iRAM: the test compares the start with \<open>>\<close> where \<open>\<ge>\<close> is meant.\<close>

theorem derive_key_region_iram_start:
  assumes "0 \<le> index" "r_start (dma_default env) = r_start (iram env)"
    and "derive_key env d iv index = Inr (r, es)" and "DmaAlloc rg a b n \<in> set es"
  shows "rg = derive_key_memory env"
  using assms by (auto simp: derive_key_def derive_key_region_def Let_def set_key_data_def set_key_loop_None
    split: if_splits option.splits sum.splits)

text \<open>C34: \<open>DeriveKey\<close> into a key slot, with a 16-byte IV and a command that succeeds, returns the padded diversifier as \<open>key\<close> (the documentation says no key is returned) and ends by freeing its three DMA buffers in reverse order.\<close>

theorem derive_key_slot_returns_key:
  assumes "length iv = 16" "0 \<le> index" "index \<le> 3"
    and "cmd_error env (region_alloc env (derive_key_region env index) 2) = None"
  shows "\<exists>es. derive_key env d iv index = Inr ((Some (dcp_pad d False), None), es) \<and>
    (let rg = derive_key_region env index in
     drop (length es - 3) es = [DmaFree rg (region_alloc env rg 2), DmaFree rg (region_alloc env rg 1), DmaFree rg (region_alloc env rg 0)])"
  using assms by (simp add: derive_key_def Let_def set_key_data_def set_key_loop_None)
lemma unat_of_int_nat: "0 \<le> i \<Longrightarrow> i \<le> 3 \<Longrightarrow> unat (of_int i :: u32) = nat i"
proof -
  assume "0 \<le> i" "i \<le> 3"
  then have "i = 0 \<or> i = 1 \<or> i = 2 \<or> i = 3" by arith
  then show ?thesis by auto
qed

lemma key_loc_fields:
  assumes "unat v < 4" "sw < 4"
  shows "bits_get (bits_setN x KEY_SUBWORD 3 (of_nat sw)) KEY_SUBWORD 3 = of_nat sw"
    and "bits_get (bits_setN x KEY_SUBWORD 3 (of_nat sw)) KEY_INDEX 3 = bits_get x KEY_INDEX 3"
    and "bits_get (bits_setN 0 KEY_INDEX 3 v) KEY_INDEX 3 = v"
proof -
  have s: "unat (of_nat sw :: u32) < 2 ^ 2" using of_nat_fits [of sw 2] assms(2) by simp
  have v: "unat v < 2 ^ 2" using assms(1) by simp
  show "bits_get (bits_setN x KEY_SUBWORD 3 (of_nat sw)) KEY_SUBWORD 3 = of_nat sw"
    using s by (simp add: bits_lits bits_get_setN_same)
  show "bits_get (bits_setN x KEY_SUBWORD 3 (of_nat sw)) KEY_INDEX 3 = bits_get x KEY_INDEX 3"
    using s by (simp add: bits_lits bits_get_setN_other)
  show "bits_get (bits_setN 0 KEY_INDEX 3 v) KEY_INDEX 3 = v"
    using v by (simp add: bits_lits bits_get_setN_same)
qed

lemma set_key_spec_4:
  "length k = 16 \<Longrightarrow> set_key_spec i k slots =
     slots(i := (((((slots i)(0 := of_le32 (take 4 k)))(1 := of_le32 (take 4 (drop 4 k))))
       (2 := of_le32 (take 4 (drop 8 k))))(3 := of_le32 (drop 12 k))))"
  unfolding set_key_spec_def
  by (auto simp: fun_eq_iff less_Suc_eq numeral_eq_Suc)

text \<open>C39: \<open>setKeyData\<close> refines setting a key: with an index from 0 to 3 and a 16-byte
  key it returns no error, and replaying its register writes on the key RAM replaces
  the four words of slot \<open>index\<close> with the key's words and changes nothing else.\<close>

theorem set_key_data_refines:
  assumes "0 \<le> i" "i \<le> 3" "length k = 16"
  shows "\<exists>es. set_key_data i (Some k) addr = Inr (None, es) \<and>
    key_slots (key_ram_run m es r) = set_key_spec (nat i) k (key_slots r)"
proof -
  define l0 where "l0 = bits_setN (bits_setN 0 KEY_INDEX 3 (of_int i)) KEY_SUBWORD 3 0"
  define l1 where "l1 = bits_setN l0 KEY_SUBWORD 3 1"
  define l2 where "l2 = bits_setN l1 KEY_SUBWORD 3 2"
  define l3 where "l3 = bits_setN l2 KEY_SUBWORD 3 3"
  have v: "unat (of_int i :: u32) < 4" using assms(1,2) by (rule unat_of_int_idx)
  note kf = key_loc_fields [OF v]
  have idx: "bits_get l0 KEY_INDEX 3 = of_int i" "bits_get l1 KEY_INDEX 3 = of_int i"
    "bits_get l2 KEY_INDEX 3 = of_int i" "bits_get l3 KEY_INDEX 3 = of_int i"
    using kf(2) [of 0] kf(2) [of 1] kf(2) [of 2] kf(2) [of 3] kf(3) [of 0] by (simp_all add: l0_def l1_def l2_def l3_def)
  have sub: "bits_get l0 KEY_SUBWORD 3 = 0" "bits_get l1 KEY_SUBWORD 3 = 1"
    "bits_get l2 KEY_SUBWORD 3 = 2" "bits_get l3 KEY_SUBWORD 3 = 3"
    using kf(1) [of 0] kf(1) [of 1] kf(1) [of 2] kf(1) [of 3] by (simp_all add: l0_def l1_def l2_def l3_def)
  have es: "set_key_data i (Some k) addr = Inr (None,
      [RegWrite DCP_KEY l0, RegWrite DCP_KEYDATA (of_le32 (take 4 k)),
       RegWrite DCP_KEY l1, RegWrite DCP_KEYDATA (of_le32 (take 4 (drop 4 k))),
       RegWrite DCP_KEY l2, RegWrite DCP_KEYDATA (of_le32 (take 4 (drop 8 k))),
       RegWrite DCP_KEY l3, RegWrite DCP_KEYDATA (of_le32 (drop 12 k))])"
    using assms by (simp add: set_key_data_def set_key_loop_16 l0_def l1_def l2_def l3_def Let_def)
  have "key_slots (key_ram_run m [RegWrite DCP_KEY l0, RegWrite DCP_KEYDATA (of_le32 (take 4 k)),
       RegWrite DCP_KEY l1, RegWrite DCP_KEYDATA (of_le32 (take 4 (drop 4 k))),
       RegWrite DCP_KEY l2, RegWrite DCP_KEYDATA (of_le32 (take 4 (drop 8 k))),
       RegWrite DCP_KEY l3, RegWrite DCP_KEYDATA (of_le32 (drop 12 k))] r) = set_key_spec (nat i) k (key_slots r)"
    by (simp add: key_ram_run_def key_ram_store_def Let_def idx sub unat_of_int_nat [OF assms(1,2)]
      set_key_spec_4 [OF assms(3)])
  with es show ?thesis by blast
qed
end
