(* ===== verification/MiniUART.thy ===== *)
theory MiniUART
  imports USB_Prelude
begin

text \<open>
  The BCM2835 mini UART console driver (\<open>src/unnamed/part_002\<close>, package \<open>bcm2835\<close>):
  \<open>Init\<close>, \<open>Tx\<close>, \<open>Write\<close>, \<open>printk\<close> and \<open>setupGPIO\<close>.  Registers are reached through
  \<open>PeripheralAddress\<close> (the peripheral base plus an offset, outside \<open>src/\<close>); what a
  register reads at the \<open>k\<close>-th read is supplied by the environment \<open>uart_env\<close>, as for
  the USB controller.  The state is a read counter and the trace of register reads,
  writes and busy loops.  \<open>Tx\<close> polls the line-status register until the transmitter
  is empty; it is a \<open>partial_function (option)\<close>, \<open>None\<close> being a poll that never ends.
\<close>

section \<open>Registers\<close>

abbreviation (input) AUX_ENABLES :: u32 where "AUX_ENABLES \<equiv> 0x215004"
abbreviation (input) AUX_MU_IO_REG :: u32 where "AUX_MU_IO_REG \<equiv> 0x215040"
abbreviation (input) AUX_MU_IER_REG :: u32 where "AUX_MU_IER_REG \<equiv> 0x215044"
abbreviation (input) AUX_MU_IIR_REG :: u32 where "AUX_MU_IIR_REG \<equiv> 0x215048"
abbreviation (input) AUX_MU_LCR_REG :: u32 where "AUX_MU_LCR_REG \<equiv> 0x21504C"
abbreviation (input) AUX_MU_MCR_REG :: u32 where "AUX_MU_MCR_REG \<equiv> 0x215050"
abbreviation (input) AUX_MU_LSR_REG :: u32 where "AUX_MU_LSR_REG \<equiv> 0x215054"
abbreviation (input) AUX_MU_CNTL_REG :: u32 where "AUX_MU_CNTL_REG \<equiv> 0x215060"
abbreviation (input) AUX_MU_BAUD_REG :: u32 where "AUX_MU_BAUD_REG \<equiv> 0x215068"
abbreviation (input) GPFSEL1 :: u32 where "GPFSEL1 \<equiv> 0x200004"
abbreviation (input) GPPUD :: u32 where "GPPUD \<equiv> 0x200094"
abbreviation (input) GPPUDCLK0 :: u32 where "GPPUDCLK0 \<equiv> 0x200098"

datatype uart_event =
    URd u32 u32
  | UWr u32 u32
  | Busyloop nat
  | GpioFunction nat nat
  | GpioPull nat nat

record uart_env =
  peripheral_base :: u32
  uart_rd :: "u32 \<Rightarrow> nat \<Rightarrow> u32"
  bcm_gpio_ok :: "nat \<Rightarrow> bool"

record mmio =
  u_clk :: nat
  u_trace :: "uart_event list"

text \<open>\<open>PeripheralAddress\<close>, \<open>reg.Read\<close> and \<open>reg.Write\<close> on the peripheral bus.\<close>

definition peripheral_address :: "uart_env \<Rightarrow> u32 \<Rightarrow> u32" where
  "peripheral_address env off = peripheral_base env + off"

definition u_read :: "uart_env \<Rightarrow> u32 \<Rightarrow> mmio \<Rightarrow> u32 \<times> mmio" where
  "u_read env off s =
     (let a = peripheral_address env off; v = uart_rd env a (u_clk s)
      in (v, s\<lparr>u_clk := Suc (u_clk s), u_trace := u_trace s @ [URd a v]\<rparr>))"

definition u_write :: "uart_env \<Rightarrow> u32 \<Rightarrow> u32 \<Rightarrow> mmio \<Rightarrow> mmio" where
  "u_write env off v s = s\<lparr>u_trace := u_trace s @ [UWr (peripheral_address env off) v]\<rparr>"

definition busyloop :: "nat \<Rightarrow> mmio \<Rightarrow> mmio" where
  "busyloop n s = s\<lparr>u_trace := u_trace s @ [Busyloop n]\<rparr>"

section \<open>Operations\<close>

text \<open>The function-select word \<open>Init\<close> writes back to \<open>GPFSEL1\<close> (lines 68--73): the
  three-bit fields of GPIO 14 (bits 12--14) and GPIO 15 (bits 15--17) set to alternate
  function 5 (\<open>0b010\<close>).\<close>

definition gpfsel1_alt5 :: "u32 \<Rightarrow> u32" where
  "gpfsel1_alt5 ra =
     (((ra AND NOT (push_bit 12 7)) OR push_bit 12 2) AND NOT (push_bit 15 7)) OR push_bit 15 2"

text \<open>\<open>miniUART.Init\<close> (lines 55--82).\<close>

definition mini_uart_init :: "uart_env \<Rightarrow> mmio \<Rightarrow> mmio" where
  "mini_uart_init env s0 =
     (let s = fold (\<lambda>(r, v). u_write env r v)
                [(AUX_ENABLES, 1), (AUX_MU_IER_REG, 0), (AUX_MU_CNTL_REG, 0), (AUX_MU_LCR_REG, 3),
                 (AUX_MU_MCR_REG, 0), (AUX_MU_IER_REG, 0), (AUX_MU_IIR_REG, 0xC6), (AUX_MU_BAUD_REG, 270)] s0;
          (ra, s) = u_read env GPFSEL1 s;
          s = u_write env GPFSEL1 (gpfsel1_alt5 ra) s;
          s = busyloop 150 (u_write env GPPUD 0 s);
          s = busyloop 150 (u_write env GPPUDCLK0 (push_bit 14 1 OR push_bit 15 1) s);
          s = u_write env GPPUDCLK0 0 s
      in u_write env AUX_MU_CNTL_REG 3 s)"

text \<open>The wait of \<open>Tx\<close> (lines 85--89): read the line-status register until its bit 5
  (transmitter empty) is set.\<close>

partial_function (option) tx_wait :: "uart_env \<Rightarrow> mmio \<Rightarrow> mmio option" where
  "tx_wait env s =
     (case u_read env AUX_MU_LSR_REG s of (lsr, s') \<Rightarrow>
        if lsr AND 0x20 \<noteq> 0 then Some s' else tx_wait env s')"

text \<open>\<open>miniUART.Tx\<close> (lines 84--92) and \<open>printk\<close> (lines 24--27).\<close>

definition uart_tx :: "uart_env \<Rightarrow> u8 \<Rightarrow> mmio \<Rightarrow> mmio option" where
  "uart_tx env c s = map_option (u_write env AUX_MU_IO_REG (ucast c)) (tx_wait env s)"

definition printk :: "uart_env \<Rightarrow> u8 \<Rightarrow> mmio \<Rightarrow> mmio option" where
  "printk env c s = uart_tx env c s"

text \<open>\<open>miniUART.Write\<close> (lines 94--99): \<open>Tx\<close> of every byte, in order.\<close>

fun uart_write_buf :: "uart_env \<Rightarrow> u8 list \<Rightarrow> mmio \<Rightarrow> mmio option" where
  "uart_write_buf env [] s = Some s"
| "uart_write_buf env (c # cs) s = (case uart_tx env c s of None \<Rightarrow> None | Some s' \<Rightarrow> uart_write_buf env cs s')"

text \<open>\<open>miniUART.setupGPIO\<close> (lines 101--112): \<open>NewGPIO\<close> (outside \<open>src/\<close>) panics on an
  invalid line; the line is switched to alternate function 5 with no pull.  A panic is
  \<open>None\<close>.\<close>

definition setup_gpio :: "uart_env \<Rightarrow> nat \<Rightarrow> mmio \<Rightarrow> mmio option" where
  "setup_gpio env num s =
     (if bcm_gpio_ok env num
      then Some (s\<lparr>u_trace := u_trace s @ [GpioFunction num 5, GpioPull num 0]\<rparr>)
      else None)"

text \<open>The abstract console: the bytes written to the data register, in order.\<close>

definition console :: "uart_env \<Rightarrow> uart_event list \<Rightarrow> u8 list" where
  "console env es = [ucast v. UWr a v \<leftarrow> es, a = peripheral_address env AUX_MU_IO_REG]"

text \<open>The transmitter becomes empty again and again.\<close>

definition tx_ready :: "uart_env \<Rightarrow> bool" where
  "tx_ready env \<longleftrightarrow> (\<forall>t. \<exists>k\<ge>t. uart_rd env (peripheral_address env AUX_MU_LSR_REG) k AND 0x20 \<noteq> 0)"

section \<open>Lemmas\<close>

lemma console_append [simp]: "console env (es @ fs) = console env es @ console env fs"
  by (simp add: console_def)

lemma console_simps [simp]:
  "console env [] = []"
  "console env [URd a v] = []"
  "console env [UWr a v] = (if a = peripheral_address env AUX_MU_IO_REG then [ucast v] else [])"
  by (simp_all add: console_def)

lemma tx_wait_console:
  assumes "tx_wait env s = Some s'"
  shows "console env (u_trace s') = console env (u_trace s)"
proof (rule tx_wait.raw_induct [where P = "\<lambda>env s s'. console env (u_trace s') = console env (u_trace s)", OF _ assms])
  fix f env s s'
  assume IH: "\<And>env s s'. f env s = Some s' \<Longrightarrow> console env (u_trace s') = console env (u_trace s)"
    and eq: "(case u_read env AUX_MU_LSR_REG s of (lsr, s') \<Rightarrow> if lsr AND 0x20 \<noteq> 0 then Some s' else f env s') = Some s'"
  then show "console env (u_trace s') = console env (u_trace s)"
    by (auto simp: u_read_def Let_def split: if_splits dest!: IH)
qed

lemma tx_wait_returns:
  assumes "u_clk s \<le> k" and "uart_rd env (peripheral_address env AUX_MU_LSR_REG) k AND 0x20 \<noteq> 0"
  shows "\<exists>s'. tx_wait env s = Some s'"
  using assms
proof (induction "k - u_clk s" arbitrary: s)
  case 0
  then have "u_clk s = k" by simp
  with 0 show ?case by (simp add: tx_wait.simps u_read_def Let_def)
next
  case (Suc d)
  let ?s1 = "snd (u_read env AUX_MU_LSR_REG s)"
  have "d = k - u_clk ?s1" and "u_clk ?s1 \<le> k" using Suc.hyps(2) by (simp_all add: u_read_def Let_def)
  then obtain s' where "tx_wait env ?s1 = Some s'" using Suc.hyps(1) Suc.prems(2) by blast
  then show ?case by (cases "uart_rd env (peripheral_address env AUX_MU_LSR_REG) (u_clk s) AND 0x20 \<noteq> 0")
    (auto simp: tx_wait.simps [of env s] u_read_def Let_def)
qed

lemma ucast_ucast_u8 [simp]: "(ucast (ucast (c :: u8) :: u32) :: u8) = c"
  by (intro bit_word_eqI) (auto simp: bit_simps)

lemma uart_tx_console: "uart_tx env c s = Some s' \<Longrightarrow> console env (u_trace s') = console env (u_trace s) @ [c]"
  by (auto simp: uart_tx_def u_write_def dest!: tx_wait_console)

lemma uart_tx_returns: "tx_ready env \<Longrightarrow> \<exists>s'. uart_tx env c s = Some s'"
  unfolding tx_ready_def uart_tx_def by (metis tx_wait_returns option.simps(9))

text \<open>C35: \<open>Write\<close> refines the console: when the transmitter becomes empty again and
  again, \<open>Write\<close> returns and the bytes it wrote to the data register are the buffer,
  in order, after what the console held before.\<close>

theorem uart_write_buf_console:
  "tx_ready env \<Longrightarrow> \<exists>s'. uart_write_buf env buf s = Some s' \<and> console env (u_trace s') = console env (u_trace s) @ buf"
proof (induction buf arbitrary: s)
  case Nil
  then show ?case by simp
next
  case (Cons c cs)
  obtain s1 where t: "uart_tx env c s = Some s1" using uart_tx_returns [OF Cons.prems] by blast
  obtain s' where "uart_write_buf env cs s1 = Some s'" "console env (u_trace s') = console env (u_trace s1) @ cs"
    using Cons.IH [OF Cons.prems] by blast
  then show ?case using t uart_tx_console [OF t] by auto
qed

lemmas bit_gpfsel_lits = bit_int_exp [of 1, simplified] bit_int_exp [of 13, simplified]
  bit_int_exp [of 16, simplified]

lemma gpfsel_lits: "(7::u32) = mask 3"
  by (simp add: mask_eq_exp_minus_1)

lemma bit_gpfsel1_alt5:
  "bit (gpfsel1_alt5 ra) i \<longleftrightarrow> (if 12 \<le> i \<and> i < 18 then i = 13 \<or> i = 16 else bit ra i)"
  unfolding gpfsel1_alt5_def gpfsel_lits
  by (auto simp: bit_push_bit_iff bit_mask_iff bit_and_iff bit_or_iff bit_not_iff bit_1_iff bit_gpfsel_lits
    dest: bit_imp_le_length)

text \<open>the function-select word \<open>Init\<close> writes to \<open>GPFSEL1\<close> sets the fields of
  GPIO 14 and 15 to alternate function 5 and keeps every bit outside bits 12--17.\<close>

theorem gpfsel1_alt5_fields:
  "bits_get (gpfsel1_alt5 ra) 12 7 = 2 \<and> bits_get (gpfsel1_alt5 ra) 15 7 = 2 \<and>
   (\<forall>i. i < 12 \<or> 18 \<le> i \<longrightarrow> bit (gpfsel1_alt5 ra) i = bit ra i)"
  unfolding bits_get_def gpfsel_lits
  by (intro conjI allI impI bit_word_eqI)
    (auto simp: bit_gpfsel1_alt5 bit_push_bit_iff bit_mask_iff bit_and_iff bit_drop_bit_eq bit_1_iff bit_gpfsel_lits)
end
