(* ===== verification/Reg64.thy ===== *)
theory Reg64
  imports USB_Prelude
begin

text \<open>
  \<open>reg.Read64\<close> and \<open>reg.Write64\<close> (\<open>src/unnamed/part_004\<close>, lines 605--613): atomic
  64-bit loads and stores through an \<open>unsafe.Pointer\<close> built from an address.  Memory is
  modelled at byte level, addressed by \<open>uintptr\<close> values that wrap around, and the
  64-bit value is laid out little-endian, as on the ARM and RISC-V targets of tamago.
  Atomicity is not visible in this sequential model: a load or store is one step.
\<close>

type_synonym u64 = "64 word"

definition le64 :: "u64 \<Rightarrow> u8 list" where
  "le64 v = [ucast v, ucast (drop_bit 8 v), ucast (drop_bit 16 v), ucast (drop_bit 24 v),
             ucast (drop_bit 32 v), ucast (drop_bit 40 v), ucast (drop_bit 48 v), ucast (drop_bit 56 v)]"

definition of_le64 :: "u8 list \<Rightarrow> u64" where
  "of_le64 bs = ucast (bs ! 0) OR push_bit 8 (ucast (bs ! 1)) OR push_bit 16 (ucast (bs ! 2))
     OR push_bit 24 (ucast (bs ! 3)) OR push_bit 32 (ucast (bs ! 4)) OR push_bit 40 (ucast (bs ! 5))
     OR push_bit 48 (ucast (bs ! 6)) OR push_bit 56 (ucast (bs ! 7))"



section \<open>Lemmas\<close>

lemma of_le64_le64 [simp]: "of_le64 (le64 x) = x"
proof (intro bit_word_eqI)
  fix n :: nat
  assume "n < LENGTH(64)"
  then have "n < 64" by simp
  then consider "n < 8" | "8 \<le> n \<and> n < 16" | "16 \<le> n \<and> n < 24" | "24 \<le> n \<and> n < 32"
    | "32 \<le> n \<and> n < 40" | "40 \<le> n \<and> n < 48" | "48 \<le> n \<and> n < 56" | "56 \<le> n \<and> n < 64"
    by linarith
  then show "bit (of_le64 (le64 x)) n = bit x n"
    by cases (auto simp: bit_simps of_le64_def le64_def)
qed

lemma length_le64 [simp]: "length (le64 x) = 8"
  by (simp add: le64_def)

lemma unat_of_nat_lt8 [simp]: "i < 8 \<Longrightarrow> unat (of_nat i :: u64) = i"
  by (simp add: unat_of_nat)



end
