(* ===== verification/Boards.thy ===== *)
theory Boards
  imports IMX6
begin

text \<open>
  Board and SoC initialisation code of tamago outside the USB driver:
  \<^item> the Raspberry Pi Zero activity LED (\<open>src/unnamed/part_000\<close>, lines 1--54, package
    \<open>pizero\<close>), on the BCM2835 GPIO package, which is not under \<open>src/\<close> (whether
    \<open>NewGPIO\<close> accepts a line is a parameter);
  \<^item> the SD/MMC initialisation of the USB armory Mk II (\<open>part_000\<close>, lines 56--180),
    through the \<open>soc/imx6\<close> interface of theory \<open>IMX6\<close>;
  \<^item> the RNG selection of the i.MX6UL (\<open>src/unnamed/part_001\<close>, \<open>initRNG\<close>);
  \<^item> the SiFive FU540 instances and identification (\<open>src/unnamed/part_003\<close>, lines 1--63).
  A Go panic is \<open>Inl\<close> with its message; the operations of the packages called are
  events of a trace.
\<close>

section \<open>Raspberry Pi Zero LED\<close>

abbreviation (input) ACTIVITY :: nat where "ACTIVITY \<equiv> 0x2f"

datatype led_event = LedOut nat | LedHigh nat | LedLow nat

text \<open>The package variable \<open>activity\<close> (a \<open>*bcm2835.GPIO\<close>, nil until \<open>init\<close>) and the
  trace of GPIO operations.\<close>

record pizero =
  activity :: "nat option"
  led_io :: "led_event list"

text \<open>\<open>init\<close> (lines 25--35).\<close>

definition pizero_init :: "(nat \<Rightarrow> bool) \<Rightarrow> pizero \<Rightarrow> string + pizero" where
  "pizero_init gpio_ok st =
     (if gpio_ok ACTIVITY
      then Inr (st\<lparr>activity := Some ACTIVITY, led_io := led_io st @ [LedOut ACTIVITY]\<rparr>)
      else Inl ''NewGPIO'')"

text \<open>\<open>board.LED\<close> (lines 37--54): three spellings name the activity LED; any other name
  is an error; a nil line is a nil-pointer panic.\<close>

definition board_led :: "string \<Rightarrow> bool \<Rightarrow> pizero \<Rightarrow> string + string option \<times> pizero" where
  "board_led name on st =
     (if name \<in> {''activity'', ''Activity'', ''ACTIVITY''} then
        (case activity st of
           None \<Rightarrow> Inl ''nil pointer dereference''
         | Some g \<Rightarrow> Inr (None, st\<lparr>led_io := led_io st @ [if on then LedHigh g else LedLow g]\<rparr>))
      else Inr (Some ''invalid LED'', st))"

section \<open>USB armory Mk II SD/MMC\<close>

abbreviation (input) IOMUXC_SW_MUX_CTL_PAD_CSI_DATA04 :: u32 where "IOMUXC_SW_MUX_CTL_PAD_CSI_DATA04 \<equiv> 0x020e01f4"
abbreviation (input) IOMUXC_SW_PAD_CTL_PAD_CSI_DATA04 :: u32 where "IOMUXC_SW_PAD_CTL_PAD_CSI_DATA04 \<equiv> 0x020e0480"
abbreviation (input) IOMUXC_USDHC1_WP_SELECT_INPUT :: u32 where "IOMUXC_USDHC1_WP_SELECT_INPUT \<equiv> 0x020e066c"
abbreviation (input) USDHC1_WP_MODE :: u32 where "USDHC1_WP_MODE \<equiv> 8"
abbreviation (input) DAISY_CSI_DATA04 :: u32 where "DAISY_CSI_DATA04 \<equiv> 0b10"
abbreviation (input) IOMUXC_SW_MUX_CTL_PAD_CSI_PIXCLK :: u32 where "IOMUXC_SW_MUX_CTL_PAD_CSI_PIXCLK \<equiv> 0x020e01d8"
abbreviation (input) IOMUXC_SW_PAD_CTL_PAD_CSI_PIXCLK :: u32 where "IOMUXC_SW_PAD_CTL_PAD_CSI_PIXCLK \<equiv> 0x020e0464"
abbreviation (input) IOMUXC_USDHC2_WP_SELECT_INPUT :: u32 where "IOMUXC_USDHC2_WP_SELECT_INPUT \<equiv> 0x020e069c"
abbreviation (input) USDHC2_WP_MODE :: u32 where "USDHC2_WP_MODE \<equiv> 1"
abbreviation (input) DAISY_CSI_PIXCLK :: u32 where "DAISY_CSI_PIXCLK \<equiv> 0b10"
abbreviation (input) SD_BUS_WIDTH :: nat where "SD_BUS_WIDTH \<equiv> 4"
abbreviation (input) MMC_BUS_WIDTH :: nat where "MMC_BUS_WIDTH \<equiv> 8"
abbreviation (input) PF1510_LDO3_VOLT :: u32 where "PF1510_LDO3_VOLT \<equiv> 0x52"
abbreviation (input) LDO3_VOLT_1V8 :: u8 where "LDO3_VOLT_1V8 \<equiv> 0x10"
abbreviation (input) LDO3_VOLT_3V3 :: u8 where "LDO3_VOLT_3V3 \<equiv> 0x1f"

text \<open>The \<open>LowVoltage\<close> hooks of the two uSDHC instances (\<open>SD = USDHC1\<close>,
  \<open>MMC = USDHC2\<close>, lines 72--75): nil or one of the two functions of this file.\<close>

datatype low_voltage_fn = LowVoltageSD | LowVoltageMMC

record sd_board =
  sd_low_voltage :: "low_voltage_fn option"
  mmc_low_voltage :: "low_voltage_fn option"
  sd_io :: "io_event list"

text \<open>\<open>init\<close> (lines 115--162): the write-protect pads of both controllers pulled down
  (\<open>PUE\<close> and \<open>PKE\<close> set, every other field zero), both controllers
  initialised, and the low-voltage hooks installed on \<open>\<gamma>\<close> boards only.  Off the
  hardware (\<open>Native\<close> false) only the pads are created.\<close>

definition usbarmory_sd_init :: "board_env \<Rightarrow> sd_board \<Rightarrow> string + sd_board" where
  "usbarmory_sd_init env st =
     (let ctl = push_bit (SW_PAD_CTL_PUE env) 1 OR push_bit (SW_PAD_CTL_PKE env) 1 in
      if \<not> new_pad_ok env IOMUXC_SW_MUX_CTL_PAD_CSI_DATA04 IOMUXC_SW_PAD_CTL_PAD_CSI_DATA04
             IOMUXC_USDHC1_WP_SELECT_INPUT then Inl ''NewPad''
      else if \<not> new_pad_ok env IOMUXC_SW_MUX_CTL_PAD_CSI_PIXCLK IOMUXC_SW_PAD_CTL_PAD_CSI_PIXCLK
             IOMUXC_USDHC2_WP_SELECT_INPUT then Inl ''NewPad''
      else if \<not> native env then Inr st
      else
        (let st' = st\<lparr>sd_io := sd_io st @
               [PadMode IOMUXC_SW_MUX_CTL_PAD_CSI_DATA04 USDHC1_WP_MODE,
                PadSelect IOMUXC_USDHC1_WP_SELECT_INPUT DAISY_CSI_DATA04,
                PadCtl IOMUXC_SW_PAD_CTL_PAD_CSI_DATA04 ctl,
                PadMode IOMUXC_SW_MUX_CTL_PAD_CSI_PIXCLK USDHC2_WP_MODE,
                PadSelect IOMUXC_USDHC2_WP_SELECT_INPUT DAISY_CSI_PIXCLK,
                PadCtl IOMUXC_SW_PAD_CTL_PAD_CSI_PIXCLK ctl,
                UsdhcInit 1 SD_BUS_WIDTH, UsdhcInit 2 MMC_BUS_WIDTH]\<rparr>
         in if board_model env = MODEL_BETA then Inr st'
            else if board_model env = MODEL_GAMMA
            then Inr (st'\<lparr>sd_low_voltage := Some LowVoltageSD, mmc_low_voltage := Some LowVoltageMMC\<rparr>)
            else Inr st'))"

text \<open>\<open>lowVoltageSD\<close> (lines 164--176): the LDO3 output of the PF1510 set to 1.8 V or
  3.3 V by a one-byte I2C write; the result is whether the write succeeded.
  \<open>lowVoltageMMC\<close> (lines 178--180) does nothing and reports success.\<close>

definition low_voltage_sd :: "board_env \<Rightarrow> bool \<Rightarrow> sd_board \<Rightarrow> bool \<times> sd_board" where
  "low_voltage_sd env enable st =
     (i2c_ok env, st\<lparr>sd_io := sd_io st @
        [I2CWrite [if enable then LDO3_VOLT_1V8 else LDO3_VOLT_3V3] (PF1510_ADDR env) PF1510_LDO3_VOLT 1]\<rparr>)"

definition low_voltage_mmc :: "bool \<Rightarrow> sd_board \<Rightarrow> bool \<times> sd_board" where
  "low_voltage_mmc enable st = (True, st)"

section \<open>i.MX6UL random number generator\<close>

text \<open>The random-data function the runtime uses (\<open>rng.GetRandomDataFn\<close>), the devices
  \<open>initRNG\<close> initialises and how the DRBG is seeded.\<close>

datatype rng_fn = GetLCGData | DRBGGetRandomData | RNGBGetRandomData

datatype rng_event = CaamInit | CaamSeedDRBG | RngbInit

record rng_state =
  get_random_data_fn :: "rng_fn option"
  rng_io :: "rng_event list"

record soc_env =
  soc_native :: bool
  soc_model :: string

text \<open>\<open>initRNG\<close> (part_001, lines 20--52; the \<open>go:linkname\<close> directive at line 20): off the hardware the LCG; on an i.MX6UL the
  CAAM, whose TRNG seeds an AES-CTR DRBG; on an i.MX6ULL or i.MX6ULZ the RNGB; on any
  other model nothing.\<close>

definition init_rng :: "soc_env \<Rightarrow> rng_state \<Rightarrow> rng_state" where
  "init_rng env st =
     (if \<not> soc_native env then st\<lparr>get_random_data_fn := Some GetLCGData\<rparr>
      else if soc_model env = ''i.MX6UL'' then
        st\<lparr>rng_io := rng_io st @ [CaamInit, CaamSeedDRBG], get_random_data_fn := Some DRBGGetRandomData\<rparr>
      else if soc_model env \<in> {''i.MX6ULL'', ''i.MX6ULZ''} then
        st\<lparr>rng_io := rng_io st @ [RngbInit], get_random_data_fn := Some RNGBGetRandomData\<rparr>
      else st)"

section \<open>SiFive FU540\<close>

record fu540_uart =
  uart_index :: nat
  uart_base :: u32

text \<open>The UART instances (lines 39--49), \<open>Init\<close> (lines 54--58), which does nothing, and
  \<open>Model\<close> (lines 60--63).\<close>

definition fu540_uart1 :: fu540_uart where
  "fu540_uart1 = \<lparr>uart_index = 1, uart_base = 0x10010000\<rparr>"

definition fu540_uart2 :: fu540_uart where
  "fu540_uart2 = \<lparr>uart_index = 2, uart_base = 0x10011000\<rparr>"

definition fu540_init :: "unit \<Rightarrow> unit" where
  "fu540_init u = ()"

definition fu540_model :: string where
  "fu540_model = ''FU540''"


section \<open>Lemmas\<close>

text \<open>after \<open>init\<close> the three spellings of the activity LED drive its line high or
  low; any other name returns "invalid LED" and changes nothing.\<close>

theorem board_led_after_init:
  "pizero_init gpio_ok st = Inr st' \<Longrightarrow>
   board_led name on st' =
     (if name \<in> {''activity'', ''Activity'', ''ACTIVITY''}
      then Inr (None, st'\<lparr>led_io := led_io st' @ [if on then LedHigh ACTIVITY else LedLow ACTIVITY]\<rparr>)
      else Inr (Some ''invalid LED'', st'))"
  by (auto simp: pizero_init_def board_led_def split: if_splits)

text \<open>C37: on the hardware, \<open>init\<close> pulls down both write-protect pads before it
  initialises the two controllers, which are its last operations, and installs the
  low-voltage hooks exactly on \<open>\<gamma>\<close> boards.\<close>

theorem usbarmory_sd_init_order:
  assumes "native env" and "usbarmory_sd_init env st = Inr st'"
  shows "\<exists>es. sd_io st' = sd_io st @ es @ [UsdhcInit 1 SD_BUS_WIDTH, UsdhcInit 2 MMC_BUS_WIDTH] \<and>
    PadCtl IOMUXC_SW_PAD_CTL_PAD_CSI_DATA04 (push_bit (SW_PAD_CTL_PUE env) 1 OR push_bit (SW_PAD_CTL_PKE env) 1) \<in> set es \<and>
    PadCtl IOMUXC_SW_PAD_CTL_PAD_CSI_PIXCLK (push_bit (SW_PAD_CTL_PUE env) 1 OR push_bit (SW_PAD_CTL_PKE env) 1) \<in> set es \<and>
    (if board_model env = MODEL_GAMMA
     then sd_low_voltage st' = Some LowVoltageSD \<and> mmc_low_voltage st' = Some LowVoltageMMC
     else sd_low_voltage st' = sd_low_voltage st \<and> mmc_low_voltage st' = mmc_low_voltage st)"
proof -
  have "MODEL_BETA \<noteq> MODEL_GAMMA" by (simp add: MODEL_BETA_def MODEL_GAMMA_def)
  then show ?thesis using assms by (auto simp: usbarmory_sd_init_def Let_def split: if_splits)
qed

text \<open>C38: \<open>initRNG\<close> leaves the runtime without a random-data function exactly when it
  had none before and runs on hardware whose model is none of i.MX6UL, i.MX6ULL and
  i.MX6ULZ; on an i.MX6UL the DRBG is seeded from the CAAM before it is installed.\<close>

theorem init_rng_source:
  "(get_random_data_fn (init_rng env st) = None \<longleftrightarrow>
      get_random_data_fn st = None \<and> soc_native env \<and> soc_model env \<notin> {''i.MX6UL'', ''i.MX6ULL'', ''i.MX6ULZ''}) \<and>
   (get_random_data_fn (init_rng env st) = Some DRBGGetRandomData \<and> get_random_data_fn st \<noteq> Some DRBGGetRandomData \<longrightarrow>
      rng_io (init_rng env st) = rng_io st @ [CaamInit, CaamSeedDRBG])"
  by (auto simp: init_rng_def)

end
