(* ===== verification/ARM_Exceptions.thy ===== *)
theory ARM_Exceptions
  imports USB_Prelude
begin

text \<open>The ARM processor support of \<open>src/soc/nxp/usb/setup.go\<close> (lines 244--344, Go
  assembly): \<open>set_exc_stack\<close>, \<open>set_vbar\<close>, \<open>set_mvbar\<close>, the \<open>EXCEPTION\<close> macro and the
  exception handlers built from it.  The processor is an ARMv7-A core reduced to what
  these routines touch: the CPSR, the banked stack pointers, link registers and saved
  program status registers of the modes, the FIQ bank of \<open>R8\<close>--\<open>R12\<close>, word memory and
  the vector base registers.  A routine is the list of its instructions, in the order
  of the source; the hand-encoded \<open>WORD\<close>s are decoded by the instruction decoder.  The
  Go function the handlers call through \<open>runtime.CallOnG0\<close> is a parameter: it may not
  return (\<open>None\<close>), and when it returns it keeps the calling convention
  (\<open>g0_contract\<close>).\<close>

unbundle bit_operations_syntax

section \<open>Processor state\<close>

datatype mode = Usr | Fiq | Irq | Svc | Mon | Abt | Und | Sys

text \<open>The mode field \<open>CPSR[4:0]\<close> (ARM ARM B1.3.1); Hyp mode is not used by the code.\<close>

fun mode_bits :: "mode \<Rightarrow> u32" where
  "mode_bits Usr = 0x10"
| "mode_bits Fiq = 0x11"
| "mode_bits Irq = 0x12"
| "mode_bits Svc = 0x13"
| "mode_bits Mon = 0x16"
| "mode_bits Abt = 0x17"
| "mode_bits Und = 0x1b"
| "mode_bits Sys = 0x1f"

definition all_modes :: "mode list" where
  "all_modes = [Usr, Fiq, Irq, Svc, Mon, Abt, Und, Sys]"

definition mode_of :: "u32 \<Rightarrow> mode option" where
  "mode_of c = find (\<lambda>m. mode_bits m = c AND 0x1f) all_modes"

text \<open>User and System mode share their stack pointer and link register.\<close>

fun bank :: "mode \<Rightarrow> mode" where
  "bank Sys = Usr"
| "bank m = m"

record arm =
  cpsr :: u32
  spsr :: "mode \<Rightarrow> u32"
  gpr :: "nat \<Rightarrow> u32"
  gpr_fiq :: "nat \<Rightarrow> u32"
  sp_bank :: "mode \<Rightarrow> u32"
  lr_bank :: "mode \<Rightarrow> u32"
  arm_pc :: u32
  arm_mem :: "u32 \<Rightarrow> u32"
  vbar :: u32
  mvbar :: u32

text \<open>Register \<open>n\<close> as mode \<open>m\<close> sees it: \<open>R13\<close> and \<open>R14\<close> are banked per mode,
  \<open>R8\<close>--\<open>R12\<close> have a second copy in FIQ mode.\<close>

definition get_reg :: "mode \<Rightarrow> nat \<Rightarrow> arm \<Rightarrow> u32" where
  "get_reg m n st =
     (if n = 13 then sp_bank st (bank m) else if n = 14 then lr_bank st (bank m)
      else if n = 15 then arm_pc st else if 8 \<le> n \<and> m = Fiq then gpr_fiq st n else gpr st n)"

definition set_reg :: "mode \<Rightarrow> nat \<Rightarrow> u32 \<Rightarrow> arm \<Rightarrow> arm" where
  "set_reg m n v st =
     (if n = 13 then st\<lparr>sp_bank := (sp_bank st)(bank m := v)\<rparr>
      else if n = 14 then st\<lparr>lr_bank := (lr_bank st)(bank m := v)\<rparr>
      else if n = 15 then st\<lparr>arm_pc := v\<rparr>
      else if 8 \<le> n \<and> m = Fiq then st\<lparr>gpr_fiq := (gpr_fiq st)(n := v)\<rparr>
      else st\<lparr>gpr := (gpr st)(n := v)\<rparr>)"

text \<open>Word memory: \<open>MOVM.DB.W\<close> stores its registers, lowest first, at ascending
  addresses; \<open>MOVM.IA.W\<close> loads them back.\<close>

fun store_words :: "u32 \<Rightarrow> u32 list \<Rightarrow> (u32 \<Rightarrow> u32) \<Rightarrow> u32 \<Rightarrow> u32" where
  "store_words a [] mem = mem"
| "store_words a (v # vs) mem = store_words (a + 4) vs (mem(a := v))"

definition load_words :: "u32 \<Rightarrow> nat \<Rightarrow> (u32 \<Rightarrow> u32) \<Rightarrow> u32 list" where
  "load_words a n mem = map (\<lambda>k. mem (a + 4 * of_nat k)) [0..<n]"

fun set_regs :: "mode \<Rightarrow> nat list \<Rightarrow> u32 list \<Rightarrow> arm \<Rightarrow> arm" where
  "set_regs m (n # ns) (v # vs) st = set_regs m ns vs (set_reg m n v st)"
| "set_regs m _ _ st = st"

section \<open>Instructions\<close>

text \<open>The two instruction forms the source writes as \<open>WORD\<close>s: \<open>MSR CPSR_<fields>, #imm\<close>
  and \<open>MRS Rd, <reg>_usr\<close> (ARM ARM A8.8.104 and B9.3.9, encoding A1, condition AL).\<close>

datatype op = MsrImm u32 u32 | MrsUsr nat nat

definition decode :: "u32 \<Rightarrow> op option" where
  "decode w =
     (if w AND 0xfff0f000 = 0xe320f000 \<and> drop_bit 16 w AND 0xf \<noteq> 0 then
        Some (MsrImm (drop_bit 16 w AND 0xf) (word_rotr (2 * unat (drop_bit 8 w AND 0xf)) (w AND 0xff)))
      else if w AND 0xfff00fff = 0xe1000200 \<and> drop_bit 16 w AND 0xf \<le> 6 then
        Some (MrsUsr (8 + unat (drop_bit 16 w AND 0xf)) (unat (drop_bit 12 w AND 0xf)))
      else None)"

text \<open>The Go assembler instructions of the routines, named after their Go syntax.\<close>

datatype instr =
    MovArg nat                 \<comment> \<open>\<open>MOVW addr+0(FP), Rd\<close>\<close>
  | Mov nat nat                \<comment> \<open>\<open>MOVW Rs, Rd\<close>\<close>
  | MovImm u32 nat             \<comment> \<open>\<open>MOVW $imm, Rd\<close>, also \<open>$sym(SB)\<close>\<close>
  | WORD u32                   \<comment> \<open>\<open>WORD $enc\<close>\<close>
  | Mcr nat nat                \<comment> \<open>\<open>MCR 15, 0, Rt, C12, C0, opc2\<close>\<close>
  | SubImm u32 nat nat         \<comment> \<open>\<open>SUB $imm, Rn, Rd\<close>\<close>
  | AddImm u32 nat nat         \<comment> \<open>\<open>ADD $imm, Rn, Rd\<close>\<close>
  | PushDB nat "nat list"      \<comment> \<open>\<open>MOVM.DB.W [regs], (Rn)\<close>\<close>
  | PopIA nat "nat list"       \<comment> \<open>\<open>MOVM.IA.W (Rn), [regs]\<close>\<close>
  | CallG0                     \<comment> \<open>\<open>CALL runtime\<cdot>CallOnG0(SB)\<close>\<close>
  | MovS nat                   \<comment> \<open>\<open>MOVW.S Rs, R15\<close>\<close>
  | Ret                        \<comment> \<open>\<open>RET\<close>\<close>

text \<open>What the routines call: the address of \<open>systemException\<close>, the return address of
  the \<open>CALL\<close>, and the effect of \<open>CallOnG0\<close> with the Go handler (\<open>None\<close>: it does
  not return, as a panic).\<close>

record arm_env =
  system_exception :: u32
  call_ret :: u32
  call_on_g0 :: "arm \<Rightarrow> arm option"

text \<open>\<open>MSR\<close> writes the bytes of the CPSR its field mask selects; in User mode only
  the flags byte.\<close>

definition field_mask :: "mode \<Rightarrow> u32 \<Rightarrow> u32" where
  "field_mask m k =
     (if bit k 0 \<and> m \<noteq> Usr then 0xff else 0) OR (if bit k 1 \<and> m \<noteq> Usr then 0xff00 else 0) OR
     (if bit k 2 \<and> m \<noteq> Usr then 0xff0000 else 0) OR (if bit k 3 then 0xff000000 else 0)"

fun exec_op :: "mode \<Rightarrow> op \<Rightarrow> arm \<Rightarrow> arm option" where
  "exec_op m (MsrImm k v) st =
     Some (st\<lparr>cpsr := (cpsr st AND NOT (field_mask m k)) OR (v AND field_mask m k)\<rparr>)"
| "exec_op m (MrsUsr r rd) st =
     (if m \<in> {Usr, Sys} \<or> rd = 15 then None else Some (set_reg m rd (get_reg Usr r st) st))"

fun exec_instr :: "arm_env \<Rightarrow> u32 \<Rightarrow> mode \<Rightarrow> instr \<Rightarrow> arm \<Rightarrow> arm option" where
  "exec_instr env arg m (MovArg rd) st = Some (set_reg m rd arg st)"
| "exec_instr env arg m (Mov rs rd) st = Some (set_reg m rd (get_reg m rs st) st)"
| "exec_instr env arg m (MovImm v rd) st = Some (set_reg m rd v st)"
| "exec_instr env arg m (WORD w) st = (case decode w of None \<Rightarrow> None | Some d \<Rightarrow> exec_op m d st)"
| "exec_instr env arg m (Mcr rt opc2) st =
     (if m = Usr then None
      else if opc2 = 0 then Some (st\<lparr>vbar := get_reg m rt st\<rparr>)
      else if opc2 = 1 then Some (st\<lparr>mvbar := get_reg m rt st\<rparr>)
      else None)"
| "exec_instr env arg m (SubImm v rn rd) st = Some (set_reg m rd (get_reg m rn st - v) st)"
| "exec_instr env arg m (AddImm v rn rd) st = Some (set_reg m rd (get_reg m rn st + v) st)"
| "exec_instr env arg m (PushDB rn rs) st =
     (let start = get_reg m rn st - 4 * of_nat (length rs)
      in Some (set_reg m rn start
           (st\<lparr>arm_mem := store_words start (map (\<lambda>r. get_reg m r st) rs) (arm_mem st)\<rparr>)))"
| "exec_instr env arg m (PopIA rn rs) st =
     (let base = get_reg m rn st
      in Some (set_reg m rn (base + 4 * of_nat (length rs))
           (set_regs m rs (load_words base (length rs) (arm_mem st)) st)))"
| "exec_instr env arg m CallG0 st = call_on_g0 env (set_reg m 14 (call_ret env) st)"
| "exec_instr env arg m (MovS rs) st =
     (if m \<in> {Usr, Sys} then None else Some (st\<lparr>arm_pc := get_reg m rs st, cpsr := spsr st m\<rparr>))"
| "exec_instr env arg m Ret st = Some (st\<lparr>arm_pc := get_reg m 14 st\<rparr>)"

definition step :: "arm_env \<Rightarrow> u32 \<Rightarrow> instr \<Rightarrow> arm \<Rightarrow> arm option" where
  "step env arg i st = (case mode_of (cpsr st) of None \<Rightarrow> None | Some m \<Rightarrow> exec_instr env arg m i st)"

fun exec :: "arm_env \<Rightarrow> u32 \<Rightarrow> instr list \<Rightarrow> arm \<Rightarrow> arm option" where
  "exec env arg [] st = Some st"
| "exec env arg (i # is) st = (case step env arg i st of None \<Rightarrow> None | Some st' \<Rightarrow> exec env arg is st')"

section \<open>The routines\<close>

text \<open>\<open>set_exc_stack\<close> (lines 256--283): the stack pointer of the IRQ, Supervisor,
  Monitor, Abort and Undefined modes, then back to System mode.\<close>

definition set_exc_stack :: "instr list" where
  "set_exc_stack =
     [MovArg 0,
      WORD 0xe321f0d2, Mov 0 13,
      WORD 0xe321f0d3, Mov 0 13,
      WORD 0xe321f0d6, Mov 0 13,
      WORD 0xe321f0d7, Mov 0 13,
      WORD 0xe321f0db, Mov 0 13,
      WORD 0xe321f0df,
      Ret]"



text \<open>The \<open>EXCEPTION\<close> macro (lines 297--319).\<close>

definition EXCEPTION :: "u32 \<Rightarrow> u32 \<Rightarrow> u32 \<Rightarrow> nat \<Rightarrow> u32 \<Rightarrow> instr list" where
  "EXCEPTION off fn lroff rn save_size =
     [WORD 0xe105d200,
      SubImm lroff 14 14,
      PushDB 13 ([0..<Suc rn] @ [14]),
      MovImm off 0, MovImm fn 1, MovImm save_size 2, Mov 14 3,
      CallG0,
      PopIA 13 ([0..<Suc rn] @ [14]),
      AddImm lroff 14 14,
      MovS 14]"

text \<open>The vector offsets of tamago's \<open>arm\<close> package (\<open>const_RESET\<close>, ...), which is not
  under \<open>src/\<close>: the offsets of the ARM vector table.\<close>

abbreviation (input) RESET :: u32 where "RESET \<equiv> 0x0"
abbreviation (input) UNDEFINED :: u32 where "UNDEFINED \<equiv> 0x4"
abbreviation (input) SUPERVISOR :: u32 where "SUPERVISOR \<equiv> 0x8"
abbreviation (input) PREFETCH_ABORT :: u32 where "PREFETCH_ABORT \<equiv> 0xc"
abbreviation (input) DATA_ABORT :: u32 where "DATA_ABORT \<equiv> 0x10"
abbreviation (input) IRQ :: u32 where "IRQ \<equiv> 0x18"
abbreviation (input) FIQ :: u32 where "FIQ \<equiv> 0x1c"

text \<open>The handlers (lines 321--344): vector offset, LR offset, last saved register and
  save size of each \<open>EXCEPTION\<close> line, and \<open>nullHandler\<close>.\<close>

definition handler_table :: "(u32 \<times> u32 \<times> nat \<times> u32) list" where
  "handler_table =
     [(RESET, 0, 12, 56), (UNDEFINED, 4, 12, 56), (SUPERVISOR, 0, 12, 56),
      (PREFETCH_ABORT, 4, 12, 56), (DATA_ABORT, 8, 12, 56), (IRQ, 4, 12, 56), (FIQ, 4, 7, 36)]"

definition handler :: "arm_env \<Rightarrow> u32 \<times> u32 \<times> nat \<times> u32 \<Rightarrow> instr list" where
  "handler env h = (case h of (off, lroff, rn, save_size) \<Rightarrow> EXCEPTION off (system_exception env) lroff rn save_size)"

definition nullHandler :: "instr list" where
  "nullHandler = [MovS 14]"

text \<open>The mode the processor enters for each vector (ARM ARM B1.8.1).\<close>

definition vector_mode :: "u32 \<Rightarrow> mode" where
  "vector_mode off =
     (if off = UNDEFINED then Und else if off = PREFETCH_ABORT \<or> off = DATA_ABORT then Abt
      else if off = IRQ then Irq else if off = FIQ then Fiq else Svc)"

text \<open>The contract of a Go call: it returns in the same mode with the same stack pointers,
  saved status registers and User link register, it keeps the 16 words above the
  stack pointer (the caller's frame), and it leaves the registers the current mode does
  not see (in FIQ mode, the User copies of \<open>R8\<close>--\<open>R12\<close>) alone.\<close>

definition g0_contract :: "arm_env \<Rightarrow> bool" where
  "g0_contract env \<longleftrightarrow>
     (\<forall>st st' m. mode_of (cpsr st) = Some m \<longrightarrow> call_on_g0 env st = Some st' \<longrightarrow>
        cpsr st' = cpsr st \<and> spsr st' = spsr st \<and> sp_bank st' = sp_bank st \<and>
        lr_bank st' Usr = lr_bank st Usr \<and>
        (\<forall>k < 16. arm_mem st' (sp_bank st (bank m) + 4 * of_nat k) = arm_mem st (sp_bank st (bank m) + 4 * of_nat k)) \<and>
        (m = Fiq \<longrightarrow> (\<forall>i. 8 \<le> i \<longrightarrow> gpr st' i = gpr st i)))"

definition g0_returns :: "arm_env \<Rightarrow> bool" where
  "g0_returns env \<longleftrightarrow> (\<forall>st. call_on_g0 env st \<noteq> None)"

section \<open>Lemmas\<close>

named_theorems arm_simps "how the instructions of the routines act on the processor state"

lemma word_rotr_zero [simp]: "word_rotr 0 (w :: 'a::len word) = w"
  by (rule bit_word_eqI) (simp add: bit_word_rotr_iff)

lemma decode_lits [arm_simps]:
  "decode 0xe321f0d2 = Some (MsrImm 1 0xd2)"
  "decode 0xe321f0d3 = Some (MsrImm 1 0xd3)"
  "decode 0xe321f0d6 = Some (MsrImm 1 0xd6)"
  "decode 0xe321f0d7 = Some (MsrImm 1 0xd7)"
  "decode 0xe321f0db = Some (MsrImm 1 0xdb)"
  "decode 0xe321f0df = Some (MsrImm 1 0xdf)"
  "decode 0xe105d200 = Some (MrsUsr 13 13)"
  by (simp_all add: decode_def)

lemma bit_low_masks:
  "bit (31::int) n \<longleftrightarrow> n < 5" "bit (255::int) n \<longleftrightarrow> n < 8" "bit (-256::int) n \<longleftrightarrow> 8 \<le> n"
proof -
  have m: "bit (mask k :: int) n \<longleftrightarrow> n < k" for k by (simp add: bit_mask_iff)
  show "bit (31::int) n \<longleftrightarrow> n < 5" using m [of 5] by (simp add: mask_eq_exp_minus_1)
  show "bit (255::int) n \<longleftrightarrow> n < 8" using m [of 8] by (simp add: mask_eq_exp_minus_1)
  have "bit (-256::int) n = bit (NOT 255 :: int) n" by simp
  also have "\<dots> \<longleftrightarrow> \<not> bit (255::int) n" by (simp only: bit_not_iff_eq) simp
  finally show "bit (-256::int) n \<longleftrightarrow> 8 \<le> n" using m [of 8] by (simp add: mask_eq_exp_minus_1 not_less)
qed
lemma msr_c_low [simp]: "((c AND -256) OR v) AND 31 = (v AND 31 :: u32)"
  by (rule bit_word_eqI) (auto simp: bit_simps bit_low_masks)
lemma msr_c_twice [simp]:
  assumes h: "v AND -256 = 0"
  shows "((c AND -256) OR v) AND -256 = (c AND -256 :: u32)"
proof (rule bit_word_eqI)
  fix n assume n: "n < LENGTH(32)"
  have "\<not> (bit v n \<and> 8 \<le> n)" using arg_cong [of _ _ "\<lambda>x. bit x n", OF h] n by (auto simp: bit_simps bit_low_masks)
  then show "bit ((c AND -256 OR v) AND -256) n = bit (c AND -256) n" using n by (auto simp: bit_simps bit_low_masks)
qed
lemma mode_of_msr_c [simp]: "mode_of ((c AND -256) OR v) = mode_of v"
  by (simp add: mode_of_def)

lemma mode_of_lits [arm_simps]:
  "mode_of 0xd2 = Some Irq" "mode_of 0xd3 = Some Svc" "mode_of 0xd6 = Some Mon"
  "mode_of 0xd7 = Some Abt" "mode_of 0xdb = Some Und" "mode_of 0xdf = Some Sys"
  by (simp_all add: mode_of_def all_modes_def)

lemma field_mask_c [simp]: "m \<noteq> Usr \<Longrightarrow> field_mask m 1 = 0xff"
  by (simp add: field_mask_def)

lemma bank_exc [simp]: "m \<noteq> Sys \<Longrightarrow> bank m = m"
  by (cases m) auto

lemma set_reg_fields [simp]:
  "cpsr (set_reg m n v st) = cpsr st"
  "spsr (set_reg m n v st) = spsr st"
  "arm_mem (set_reg m n v st) = arm_mem st"
  "vbar (set_reg m n v st) = vbar st"
  "mvbar (set_reg m n v st) = mvbar st"
  by (simp_all add: set_reg_def)

lemma get_set_reg [simp]:
  "get_reg m n (set_reg m n' v st) = (if n = n' then v else get_reg m n st)"
  by (auto simp: get_reg_def set_reg_def)

lemma gpr_set_reg:
  "gpr (set_reg m n v st) i = (if n = i \<and> n \<notin> {13, 14, 15} \<and> \<not> (8 \<le> n \<and> m = Fiq) then v else gpr st i)"
  by (auto simp: set_reg_def)

lemma gpr_set_reg_banked [simp]:
  "gpr (set_reg m 13 v st) = gpr st" "gpr (set_reg m 14 v st) = gpr st"
  by (simp_all add: set_reg_def)

lemma sp_bank_set_reg:
  "sp_bank (set_reg m n v st) m' = (if n = 13 \<and> bank m = m' then v else sp_bank st m')"
  by (auto simp: set_reg_def)

lemma lr_bank_set_reg:
  "lr_bank (set_reg m n v st) m' = (if n = 14 \<and> bank m = m' then v else lr_bank st m')"
  by (auto simp: set_reg_def)

lemma get_reg_gpr: "i < 13 \<Longrightarrow> i < 8 \<or> m \<noteq> Fiq \<Longrightarrow> get_reg m i st = gpr st i"
  by (auto simp: get_reg_def)

lemma set_regs_fields [simp]:
  "cpsr (set_regs m ns vs st) = cpsr st"
  "spsr (set_regs m ns vs st) = spsr st"
  "arm_mem (set_regs m ns vs st) = arm_mem st"
  by (induction m ns vs st rule: set_regs.induct) simp_all

lemma gpr_set_regs_fiq: "8 \<le> i \<Longrightarrow> gpr (set_regs Fiq ns vs st) i = gpr st i"
  by (induction Fiq ns vs st rule: set_regs.induct) (auto simp: gpr_set_reg)

lemma get_set_regs:
  "distinct ns \<Longrightarrow> get_reg m n (set_regs m ns vs st) =
     (case map_of (zip ns vs) n of Some v \<Rightarrow> v | None \<Rightarrow> get_reg m n st)"
proof (induction m ns vs st rule: set_regs.induct)
  case (1 m n0 ns v vs st)
  then have "n0 \<notin> set ns" by simp
  then have "map_of (zip ns vs) n0 = None"
    by (auto simp: map_of_eq_None_iff dest: set_zip_leftD)
  with 1 show ?case by (auto split: option.splits)
qed simp_all

lemma four_times_nonzero: "j < 2 ^ 30 \<Longrightarrow> 0 < j \<Longrightarrow> (4 * of_nat j :: u32) \<noteq> 0"
proof -
  assume "j < 2 ^ 30" "0 < j"
  then have u: "unat (of_nat (4 * j) :: u32) = 4 * j" by (subst unat_of_nat) simp
  show ?thesis
  proof
    assume "4 * of_nat j = (0 :: u32)"
    then have "unat (of_nat (4 * j) :: u32) = 0" by simp
    with u \<open>0 < j\<close> show False by simp
  qed
qed

lemma store_words_outside:
  "(\<forall>j < length vs. x \<noteq> a + 4 * of_nat j) \<Longrightarrow> store_words a vs mem x = mem x"
proof (induction vs arbitrary: a mem)
  case (Cons v vs)
  have "\<forall>j < length vs. x \<noteq> (a + 4) + 4 * of_nat j"
  proof (intro allI impI)
    fix j assume "j < length vs"
    then have "Suc j < length (v # vs)" by simp
    with Cons.prems have "x \<noteq> a + 4 * of_nat (Suc j)" by blast
    then show "x \<noteq> (a + 4) + 4 * of_nat j" by (simp add: algebra_simps)
  qed
  moreover have "x \<noteq> a + 4 * of_nat 0" using Cons.prems by (metis length_Cons zero_less_Suc)
  then have "x \<noteq> a" by simp
  ultimately show ?case using Cons.IH by simp
qed simp

lemma store_words_read:
  "length vs < 2 ^ 30 \<Longrightarrow> k < length vs \<Longrightarrow> store_words a vs mem (a + 4 * of_nat k) = vs ! k"
proof (induction vs arbitrary: a k mem)
  case (Cons v vs)
  show ?case
  proof (cases k)
    case 0
    have "\<forall>j < length vs. a \<noteq> (a + 4) + 4 * of_nat j"
    proof (intro allI impI)
      fix j assume "j < length vs"
      then have "(4 * of_nat (Suc j) :: u32) \<noteq> 0" using Cons.prems(1)
        by (intro four_times_nonzero) simp_all
      then show "a \<noteq> (a + 4) + 4 * of_nat j" by (simp add: algebra_simps)
    qed
    then have "store_words (a + 4) vs (mem(a := v)) a = (mem(a := v)) a"
      by (rule store_words_outside)
    with 0 show ?thesis by simp
  next
    case (Suc k')
    then have eq: "a + 4 * of_nat k = (a + 4) + 4 * of_nat k'" by (simp add: algebra_simps)
    have "store_words a (v # vs) mem (a + 4 * of_nat k) =
        store_words (a + 4) vs (mem(a := v)) ((a + 4) + 4 * of_nat k')"
      by (simp only: eq store_words.simps)
    also have "\<dots> = vs ! k'" by (rule Cons.IH) (use Cons.prems Suc in simp_all)
    finally show ?thesis by (simp only: Suc nth_Cons_Suc)
  qed
qed simp

lemma load_store_words:
  "length vs < 2 ^ 30 \<Longrightarrow> load_words a (length vs) (store_words a vs mem) = vs"
  unfolding load_words_def by (rule nth_equalityI) (simp_all add: store_words_read)

lemma get_reg_banked [simp]:
  "get_reg m 13 st = sp_bank st (bank m)" "get_reg m 14 st = lr_bank st (bank m)"
  by (simp_all add: get_reg_def)

lemma exec_step: "step env arg i st = Some st' \<Longrightarrow> exec env arg (i # is) st = exec env arg is st'"
  by simp

lemma set_regs_banks:
  "13 \<notin> set ns \<Longrightarrow> sp_bank (set_regs m ns vs st) = sp_bank st"
  "bank m \<noteq> m' \<Longrightarrow> lr_bank (set_regs m ns vs st) m' = lr_bank st m'"
  by (induction m ns vs st rule: set_regs.induct) (auto simp: set_reg_def)

lemma get_set_regs_map:
  "distinct ns \<Longrightarrow> length vs = length ns \<Longrightarrow> n \<in> set ns \<Longrightarrow>
     vs = map f ns \<Longrightarrow> get_reg m n (set_regs m ns vs st) = f n"
  by (simp add: get_set_regs map_of_zip_map)

lemma g0_contractD:
  assumes "g0_contract env" "mode_of (cpsr st) = Some m" "call_on_g0 env st = Some st'"
  shows "cpsr st' = cpsr st" "spsr st' = spsr st" "sp_bank st' = sp_bank st"
    "lr_bank st' Usr = lr_bank st Usr"
    "k < 16 \<Longrightarrow> arm_mem st' (sp_bank st (bank m) + 4 * of_nat k) = arm_mem st (sp_bank st (bank m) + 4 * of_nat k)"
    "m = Fiq \<Longrightarrow> 8 \<le> i \<Longrightarrow> gpr st' i = gpr st i"
  using assms unfolding g0_contract_def by blast+

text \<open>A run of an \<open>EXCEPTION\<close> handler, state by state.\<close>

lemma EXCEPTION_run:
  fixes off fn lroff save :: u32
  assumes m: "mode_of (cpsr st) = Some m" "m \<notin> {Usr, Sys}"
    and rn: "rn \<le> 12"
    and g: "g0_contract env" "g0_returns env"
  defines "regs \<equiv> [0..<Suc rn] @ [14]"
  defines "st2 \<equiv> set_reg m 14 (lr_bank st m - lroff) (set_reg m 13 (sp_bank st Usr) st)"
  defines "start \<equiv> sp_bank st Usr - 4 * of_nat (length regs)"
  defines "vals \<equiv> map (\<lambda>r. get_reg m r st2) regs"
  defines "stc \<equiv> set_reg m 14 (call_ret env) (set_reg m 3 (lr_bank st m - lroff) (set_reg m 2 save
             (set_reg m (Suc 0) fn (set_reg m 0 off (set_reg m 13 start (st2\<lparr>arm_mem := store_words start vals (arm_mem st2)\<rparr>))))))"
  shows "\<exists>str. call_on_g0 env stc = Some str \<and>
     cpsr str = cpsr st \<and> spsr str = spsr st \<and> sp_bank str = sp_bank stc \<and>
     lr_bank str Usr = lr_bank st Usr \<and> (m = Fiq \<longrightarrow> (\<forall>i. 8 \<le> i \<longrightarrow> gpr str i = gpr stc i)) \<and>
     exec env arg (EXCEPTION off fn lroff rn save) st =
       Some (let st9 = set_reg m 13 (start + 4 * of_nat (length regs)) (set_regs m regs vals str)
             in (set_reg m 14 (lr_bank st9 m + lroff) st9)\<lparr>arm_pc := lr_bank st9 m + lroff, cpsr := spsr st9 m\<rparr>)"
proof -
  have bm: "bank m = m" using m(2) by simp
  obtain str where str: "call_on_g0 env stc = Some str" using g(2) by (auto simp: g0_returns_def)
  have c: "cpsr stc = cpsr st" "sp_bank stc m = start"
    using m(2) by (simp_all add: stc_def st2_def sp_bank_set_reg)
  have len: "length vals = length regs" "length regs < 2 ^ 30" using rn by (simp_all add: vals_def regs_def)
  have mc: "mode_of (cpsr stc) = Some m" using c(1) m(1) by simp
  note gc = g0_contractD [OF g(1) mc str]
  have cs: "cpsr str = cpsr st" "sp_bank str m = start" using gc(1,3) c by simp_all
  have fr: "\<forall>k < 16. arm_mem str (start + 4 * of_nat k) = arm_mem stc (start + 4 * of_nat k)"
    using gc(5) c(2) bm by simp
  have "load_words start (length regs) (arm_mem str) = load_words start (length regs) (arm_mem stc)"
    unfolding load_words_def
  proof (rule map_cong [OF refl])
    fix k assume "k \<in> set [0..<length regs]"
    then have "k < 16" using rn by (auto simp: regs_def)
    then show "arm_mem str (start + 4 * of_nat k) = arm_mem stc (start + 4 * of_nat k)" using fr by blast
  qed
  also have "\<dots> = vals" using load_store_words [OF len(2) [folded len(1)]] len(1)
    by (simp add: stc_def)
  finally have load: "load_words start (length regs) (arm_mem str) = vals" .
  have c2: "cpsr st2 = cpsr st" "sp_bank st2 m = sp_bank st Usr" "lr_bank st2 m = lr_bank st m - lroff"
    using bm by (simp_all add: st2_def sp_bank_set_reg lr_bank_set_reg)
  have "spsr str = spsr st" "lr_bank str Usr = lr_bank st Usr"
    using gc(2,4) m(2) by (simp_all add: stc_def st2_def lr_bank_set_reg)
  moreover have "m = Fiq \<longrightarrow> (\<forall>i. 8 \<le> i \<longrightarrow> gpr str i = gpr stc i)" using gc(6) by blast
  moreover have "exec env arg (EXCEPTION off fn lroff rn save) st =
       Some (let st9 = set_reg m 13 (start + 4 * of_nat (length regs)) (set_regs m regs vals str)
             in (set_reg m 14 (lr_bank st9 m + lroff) st9)\<lparr>arm_pc := lr_bank st9 m + lroff, cpsr := spsr st9 m\<rparr>)"
    using m str cs load bm c2
    by (simp add: sp_bank_set_reg lr_bank_set_reg EXCEPTION_def regs_def [symmetric] step_def arm_simps Let_def stc_def [symmetric]
                  st2_def [symmetric] start_def [symmetric] vals_def [symmetric] del: upt.simps)
  ultimately show ?thesis using str cs(1) gc(3)
    by - (rule exI [of _ str], intro conjI, assumption+)
qed

lemma gpr_fiq_preserved:
  "8 \<le> i \<Longrightarrow> gpr (set_reg Fiq n v st) i = gpr st i"
  by (auto simp: gpr_set_reg)

lemma EXCEPTION_restores:
  fixes off fn lroff save :: u32
  assumes m: "mode_of (cpsr st) = Some m" "m \<notin> {Usr, Sys}"
    and rn: "rn = 12 \<or> rn = 7 \<and> m = Fiq"
    and g: "g0_contract env" "g0_returns env"
  defines "regs \<equiv> [0..<Suc rn] @ [14]"
  defines "st2 \<equiv> set_reg m 14 (lr_bank st m - lroff) (set_reg m 13 (sp_bank st Usr) st)"
  defines "start \<equiv> sp_bank st Usr - 4 * of_nat (length regs)"
  defines "vals \<equiv> map (\<lambda>r. get_reg m r st2) regs"
  defines "stc \<equiv> set_reg m 14 (call_ret env) (set_reg m 3 (lr_bank st m - lroff) (set_reg m 2 save
             (set_reg m (Suc 0) fn (set_reg m 0 off (set_reg m 13 start (st2\<lparr>arm_mem := store_words start vals (arm_mem st2)\<rparr>))))))"
  shows "\<exists>st'. exec env arg (EXCEPTION off fn lroff rn save) st = Some st' \<and>
     (\<forall>i<13. gpr st' i = gpr st i) \<and> cpsr st' = spsr st m \<and> arm_pc st' = lr_bank st m \<and>
     lr_bank st' m = lr_bank st m \<and> sp_bank st' m = sp_bank st Usr \<and>
     sp_bank st' Usr = sp_bank st Usr \<and> lr_bank st' Usr = lr_bank st Usr"
proof -
  have bm: "bank m = m" using m(2) by simp
  have rn12: "rn \<le> 12" using rn by auto
  note run = EXCEPTION_run [where lroff = lroff and off = off and fn = fn and save = save and arg = arg,
      OF m rn12 g, folded regs_def, folded st2_def, folded start_def, folded vals_def, folded stc_def]
  obtain str where str: "cpsr str = cpsr st" "spsr str = spsr st" "sp_bank str = sp_bank stc"
      "lr_bank str Usr = lr_bank st Usr" "m = Fiq \<longrightarrow> (\<forall>i. 8 \<le> i \<longrightarrow> gpr str i = gpr stc i)"
    and ex: "exec env arg (EXCEPTION off fn lroff rn save) st =
       Some (let st9 = set_reg m 13 (start + 4 * of_nat (length regs)) (set_regs m regs vals str)
             in (set_reg m 14 (lr_bank st9 m + lroff) st9)\<lparr>arm_pc := lr_bank st9 m + lroff, cpsr := spsr st9 m\<rparr>)"
    using run by blast
  define st9 where "st9 = set_reg m 13 (start + 4 * of_nat (length regs)) (set_regs m regs vals str)"
  have regs: "distinct regs" "length vals = length regs" "13 \<notin> set regs" "14 \<in> set regs"
    using rn12 by (auto simp: regs_def vals_def)
  have lr9: "lr_bank st9 m = lr_bank st m - lroff"
    using get_set_regs_map [where st = str and m = m, OF regs(1,2,4) vals_def [THEN meta_eq_to_obj_eq]] bm
    by (simp add: st9_def lr_bank_set_reg st2_def)
  have gpr9: "gpr st9 i = gpr st i" if "i < 13" for i
  proof (cases "m = Fiq \<and> 8 \<le> i")
    case True
    then have "gpr st9 i = gpr stc i" using str(5) by (simp add: st9_def gpr_set_reg gpr_set_regs_fiq)
    also have "\<dots> = gpr st i" using True by (simp add: stc_def st2_def gpr_fiq_preserved)
    finally show ?thesis .
  next
    case False
    then have vis: "i < 8 \<or> m \<noteq> Fiq" by auto
    have "i \<in> set regs" using False rn that by (auto simp: regs_def)
    then have "get_reg m i (set_regs m regs vals str) = get_reg m i st2"
      using get_set_regs_map [where m = m, OF regs(1,2) _ vals_def [THEN meta_eq_to_obj_eq]] by blast
    then show ?thesis using that vis
      by (simp add: st9_def gpr_set_reg get_reg_gpr [symmetric] st2_def)
  qed
  show ?thesis
  proof (intro exI conjI allI impI)
    show "exec env arg (EXCEPTION off fn lroff rn save) st = Some ((set_reg m 14 (lr_bank st9 m + lroff) st9)
        \<lparr>arm_pc := lr_bank st9 m + lroff, cpsr := spsr st9 m\<rparr>)"
      using ex by (simp add: st9_def Let_def)
  qed (use lr9 gpr9 str bm m(2) in \<open>simp_all add: st9_def stc_def st2_def start_def sp_bank_set_reg
         lr_bank_set_reg set_regs_banks regs(3)\<close>)
qed

lemma vector_mode_table:
  "h \<in> set handler_table \<Longrightarrow>
     vector_mode (fst h) \<notin> {Usr, Sys} \<and>
     (fst (snd (snd h)) = 12 \<or> fst (snd (snd h)) = 7 \<and> vector_mode (fst h) = Fiq)"
  by (auto simp: handler_table_def vector_mode_def)

section \<open>Properties\<close>

text \<open>C26: every exception handler of the table, entered in the mode of its vector and
  calling a Go handler that keeps the calling convention and returns, returns to the
  link register of that mode with the CPSR restored from the SPSR and the registers
  \<open>R0\<close>--\<open>R12\<close>, the stack pointer and the link register of the interrupted code
  unchanged; its own stack pointer is left at the interrupted code's.\<close>

theorem handlers_restore:
  assumes "g0_contract env" "g0_returns env" "h \<in> set handler_table"
    and "mode_of (cpsr st) = Some (vector_mode (fst h))"
  shows "\<exists>st'. exec env arg (handler env h) st = Some st' \<and> (\<forall>i<13. gpr st' i = gpr st i) \<and>
     cpsr st' = spsr st (vector_mode (fst h)) \<and> arm_pc st' = lr_bank st (vector_mode (fst h)) \<and>
     sp_bank st' Usr = sp_bank st Usr \<and> lr_bank st' Usr = lr_bank st Usr \<and>
     sp_bank st' (vector_mode (fst h)) = sp_bank st Usr"
proof -
  obtain off lroff rn save where h: "h = (off, lroff, rn, save)" by (cases h)
  have v: "vector_mode off \<notin> {Usr, Sys}" "rn = 12 \<or> rn = 7 \<and> vector_mode off = Fiq"
    using vector_mode_table [OF assms(3)] by (simp_all add: h)
  have m: "mode_of (cpsr st) = Some (vector_mode off)" using assms(4) by (simp add: h)
  from EXCEPTION_restores [where off = off and fn = "system_exception env" and lroff = lroff and save = save
      and arg = arg, OF m v assms(1,2)]
  show ?thesis unfolding h handler_def by auto
qed


text \<open>C28: \<open>set_exc_stack\<close>, called in a privileged mode, sets the stack pointer of the IRQ,
  Supervisor, Monitor, Abort and Undefined modes to its argument and leaves the FIQ and
  User/System ones alone; it returns in System mode with IRQ and FIQ masked (control
  byte \<open>0xdf\<close>), through the System-mode link register.\<close>

theorem set_exc_stack_banks:
  assumes "mode_of (cpsr st) = Some m" and "m \<noteq> Usr"
  shows "\<exists>st'. exec env addr set_exc_stack st = Some st' \<and>
     sp_bank st' Irq = addr \<and> sp_bank st' Svc = addr \<and> sp_bank st' Mon = addr \<and>
     sp_bank st' Abt = addr \<and> sp_bank st' Und = addr \<and>
     sp_bank st' Fiq = sp_bank st Fiq \<and> sp_bank st' Usr = sp_bank st Usr \<and>
     cpsr st' = (cpsr st AND NOT 0xff) OR 0xdf \<and> arm_pc st' = lr_bank st Usr \<and>
     gpr st' = (gpr st)(0 := addr) \<and> lr_bank st' = lr_bank st \<and> arm_mem st' = arm_mem st"
  using assms by (simp add: set_exc_stack_def step_def arm_simps set_reg_def get_reg_def)


end
