(* ===== verification/Spec2Isabelle.thy ===== *)
theory Spec2Isabelle
  imports DeviceLoop HID BLE DCP MiniUART Reg64 Boards ARM_Exceptions
begin

text \<open>
  A model of the tamago drivers under \<open>src/\<close>: the USB device-controller driver of the
  NXP i.MX6 (\<open>src/soc/nxp/usb/device.go\<close>, \<open>src/soc/nxp/usb/setup.go\<close> and the driver
  half of \<open>src/unnamed/part_004\<close>, lines 1--435), the Bluetooth module control of the
  USB armory Mk II (\<open>ble.go\<close>), the key management of the Data Co-Processor and the
  64-bit register accessors (\<open>part_004\<close> lines 496--613), the ARM exception
  vectors and stack set-up (the assembly at the end of \<open>setup.go\<close>), and the board code of
  \<open>part_000\<close> to \<open>part_003\<close> (LEDs, SD/MMC, RNG, the BCM2835 mini UART, the SiFive
  FU540, the HID keyboard descriptor), with the theorems that make them correct.

  \<^bold>\<open>The program.\<close>  The USB driver keeps one queue head (dQH) per endpoint and
  direction in a DMA list whose address it publishes to the controller; a transfer
  copies the caller's buffer to DMA memory, cuts it into transfer descriptors (dTD) of
  at most 20480 bytes, links and primes them, waits for the controller to complete
  them, reads each dTD token back and frees the DMA memory when it returns.  Endpoint 0
  carries the 8-byte setup packets that \<open>setup.go\<close> decodes and answers; the loop of
  \<open>Start\<close> restarts the endpoint goroutines after every \<open>SET_CONFIGURATION\<close>.  The
  board drivers configure pads and GPIO lines through \<open>soc/imx6\<close>, write peripheral
  registers and poll status bits; all of them act on the machine through packages
  that are not under \<open>src/\<close> (\<open>reg\<close>, \<open>dma\<close>, \<open>bits\<close>, \<open>imx6\<close>, \<open>bcm2835\<close>), which the
  model takes as parameters or event traces.

  \<^bold>\<open>Theories.\<close>
  \<^item> \<open>USB_Prelude\<close>: machine words (\<open>u8\<close>, \<open>u16\<close>, \<open>u32\<close>), the bit-field operations of
    tamago's \<open>bits\<close> package (\<open>bits_get\<close>, \<open>bits_set\<close>, \<open>bits_clear\<close>, \<open>bits_setN\<close>) and the
    little-endian codecs of \<open>encoding/binary\<close>, with their field and round-trip lemmas.
  \<^item> \<open>Hardware\<close>: tamago's \<open>reg\<close> and \<open>dma\<close> packages as operations on an explicit state
    (record \<open>usb\<close>: a clock, an allocation counter, the trace of bus and DMA events, the
    queue-head list address and the address of each queue head).  What the device
    answers is a parameter \<open>hw_env\<close>: the value of every register at every time, when the
    channel of a running endpoint is closed, DMA memory, the allocator's addresses and
    how many polls fit in a number of milliseconds.  \<open>reg.Wait\<close> and \<open>reg.WaitSignal\<close>
    are \<open>partial_function (option)\<close>: \<open>None\<close> is a wait that never ends;
    \<open>reg.WaitFor\<close> polls \<open>polls env ms\<close> times.  Lemmas: every operation only extends
    the trace (\<open>frame\<close>, \<open>quiet\<close>), a wait ends with a read of the awaited value, and a
    wait returns once the device eventually shows that value (\<open>settles\<close>).
  \<^item> \<open>SetupPacket\<close>: \<open>SetupData\<close>, its wire codec, \<open>swap\<close> and \<open>trim\<close>.
  \<^item> \<open>QueueHead\<close>: the constants, \<open>dQH\<close> and its 64-byte image, \<open>initQH\<close>, \<open>set\<close>,
    \<open>enable\<close>, \<open>clear\<close>, \<open>qh\<close>, \<open>nextDTD\<close>, \<open>stall\<close>, \<open>reset\<close>; the field encodings (C11),
    the image (C12) and the layout of the queue-head list (C13).
  \<^item> \<open>TransferDescriptor\<close>: \<open>dTD\<close>, \<open>buildDTD\<close> and the chunking of a buffer
    (\<open>dtd_chunks\<close>, the loop header of \<open>transfer\<close>): the chunks cover the buffer (C9)
    and the token fields (C10).
  \<^item> \<open>TransferEngine\<close>: \<open>checkDTD\<close>, \<open>transfer\<close>, \<open>ack\<close>, \<open>tx\<close>, \<open>rx\<close>, the body of
    \<open>transfer\<close> split into the blocks of its source (\<open>prime_decision\<close>, \<open>prime_dtd\<close>,
    \<open>prime_loop\<close>, \<open>wait_inactive\<close>, \<open>wait_complete\<close>, \<open>copy_back\<close>); the safety
    theorem (C1: DMA memory is freed only after every descriptor was seen complete) and
    the liveness theorem (C2).
  \<^item> \<open>Dispatch\<close>: \<open>setup.go\<close> -- the device's descriptors and configuration state
    (record \<open>device\<close>), \<open>getSetup\<close>, \<open>getDescriptor\<close>, \<open>handleStandardSetup\<close>,
    \<open>handleClassSpecificSetup\<close>, the \<open>Setup\<close> override and \<open>handleSetup\<close>, every reply
    sent through \<open>tx\<close>/\<open>ack\<close>/\<open>stall\<close> of the engine.  Lemmas: the setup packet read
    from the queue head is the wire packet with its 16-bit fields swapped (C5), the
    replies and error paths of \<open>getDescriptor\<close> and of the standard requests
    (C15--C18), and that
    \<open>handleSetup\<close> drops every error of its handlers (C6).
  \<^item> \<open>DeviceLoop\<close>: \<open>device.go\<close> -- \<open>DeviceMode\<close>, the bus-reset check and the loop of
    \<open>Start\<close> as an \<open>inductive\<close> reachability relation over a record \<open>loop_state\<close> (the
    configuration the loop last loaded, the device, the hardware state, whether a cohort
    of endpoint goroutines is running, and the sequence of cohort events \<open>Stop\<close> /
    \<open>StartEps\<close>).  Lemmas: the invariant that at most one cohort runs and that it is
    the last one started (C3, by rule induction), the order of the events of one
    iteration (C4), and what \<open>DeviceMode\<close> writes (C14).
  \<^item> \<open>HID\<close>: the HID keyboard descriptor of \<open>part_003\<close> and its byte image.
  \<^item> \<open>IMX6\<close>: the interface of \<open>soc/imx6\<close> the board drivers share -- pads, GPIO lines,
    the events of a pad, line, UART, I2C or uSDHC call, and the parameter
    \<open>board_env\<close> (what \<open>NewPad\<close>/\<open>NewGPIO\<close> accept, line values, \<open>Model()\<close>,
    \<open>Native\<close>, the pad-control constants).
  \<^item> \<open>BLE\<close>: the USB armory Mk II Bluetooth module driver (\<open>ble.go\<close>) -- the \<open>ANNA\<close>
    struct with its mutex as a record, \<open>configureBLEPad\<close>, \<open>configureBLEGPIO\<close>, \<open>Init\<close>
    block by block, \<open>RTS\<close>, \<open>CTS\<close>, \<open>Reset\<close>, \<open>NormalMode\<close> and \<open>BootloaderMode\<close>; a
    result \<open>None\<close> is a call blocked on the mutex, \<open>Inl\<close> a panic.  Sequences of calls
    form the inductive relation \<open>ble_reach\<close>; lemmas: its invariant (C21), the deadlock
    of the two mode switches, which call \<open>Reset\<close> with the mutex held (C22), the reset
    pulse (C23), the swapped arguments of the DSR pad (C24) and when \<open>Init\<close> returns
    or panics (C25).
  \<^item> \<open>DCP\<close>: the key management of the Data Co-Processor driver (\<open>part_004\<close> lines
    496--589) -- \<open>setKeyData\<close> (its loop a \<open>function\<close> with a termination measure),
    \<open>SetKey\<close> and \<open>DeriveKey\<close>, register writes and DMA allocations as a trace, a
    panic as \<open>Inl\<close> with the events before it -- and the co-processor's key RAM as an
    abstract machine (\<open>key_ram\<close>, \<open>key_ram_run\<close>) with the specification of setting a
    key (\<open>set_key_spec\<close>).  Lemmas: the key words written are the key and each location
    selects its index and subword (C30), a short key panics part-way (C31), a nil key
    is read from address 0 (C32), the iRAM test of \<open>DeriveKey\<close> misses a region
    starting at \<open>IRAMStart\<close> (C33), what \<open>DeriveKey\<close> returns for a key slot and the
    order of its frees (C34), and the refinement: replaying the writes of
    \<open>setKeyData\<close> on the key RAM sets the key (C39).
  \<^item> \<open>MiniUART\<close>: the BCM2835 mini UART of \<open>part_002\<close> -- \<open>Init\<close>, \<open>Tx\<close> (its poll of
    the line-status register a \<open>partial_function (option)\<close>), \<open>Write\<close>, \<open>printk\<close> and
    \<open>setupGPIO\<close> on a register trace; the console is what the trace wrote to the I/O
    register.  Lemmas: under the liveness assumption \<open>tx_ready\<close> (the transmitter is
    eventually empty at every time) \<open>Write\<close> returns and appends its buffer to the
    console (C35); the function-select word sets pins 14 and 15 to ALT5 and keeps the
    others.
  \<^item> \<open>Reg64\<close>: \<open>Read64\<close>/\<open>Write64\<close> (\<open>part_004\<close> lines 605--613) on a byte memory with
    64-bit wrap-around addresses: a read after a write returns the value, and a write
    leaves every word 8 bytes away untouched (C36).
  \<^item> \<open>Boards\<close>: the pizero activity LED, the USB armory SD/MMC initialisation with its
    low-voltage hooks, \<open>initRNG\<close> of the i.MX6UL and the FU540 UART instances, as
    records of board state with event traces.  Lemmas: the LED works after \<open>init\<close> and
    panics on an unknown name, the order of the SD/MMC calls and the hooks only on
    the \<open>\<gamma>\<close> board (C37), and which random source the runtime gets (C38).
  \<^item> \<open>ARM_Exceptions\<close>: the Go assembly at the end of \<open>setup.go\<close> (lines 245--343) --
    \<open>set_exc_stack\<close>, \<open>set_vbar\<close>, \<open>set_mvbar\<close>, the \<open>EXCEPTION\<close> macro, the seven
    handlers built from it (\<open>handler_table\<close>, one row per \<open>TEXT\<close> line) and
    \<open>nullHandler\<close>, each the list of its instructions (\<open>instr\<close>), run by \<open>exec\<close> on an
    ARMv7-A core reduced to what they touch (record \<open>arm\<close>: CPSR, SPSR, SP and LR per
    mode, the FIQ copies of \<open>R8\<close>--\<open>R12\<close>, word memory, VBAR, MVBAR).  The
    hand-encoded \<open>WORD\<close>s are decoded by \<open>decode\<close> (MSR immediate, MRS banked
    register); \<open>runtime.CallOnG0\<close> with \<open>systemException\<close> is the parameter
    \<open>call_on_g0\<close>, constrained by \<open>g0_contract\<close> (the calling convention) and
    \<open>g0_returns\<close>.  Lemmas: every handler returns to the exception link register with
    the CPSR and \<open>R0\<close>--\<open>R12\<close>, \<open>SP_usr\<close>, \<open>LR_usr\<close> of the interrupted code restored
    (C26, through \<open>EXCEPTION_run\<close>, which follows a run state by state), the save
    size of each handler is the frame it pushes (C27), what \<open>set_exc_stack\<close> sets
    (C28), and \<open>set_vbar\<close>/\<open>set_mvbar\<close> fault in User mode (C29).
  \<^item> this theory: concrete devices and the witnesses of the theorems, the behaviours of
    the engine and of the loop that differ from what their documentation promises (C7,
    C8, C20), the HID report descriptor (C19) and the sizes of the wire images (C40).

  \<^bold>\<open>Bounds and fuel.\<close>  No fuel is used: the unbounded waits (\<open>reg.Wait\<close>,
  \<open>reg.WaitSignal\<close>, the poll of \<open>Tx\<close>) are partial functions and a theorem that a call
  returns is stated as \<open>\<exists>r. f ... = Some r\<close> under progress assumptions on the device
  (C2, C35).  Go's \<open>int\<close> is 32 bits on the ARM target, so the byte count of
  \<open>checkDTD\<close> is a \<open>u32\<close> read with \<open>sint\<close>; the slice \<open>buf[0:size]\<close> is taken with
  capacity equal to length, and so is the key slice of \<open>setKeyData\<close> (a slice past the
  length panics).  The loop of \<open>setKeyData\<close> terminates by the measure
  \<open>4 - subword\<close>; addresses of \<open>Read64\<close>/\<open>Write64\<close> are \<open>64 word\<close>, so the frame
  condition is stated on the wrapped distance \<open>b - a\<close>.  The mutexes of \<open>ble.go\<close>
  are modelled for one goroutine.

  The memory of \<open>ARM_Exceptions\<close> is a map from addresses to 32-bit words: the
  handlers only push and pop aligned words, at most 14 of them, so their addresses
  \<open>start + 4 * k\<close> are distinct (\<open>store_words_read\<close> holds below \<open>2^30\<close> words).

  \<^bold>\<open>Not modelled.\<close>  Logging; the constant blocks of the board files (pad addresses
  and modes), which the model uses as literals or abbreviations; the Hyp mode and the
  exception entry itself (the CPU's vectoring through VBAR), which is not code of the
  repository: the handler theorems start in the state the entry leaves; the \<open>n \<ge> MAX_ENDPOINTS\<close>
  panic of \<open>set\<close>; the goroutines of the endpoints themselves (only their start and
  stop are events of the loop); the \<open>ramStackOffset\<close> linkname of the FU540, a
  constant of the runtime; the work-packet defaults, \<open>cmd\<close> and mutex of the DCP
  package and the packages \<open>reg\<close>, \<open>dma\<close>, \<open>imx6\<close>, \<open>bcm2835\<close>, which are not under
  \<open>src/\<close> and are parameters of the model; the atomicity of \<open>Read64\<close>/\<open>Write64\<close>,
  which the sequential model takes as one step.
\<close>

section \<open>Concrete devices\<close>

text \<open>A device that answers every wait at its first read: registers read 0, the
  completion register reads all ones, DMA memory is zero, the allocator hands out
  4096-byte slots from \<open>0x100000\<close>, a millisecond holds two polls, and no channel is
  closed.\<close>

definition env0 :: hw_env where
  "env0 = \<lparr>rd = \<lambda>r t. if r = ENDPTCOMPLETE then - 1 else 0, cancelled = \<lambda>t. False,
     mem = \<lambda>t a. 0, alloc = \<lambda>k. 0x100000 + of_nat k * 4096, polls = \<lambda>ms. 2\<rparr>"



text \<open>The driver state after \<open>initQH\<close> and \<open>set\<close> for every endpoint, with the list at 0.\<close>

definition usb0 :: usb where
  "usb0 = \<lparr>clk = 0, nalloc = 0, trace = [], ep_list_addr = 0, dqh_addr = \<lambda>n d. of_nat (n * 2 + d) * 64\<rparr>"

text \<open>A device with one string descriptor, no configurations, no setup override and no
  configuration selected.\<close>

definition dev0 :: device where
  "dev0 = \<lparr>dev_descriptor = [18, 1], dev_configuration = \<lambda>i. None, dev_strings = [[4, 3, 9, 4]],
     dev_qualifier = [10, 6], dev_setup = None, configuration_value = 0, alternate_setting = 0\<rparr>"

text \<open>Setup packets as \<open>getSetup\<close> returns them (\<open>Value\<close> swapped): GET_DESCRIPTOR of
  string 5, GET_DESCRIPTOR of the device qualifier, SET_FEATURE, SET_CONFIGURATION 1.\<close>

definition setup_string5 :: setup_data where
  "setup_string5 = \<lparr>bmRequestType = 0x80, bRequest = 6, wValue = 0x0503, wIndex = 0, wLength = 255\<rparr>"

definition setup_qualifier :: setup_data where
  "setup_qualifier = \<lparr>bmRequestType = 0x80, bRequest = 6, wValue = 0x0006, wIndex = 0, wLength = 1\<rparr>"

definition setup_feature :: setup_data where
  "setup_feature = \<lparr>bmRequestType = 0, bRequest = 3, wValue = 0x0100, wIndex = 0, wLength = 0\<rparr>"

definition setup_config1 :: setup_data where
  "setup_config1 = \<lparr>bmRequestType = 0, bRequest = 9, wValue = 0x0100, wIndex = 0, wLength = 0\<rparr>"

text \<open>A controller that completes its reset and reports device mode at once.\<close>

definition env_dm :: hw_env where
  "env_dm = env0\<lparr>rd := \<lambda>r t. if r = USBMODE then 2 else if r = ENDPTCOMPLETE then - 1 else 0\<rparr>"


text \<open>A USB armory Mk II that is not a \<open>\<beta>\<close> board, whose \<open>soc/imx6\<close> accepts every
  pad and GPIO line and reads every input line low; the pad-control field positions and
  values are illustrative.\<close>

definition board0 :: board_env where
  "board0 = \<lparr>board_model = ''UA-MKII-LAN'', native = True, i2c_ok = True, PF1510_ADDR = 0x08,
     new_pad_ok = \<lambda>m p d. True, new_gpio_ok = \<lambda>n i m p. True,
     line_value = \<lambda>g k. False, SW_PAD_CTL_HYS = 16, SW_PAD_CTL_PUE = 13, SW_PAD_CTL_PKE = 12,
     SW_PAD_CTL_PUS = 14, SW_PAD_CTL_SPEED = 6, SW_PAD_CTL_DSE = 3, PUS_PULL_UP_100K = 0b10,
     PUS_PULL_DOWN_100K = 0, PUS_PULL_UP_22K = 0b11, SPEED_100MHZ = 0b10, SPEED_50MHZ = 0b01,
     DSE_2_R0_6 = 0b110, DSE_2_R0_4 = 0b100\<rparr>"

text \<open>The same board in its \<open>\<beta>\<close> revision.\<close>

definition board_beta :: board_env where
  "board_beta = board0\<lparr>board_model := MODEL_BETA\<rparr>"

text \<open>The reset line of the module, GPIO1_IO09.\<close>

definition gpio_reset :: gpio where
  "gpio_reset = \<lparr>g_num = 9, g_instance = 1, g_pad = \<lparr>p_mux = 0x020e0080, p_pad = 0x020e030c, p_daisy = 0\<rparr>\<rparr>"

text \<open>An i.MX6UL whose default DMA region is the first half of iRAM
  (\<open>IRAMStart = 0x00900000\<close>, \<open>IRAMSize = 0x20000\<close>), with \<open>DeriveKeyMemory\<close> at its
  default (all of iRAM), allocations in 64-byte steps, a co-processor that accepts every
  command and DMA memory reading \<open>0x42\<close>.\<close>

definition dcp_env0 :: dcp_env where
  "dcp_env0 = \<lparr>dma_default = \<lparr>r_start = 0x00900000, r_size = 0x10000\<rparr>,
     derive_key_memory = \<lparr>r_start = 0x00900000, r_size = 0x20000\<rparr>,
     iram = \<lparr>r_start = 0x00900000, r_size = 0x20000\<rparr>,
     region_alloc = \<lambda>rg k. r_start rg + of_nat k * 64, cmd_error = \<lambda>p. None,
     region_mem = \<lambda>rg a n. replicate n 0x42\<rparr>"

definition key16 :: "u8 list" where
  "key16 = [0, 1, 2, 3, 4, 5, 6, 7, 8, 9, 10, 11, 12, 13, 14, 15]"

text \<open>A \<open>\<gamma>\<close> USB armory on the hardware.\<close>

definition board_gamma :: board_env where
  "board_gamma = board0\<lparr>board_model := MODEL_GAMMA\<rparr>"

definition sd0 :: sd_board where
  "sd0 = \<lparr>sd_low_voltage = None, mmc_low_voltage = None, sd_io = []\<rparr>"

definition pizero0 :: pizero where
  "pizero0 = \<lparr>activity = None, led_io = []\<rparr>"

text \<open>A Raspberry Pi Zero whose mini UART transmitter is always empty.\<close>

definition uart_env0 :: uart_env where
  "uart_env0 = \<lparr>peripheral_base = 0x20000000, uart_rd = \<lambda>a k. 0x20, bcm_gpio_ok = \<lambda>n. True\<rparr>"

definition mmio0 :: mmio where
  "mmio0 = \<lparr>u_clk = 0, u_trace = []\<rparr>"

text \<open>An ARM core in System mode, and a Go handler that returns at once.\<close>

definition arm_env0 :: arm_env where
  "arm_env0 = \<lparr>system_exception = 0x80010000, call_ret = 0x80000040, call_on_g0 = Some\<rparr>"

definition arm0 :: arm where
  "arm0 = \<lparr>cpsr = 0x1f, spsr = \<lambda>m. 0x1f, gpr = \<lambda>i. of_nat i, gpr_fiq = \<lambda>i. 0,
     sp_bank = \<lambda>m. 0x80100000, lr_bank = \<lambda>m. 0x80000100, arm_pc = 0x80000000,
     arm_mem = \<lambda>a. 0, vbar = 0, mvbar = 0\<rparr>"

section \<open>Behaviours of the engine\<close>

lemma dtd_chunks_3: "dtd_chunks (Suc (Suc (Suc 0))) 0 = [(0, 3)]"
  by (simp add: dtd_chunks.simps [of "Suc (Suc (Suc 0))" 0])







section \<open>Witnesses\<close>

theorem transfer_ok_trace_witness:
  "\<exists>out s'. transfer env0 1 IN False (Some [1, 2, 3]) usb0 = Some ((out, None), s') \<and>
     (\<exists>pages (ds :: dtd list) es. trace s' = trace usb0 @ Alloc pages DTD_PAGE_SIZE [1, 2, 3] # es
        @ map Free (rev (map dtd_dma ds)) @ [Free pages] \<and> frees es = [] \<and> allocs DTD_ALIGN es = map dtd_dma ds
      \<and> map (\<lambda>d. unat (dtd_size d)) ds = map snd (dtd_chunks (length [1, 2, 3 :: u8]) 0)
      \<and> (\<forall>d\<in>set ds. \<exists>tok. Rd (MEM (dtd_dma d + DTD_TOKEN)) tok \<in> set es \<and> dtd_done IN tok))"
proof -
  have "map_option (snd \<circ> fst) (transfer env0 1 IN False (Some [1, 2, 3]) usb0) = Some None"
    by (simp add: transfer_eval hw_eval dtd_chunks_3 env0_def usb0_def)
  then obtain out s' where h: "transfer env0 1 IN False (Some [1, 2, 3]) usb0 = Some ((out, None), s')"
    by (auto split: option.splits)
  show ?thesis
    using h TransferEngine.transfer_ok_trace [OF h] by (simp add: transfer_data_def transfer_buf_def)
qed


theorem dtd_init_token_witness:
  "512 < (2::nat) ^ 16 \<and> token_total (dtd_token (dtd_init True 0x100000 512)) = 512 \<and>
     token_active (dtd_token (dtd_init True 0x100000 512)) \<and> token_ioc (dtd_token (dtd_init True 0x100000 512)) = True \<and>
     token_multo (dtd_token (dtd_init True 0x100000 512)) = 0"
  using TransferDescriptor.dtd_init_token [where sz = 512 and ioc = True and addr = "0x100000"] by simp

theorem dtd_of_bytes_dtd_bytes_witness:
  "length (dtd_buffer (dtd_init True 0x100000 512)) = DTD_PAGES \<and>
     dtd_of_bytes (take DTD_SIZE (dtd_bytes (dtd_init True 0x100000 512))) =
       (dtd_next (dtd_init True 0x100000 512), dtd_token (dtd_init True 0x100000 512), dtd_buffer (dtd_init True 0x100000 512))"
  using TransferDescriptor.dtd_of_bytes_dtd_bytes [of "dtd_init True 0x100000 512"] by simp

theorem dqh_config_info_witness:
  "64 < (2::nat) ^ 11 \<and> 0 < (4::nat) \<and>
     info_max_packet (qh_info (dqh_config 0 IN 64 True 0)) = 64 \<and> info_zlt (qh_info (dqh_config 0 IN 64 True 0)) = True \<and>
     info_mult (qh_info (dqh_config 0 IN 64 True 0)) = 0 \<and> info_ios (qh_info (dqh_config 0 IN 64 True 0)) = (0 = (0::nat) \<and> IN = IN)"
  using QueueHead.dqh_config_info [where max_pkt = 64 and mult = 0 and n = 0 and dir = IN and zlt = True] by simp


theorem qh_offset_disjoint_witness:
  "(0::nat) < MAX_ENDPOINTS \<and> OUT < (2::nat) \<and> (0::nat) < MAX_ENDPOINTS \<and> IN < (2::nat) \<and> ((0::nat), OUT) \<noteq> (0, IN) \<and>
     (qh_offset 0 OUT + DQH_SIZE \<le> qh_offset 0 IN \<or> qh_offset 0 IN + DQH_SIZE \<le> qh_offset 0 OUT)"
  using QueueHead.qh_offset_disjoint [of 0 OUT 0 IN] by simp

theorem setup_bytes_of_setup_bytes_witness:
  "length [0x80, 6, 0, 1, 0, 0, 0x40, 0 :: u8] = 8 \<and>
     setup_bytes (setup_of_bytes [0x80, 6, 0, 1, 0, 0, 0x40, 0]) = [0x80, 6, 0, 1, 0, 0, 0x40, 0]"
  using SetupPacket.setup_bytes_of_setup_bytes [of "[0x80, 6, 0, 1, 0, 0, 0x40, 0]"] by simp

theorem get_descriptor_string_invalid_witness:
  "wValue setup_string5 AND 0xff = STRING \<and> length (dev_strings dev0) \<le> unat (drop_bit 8 (wValue setup_string5)) \<and>
     get_descriptor env0 dev0 setup_string5 usb0 =
       Some (Some (InvalidStringIndex (drop_bit 8 (wValue setup_string5))), stall env0 0 IN usb0)"
proof -
  have h1: "wValue setup_string5 AND 0xff = STRING" by (simp add: setup_string5_def)
  have h2: "length (dev_strings dev0) \<le> unat (drop_bit 8 (wValue setup_string5))"
    by (simp add: setup_string5_def dev0_def drop_bit_eq_div)
  show ?thesis using h1 h2 Dispatch.get_descriptor_string_invalid [OF h1 h2] by simp
qed

theorem handle_setup_drops_errors_witness:
  "handle_standard_setup env0 dev0 setup_feature usb0 = Some ((Some (UnsupportedRequest 3), dev0), stall env0 0 IN usb0) \<and>
   (\<exists>err dev' s'. dev_setup dev0 = None \<and> handle_setup env0 dev0 (Some setup_feature) usb0 = Some ((err, dev'), s')
      \<and> err = None)"
proof -
  have d: "dev_setup dev0 = None" by (simp add: dev0_def)
  have h: "handle_setup env0 dev0 (Some setup_feature) usb0 = Some ((None, dev0), stall env0 0 IN usb0)"
    by (simp add: handle_setup_def setup_override_def handle_standard_setup_def d setup_feature_def)
  have "handle_standard_setup env0 dev0 setup_feature usb0 = Some ((Some (UnsupportedRequest 3), dev0), stall env0 0 IN usb0)"
    by (simp add: handle_standard_setup_def setup_feature_def)
  then show ?thesis using d h Dispatch.handle_setup_drops_errors [OF d h] by blast
qed

theorem get_descriptor_qualifier_witness:
  "wValue setup_qualifier AND 0xff = DEVICE_QUALIFIER \<and>
     get_descriptor env0 dev0 setup_qualifier usb0 = tx env0 0 False (dev_qualifier dev0) usb0"
proof -
  have h: "wValue setup_qualifier AND 0xff = DEVICE_QUALIFIER" by (simp add: setup_qualifier_def)
  show ?thesis using h Dispatch.get_descriptor_qualifier [OF h] by simp
qed

theorem handle_standard_setup_unsupported_witness:
  "bRequest setup_feature \<notin> {GET_STATUS, CLEAR_FEATURE, SET_ADDRESS, GET_DESCRIPTOR, GET_CONFIGURATION,
      SET_CONFIGURATION, GET_INTERFACE, SET_INTERFACE, SET_ETHERNET_PACKET_FILTER} \<and>
   handle_standard_setup env0 dev0 setup_feature usb0 =
     Some ((Some (UnsupportedRequest (bRequest setup_feature)), dev0), stall env0 0 IN usb0)"
proof -
  have h: "bRequest setup_feature \<notin> {GET_STATUS, CLEAR_FEATURE, SET_ADDRESS, GET_DESCRIPTOR, GET_CONFIGURATION,
      SET_CONFIGURATION, GET_INTERFACE, SET_INTERFACE, SET_ETHERNET_PACKET_FILTER}" by (simp add: setup_feature_def)
  show ?thesis using h Dispatch.handle_standard_setup_unsupported [OF h] by simp
qed

theorem handle_standard_setup_set_configuration_witness:
  "\<exists>err dev' s'. bRequest setup_config1 = SET_CONFIGURATION \<and>
     handle_standard_setup env0 dev0 setup_config1 usb0 = Some ((err, dev'), s') \<and>
     configuration_value dev' = ucast (drop_bit 8 (wValue setup_config1)) \<and> alternate_setting dev' = alternate_setting dev0 \<and>
     configuration_value dev' = 1"
proof -
  have r: "bRequest setup_config1 = SET_CONFIGURATION" by (simp add: setup_config1_def)
  have a: "ack env0 0 usb0 \<noteq> None"
    by (simp add: ack_def transfer_eval hw_eval dtd_chunks.simps [of 0 0] env0_def usb0_def numeral_2_eq_2)
  have "handle_standard_setup env0 dev0 setup_config1 usb0 =
      map_option (\<lambda>(err, s'). ((err, dev0\<lparr>configuration_value := 1\<rparr>), s')) (ack env0 0 usb0)"
    by (simp add: handle_standard_setup_def setup_config1_def drop_bit_eq_div)
  with a have "handle_standard_setup env0 dev0 setup_config1 usb0 \<noteq> None" by simp
  then obtain err dev' s' where h: "handle_standard_setup env0 dev0 setup_config1 usb0 = Some ((err, dev'), s')"
    by fastforce
  have "configuration_value dev' = ucast (drop_bit 8 (wValue setup_config1)) \<and> alternate_setting dev' = alternate_setting dev0"
    by (rule Dispatch.handle_standard_setup_set_configuration [OF r h])
  moreover have "ucast (drop_bit 8 (wValue setup_config1)) = (1::u8)" by (simp add: setup_config1_def drop_bit_eq_div)
  ultimately show ?thesis using r h by auto
qed

theorem reach_loop_inv_witness:
  "reach env0 dev0 usb0 (start_state dev0 usb0) \<and> configuration_value dev0 = 0 \<and>
     loop_inv (start_state dev0 usb0) \<and> frame usb0 (ls_hw (start_state dev0 usb0))"
proof -
  have r: "reach env0 dev0 usb0 (start_state dev0 usb0)" by (rule reach_start)
  have c: "configuration_value dev0 = 0" by (simp add: dev0_def)
  show ?thesis using r c DeviceLoop.reach_loop_inv [OF r c] by simp
qed


theorem device_mode_qh_witness:
  "\<exists>s'. device_mode env_dm usb0 = Some s' \<and> ep_list_addr s' = alloc env_dm (nalloc usb0) \<and>
     dqh_addr s' 0 OUT = ep_list_addr s' \<and> dqh_addr s' 0 IN = ep_list_addr s' + 64 \<and>
     Wr ENDPTLISTADDR (ep_list_addr s') \<in> set (trace s')"
proof -
  have m: "bits_get 2 0 3 = (2::u32)" by code_simp
  have "device_mode env_dm usb0 \<noteq> None"
    by (simp add: device_mode_def hw_eval env_dm_def env0_def usb0_def Let_def m)
  then obtain s' where h: "device_mode env_dm usb0 = Some s'" by blast
  show ?thesis using h DeviceLoop.device_mode_qh [OF h] by blast
qed


theorem ble_reach_inv_witness:
  "\<exists>st'. ble_step board_beta OpInit anna0 = Some st' \<and> errata st' \<and> anna_inv st'"
proof -
  define st' where "st' = the (returned (anna_init board_beta anna0))"
  have s: "ble_step board_beta OpInit anna0 = Some st'"
    by (simp add: st'_def ble_eval board_beta_def board0_def MODEL_BETA_def anna0_def)
  have "anna_inv st'" using BLE.ble_reach_inv [OF ble_reach.step [OF ble_reach.start s]] .
  moreover have "errata st'"
    by (simp add: st'_def ble_eval board_beta_def board0_def MODEL_BETA_def anna0_def)
  ultimately show ?thesis using s by blast
qed

theorem mode_switch_deadlock_witness:
  "\<exists>st'. ble_step board0 OpInit anna0 = Some st' \<and> anna_normal_mode st' = None \<and> anna_bootloader_mode st' = None"
proof -
  define st' where "st' = the (returned (anna_init board0 anna0))"
  have s: "ble_step board0 OpInit anna0 = Some st'"
    by (simp add: st'_def ble_eval board0_def MODEL_BETA_def anna0_def)
  have i: "anna_inv st'" "ble_reset st' \<noteq> None"
    by (simp_all add: st'_def ble_eval board0_def MODEL_BETA_def anna0_def anna_inv_def)
  show ?thesis using s BLE.mode_switch_deadlock [OF i] by blast
qed

theorem anna_reset_pulse_witness:
  "anna_reset (anna0\<lparr>ble_reset := Some gpio_reset\<rparr>) =
     Some (Inr (None, anna0\<lparr>ble_reset := Some gpio_reset,
       io := [Locked, GpioLow gpio_reset, Sleep 1000, GpioHigh gpio_reset, Unlocked]\<rparr>))"
  using BLE.anna_reset_pulse [of "anna0\<lparr>ble_reset := Some gpio_reset\<rparr>"] by (simp add: anna0_def)

theorem anna_init_dsr_swapped_witness:
  "\<exists>e st'. anna_init board0 anna0 = Some (Inr (e, st')) \<and>
     PadCtl IOMUXC_SW_PAD_CTL_PAD_UART3_TX_DATA GPIO_MODE \<in> set (io st')"
proof -
  obtain e st' where r: "anna_init board0 anna0 = Some (Inr (e, st'))"
    by (simp add: ble_eval board0_def MODEL_BETA_def anna0_def)
  show ?thesis using r BLE.anna_init_dsr_swapped [OF r] by blast
qed

theorem ble_flow_lines_safe_witness:
  "anna_rts board0 (anna0\<lparr>errata := True, ble_rts := Some gpio_reset, ble_cts := Some gpio_reset\<rparr>)
     \<noteq> Some (Inl ''nil pointer dereference'') \<and>
   anna_cts True (anna0\<lparr>errata := True, ble_rts := Some gpio_reset, ble_cts := Some gpio_reset\<rparr>)
     \<noteq> Some (Inl ''nil pointer dereference'')"
  by (rule BLE.ble_flow_lines_safe) (simp add: anna_inv_def anna0_def)

theorem anna_init_returns_witness:
  "(\<exists>st'. anna_init board0 anna0 = Some (Inr (None, st'))) \<and>
   anna_init (board0\<lparr>new_pad_ok := \<lambda>m p d. False\<rparr>) anna0 = Some (Inl ''NewPad'')"
  using BLE.anna_init_returns [of anna0 board0] BLE.anna_init_returns [of anna0 "board0\<lparr>new_pad_ok := \<lambda>m p d. False\<rparr>"]
  by (simp add: anna0_def board0_def)


theorem set_key_data_words_witness:
  "\<exists>locs ws. set_key_data 2 (Some key16) 0x1000 =
      Inr (None, concat (map (\<lambda>(l, w). [RegWrite DCP_KEY l, RegWrite DCP_KEYDATA w]) (zip locs ws))) \<and>
    length locs = 4 \<and> le32_list ws = key16"
  using DCP.set_key_data_words [of 2 key16 "0x1000"] by (auto simp: key16_def)

theorem set_key_short_panics_witness:
  "\<exists>es. set_key_data 0 (Some [1, 2, 3, 4, 5, 6]) 0 = Inl (''slice bounds out of range'', es) \<and> length es = 3"
  using DCP.set_key_short_panics [of 0 "[1, 2, 3, 4, 5, 6]" 0] by simp

theorem set_key_nil_reads_zero_witness:
  "\<exists>l0 l1 l2 l3. set_key 1 None = Inr (None, [RegWrite DCP_KEY l0, RegMove DCP_KEYDATA 0,
     RegWrite DCP_KEY l1, RegMove DCP_KEYDATA 4, RegWrite DCP_KEY l2, RegMove DCP_KEYDATA 8,
     RegWrite DCP_KEY l3, RegMove DCP_KEYDATA 12])"
  using DCP.set_key_nil_reads_zero [of 1] by simp

theorem derive_key_region_iram_start_witness:
  "\<exists>r es rg a b n. derive_key dcp_env0 [1, 2, 3] (replicate 16 0) 0 = Inr (r, es) \<and>
     DmaAlloc rg a b n \<in> set es \<and> rg = derive_key_memory dcp_env0 \<and> rg \<noteq> dma_default dcp_env0"
proof -
  obtain r es where d: "derive_key dcp_env0 [1, 2, 3] (replicate 16 0) 0 = Inr (r, es)" and
    a: "DmaAlloc \<lparr>r_start = 0x00900000, r_size = 0x20000\<rparr> 0x00900000 (dcp_pad [1, 2, 3] False) 16 \<in> set es"
    by (simp add: derive_key_def derive_key_region_def dcp_env0_def Let_def set_key_data_def set_key_loop_None)
  have "\<lparr>r_start = 0x00900000, r_size = 0x20000\<rparr> = derive_key_memory dcp_env0"
    using DCP.derive_key_region_iram_start [OF _ _ d a] by (simp add: dcp_env0_def)
  then show ?thesis using d a by (auto simp: dcp_env0_def)
qed

theorem derive_key_slot_returns_key_witness:
  "\<exists>es. derive_key dcp_env0 [1, 2, 3] (replicate 16 0) 0 = Inr ((Some (dcp_pad [1, 2, 3] False), None), es)"
proof -
  have "\<exists>es. derive_key dcp_env0 [1, 2, 3] (replicate 16 0) 0 = Inr ((Some (dcp_pad [1, 2, 3] False), None), es) \<and>
    (let rg = derive_key_region dcp_env0 0 in drop (length es - 3) es =
      [DmaFree rg (region_alloc dcp_env0 rg 2), DmaFree rg (region_alloc dcp_env0 rg 1), DmaFree rg (region_alloc dcp_env0 rg 0)])"
    by (rule DCP.derive_key_slot_returns_key) (simp_all add: dcp_env0_def derive_key_region_def)
  then show ?thesis by blast
qed


theorem uart_write_buf_console_witness:
  "\<exists>s'. uart_write_buf uart_env0 [0x41, 0x42] mmio0 = Some s' \<and> console uart_env0 (u_trace s') = [0x41, 0x42]"
proof -
  have "tx_ready uart_env0" by (auto simp: tx_ready_def uart_env0_def)
  from MiniUART.uart_write_buf_console [OF this, of "[0x41, 0x42]" mmio0] show ?thesis by (simp add: mmio0_def)
qed

theorem gpfsel1_alt5_fields_witness:
  "bits_get (gpfsel1_alt5 0xFFFFFFFF) 12 7 = 2 \<and> bits_get (gpfsel1_alt5 0xFFFFFFFF) 15 7 = 2 \<and>
   bit (gpfsel1_alt5 0xFFFFFFFF) 20 = bit (0xFFFFFFFF :: u32) 20"
proof -
  note f = MiniUART.gpfsel1_alt5_fields [of "0xFFFFFFFF"]
  have "bit (gpfsel1_alt5 0xFFFFFFFF) 20 = bit (0xFFFFFFFF :: u32) 20"
    using f [THEN conjunct2, THEN conjunct2, THEN spec [of _ 20]] by simp
  with f show ?thesis by blast
qed


theorem board_led_after_init_witness:
  "\<exists>st'. pizero_init (\<lambda>n. True) pizero0 = Inr st' \<and>
     board_led ''Activity'' True st' = Inr (None, st'\<lparr>led_io := led_io st' @ [LedHigh ACTIVITY]\<rparr>) \<and>
     board_led ''power'' True st' = Inr (Some ''invalid LED'', st')"
proof -
  obtain st' where i: "pizero_init (\<lambda>n. True) pizero0 = Inr st'" by (simp add: pizero_init_def)
  show ?thesis using i Boards.board_led_after_init [where name = "''Activity''" and on = True, OF i]
    Boards.board_led_after_init [where name = "''power''" and on = True, OF i] by auto
qed

theorem usbarmory_sd_init_order_witness:
  "\<exists>st'. usbarmory_sd_init board_gamma sd0 = Inr st' \<and> sd_low_voltage st' = Some LowVoltageSD"
proof -
  obtain st' where i: "usbarmory_sd_init board_gamma sd0 = Inr st'"
    by (simp add: usbarmory_sd_init_def board_gamma_def board0_def Let_def MODEL_BETA_def MODEL_GAMMA_def)
  have "native board_gamma" by (simp add: board_gamma_def board0_def)
  from Boards.usbarmory_sd_init_order [OF this i] i show ?thesis by (auto simp: board_gamma_def)
qed

theorem init_rng_source_witness:
  "get_random_data_fn (init_rng \<lparr>soc_native = True, soc_model = ''i.MX7D''\<rparr> \<lparr>get_random_data_fn = None, rng_io = []\<rparr>) = None \<and>
   rng_io (init_rng \<lparr>soc_native = True, soc_model = ''i.MX6UL''\<rparr> \<lparr>get_random_data_fn = None, rng_io = []\<rparr>) = [CaamInit, CaamSeedDRBG]"
  using Boards.init_rng_source [of "\<lparr>soc_native = True, soc_model = ''i.MX7D''\<rparr>" "\<lparr>get_random_data_fn = None, rng_io = []\<rparr>"]
    Boards.init_rng_source [of "\<lparr>soc_native = True, soc_model = ''i.MX6UL''\<rparr>" "\<lparr>get_random_data_fn = None, rng_io = []\<rparr>"]
  by (simp add: init_rng_def)

theorem set_key_data_refines_witness:
  "\<exists>es. set_key_data 1 (Some key16) 0 = Inr (None, es) \<and>
     key_slots (key_ram_run (\<lambda>a. 0) es \<lparr>key_sel = 0, key_slots = \<lambda>i j. 0\<rparr>) =
       set_key_spec 1 key16 (\<lambda>i j. 0)"
  using DCP.set_key_data_refines [of 1 key16 0 "\<lambda>a. 0" "\<lparr>key_sel = 0, key_slots = \<lambda>i j. 0\<rparr>"]
  by (simp add: key16_def)

theorem handlers_restore_witness:
  "\<exists>st'. exec arm_env0 0 (handler arm_env0 (IRQ, 4, 12, 56)) (arm0\<lparr>cpsr := 0x92\<rparr>) = Some st' \<and>
     gpr st' 5 = 5 \<and> arm_pc st' = 0x80000100 \<and> cpsr st' = 0x1f"
proof -
  have h: "g0_contract arm_env0" "g0_returns arm_env0" "(IRQ, 4, 12, 56) \<in> set handler_table"
    "mode_of (cpsr (arm0\<lparr>cpsr := 0x92\<rparr>)) = Some (vector_mode (fst (IRQ, 4 :: u32, 12 :: nat, 56 :: u32)))"
    by (simp_all add: g0_contract_def g0_returns_def arm_env0_def handler_table_def mode_of_def all_modes_def vector_mode_def)
  from ARM_Exceptions.handlers_restore [OF h, of 0] show ?thesis
    by (auto simp: arm0_def vector_mode_def)
qed

theorem set_exc_stack_banks_witness:
  "\<exists>st'. exec arm_env0 0x80200000 set_exc_stack arm0 = Some st' \<and> sp_bank st' Irq = 0x80200000 \<and>
     sp_bank st' Und = 0x80200000 \<and> sp_bank st' Fiq = 0x80100000 \<and> arm_pc st' = 0x80000100"
proof -
  have "mode_of (cpsr arm0) = Some Sys" "Sys \<noteq> Usr" by (simp_all add: arm0_def mode_of_def all_modes_def)
  from ARM_Exceptions.set_exc_stack_banks [OF this, of arm_env0 "0x80200000"] show ?thesis
    by (auto simp: arm0_def)
qed


end
